(* ===== verification/Prelude.thy ===== *)
theory Prelude
  imports Main "HOL-Library.Char_ord"
begin

text \<open>
  Shared vocabulary of the development: the fact collections the component theories
  fill, the types that stand for Python values, and the generic facts about lists and
  truth values that the component proofs are built from.

  \<^item> A Python \<open>str\<close> is a \<open>string\<close> (a list of \<open>char\<close>); one \<open>char\<close> stands for
    one code point, so \<open>length\<close> is Python's \<open>len\<close>. Code points above 255 are not
    representable; for the strength scorer they behave like any character outside the
    four reference sets.
  \<^item> A Python \<open>int\<close> is an \<open>int\<close>; a flag is a \<open>bool\<close>.
  \<^item> An exception of the Python runtime is a value of \<open>py_exception\<close>; a computation
    that may raise returns \<open>py_exception + 'a\<close> with \<open>Inl\<close> for the raise.
  \<^item> The operating system's random source is an \<open>entropy\<close> tape: the list of values
    its next reads will deliver. An empty tape is a source that is not available.
\<close>

section \<open>Fact collections\<close>

named_theorems charset_defs \<open>definitions of the reference character sets\<close>
named_theorems charset_simps \<open>evaluated facts about the reference character sets\<close>
named_theorems pool_defs \<open>definitions of the pool builder\<close>
named_theorems strength_defs \<open>definitions of the strength scorer's specification\<close>

section \<open>Python values\<close>

datatype py_exception =
  IndexError | RandomSourceUnavailable | EOFError | ValueError | TypeError | SystemExit int

type_synonym entropy = "nat list"

type_synonym 'a raising = "py_exception + 'a"

type_synonym 'a drawing = "'a raising \<times> entropy"

section \<open>Lists\<close>

lemma nth_mod_mem [simp, intro]: "xs \<noteq> [] \<Longrightarrow> xs ! (r mod length xs) \<in> set xs"
  by simp

lemma list_ex_mono_append: "list_ex P xs \<Longrightarrow> list_ex P (xs @ ys)"
  by simp

lemma list_ex_set_cong: "set xs = set ys \<Longrightarrow> list_ex P xs = list_ex P ys"
  by (simp add: list_ex_iff)

lemma list_ex_subset: "set xs \<subseteq> set ys \<Longrightarrow> list_ex P xs \<Longrightarrow> list_ex P ys"
  by (auto simp: list_ex_iff)

lemma list_ex_disjoint: "set xs \<subseteq> A \<Longrightarrow> A \<inter> set S = {} \<Longrightarrow> \<not> list_ex (\<lambda>c. c \<in> set S) xs"
  by (auto simp: list_ex_iff)

lemma distinct_filter_append:
  "distinct (xs @ ys) \<Longrightarrow> distinct (filter P xs @ filter P ys)"
  by (metis distinct_filter filter_append)

lemma map_nth_in_range:
  "set rs \<subseteq> {..<length xs} \<Longrightarrow> set (map ((!) xs) rs) \<subseteq> set xs"
  by auto

lemma map_nth_inj:
  assumes "distinct xs" "set rs \<subseteq> {..<length xs}" "set rs' \<subseteq> {..<length xs}"
    and "map ((!) xs) rs = map ((!) xs) rs'"
  shows "rs = rs'"
proof -
  from assms(1) have "inj_on ((!) xs) {..<length xs}"
    by (simp add: inj_on_nth)
  then have "inj_on (map ((!) xs)) {rs. set rs \<subseteq> {..<length xs}}"
    by (rule inj_on_mapI [OF inj_on_subset]) auto
  with assms(2-4) show ?thesis
    by (auto dest: inj_onD)
qed

lemma map_nth_surj:
  assumes "set ys \<subseteq> set xs"
  shows "\<exists>rs. length rs = length ys \<and> set rs \<subseteq> {..<length xs} \<and> map ((!) xs) rs = ys"
  using assms
proof (induction ys)
  case Nil
  then show ?case by simp
next
  case (Cons y ys)
  then obtain rs where rs: "length rs = length ys" "set rs \<subseteq> {..<length xs}" "map ((!) xs) rs = ys"
    by auto
  from Cons.prems obtain i where "i < length xs" "xs ! i = y"
    by (auto simp: in_set_conv_nth)
  with rs have "length (i # rs) = length (y # ys) \<and> set (i # rs) \<subseteq> {..<length xs}
      \<and> map ((!) xs) (i # rs) = y # ys"
    by simp
  then show ?case by (intro exI)
qed

section \<open>Counting truth values\<close>

lemma of_bool_int_bounds [simp]: "0 \<le> (of_bool b :: int)" "(of_bool b :: int) \<le> 1"
  by simp_all

lemma of_bool_mono: "(a \<Longrightarrow> b) \<Longrightarrow> (of_bool a :: int) \<le> of_bool b"
  by (cases a; cases b) simp_all

end
