(* ===== verification/Charsets.thy ===== *)
theory Charsets
  imports Prelude
begin

text \<open>
  The reference character sets of \<^verbatim>\<open>src/password_logic.py\<close> (lines 6 to 13). The first
  four are constants of Python's \<open>string\<close> module, written out with the values the
  language reference gives them; a character that cannot stand in a string literal
  here is given by its code. The lemmas fix their sizes, that no character occurs
  twice, that the four classes are pairwise disjoint, which ASCII codes they hold, and
  what is left of each class when the similar-looking characters are removed.
\<close>

section \<open>The constants\<close>

definition UPPERCASE :: string where
  "UPPERCASE = ''ABCDEFGHIJKLMNOPQRSTUVWXYZ''"

definition LOWERCASE :: string where
  "LOWERCASE = ''abcdefghijklmnopqrstuvwxyz''"

definition NUMBERS :: string where
  "NUMBERS = ''0123456789''"

definition SYMBOLS :: string where
  "SYMBOLS = ''!'' @ [CHR 0x22] @ ''#$%&'' @ [CHR 0x27] @ ''()*+,-./:;<=>?@[''
     @ [CHR 0x5C] @ '']^_'' @ [CHR 0x60] @ ''{|}~''"

definition SIMILAR_CHARS :: string where
  "SIMILAR_CHARS = ''il1Lo0O''"

definition AMBIGUOUS_CHARS :: string where
  "AMBIGUOUS_CHARS = ''{}[]()/'' @ [CHR 0x27, CHR 0x22, CHR 0x60] @ ''~,;:.<>''"

declare UPPERCASE_def [charset_defs] LOWERCASE_def [charset_defs] NUMBERS_def [charset_defs]
  SYMBOLS_def [charset_defs] SIMILAR_CHARS_def [charset_defs] AMBIGUOUS_CHARS_def [charset_defs]

section \<open>Character classes\<close>

text \<open>
  The specification speaks of four character classes, each backed by one of the
  reference sets. The code has no such type (it passes four flags); the type is used
  to state what the code computes in the specification's terms.
\<close>

datatype char_class = Uppercase | Lowercase | Digit | Symbol

primrec reference_set :: "char_class \<Rightarrow> string" where
  "reference_set Uppercase = UPPERCASE"
| "reference_set Lowercase = LOWERCASE"
| "reference_set Digit = NUMBERS"
| "reference_set Symbol = SYMBOLS"

instantiation char_class :: enum
begin

definition "enum_class.enum = [Uppercase, Lowercase, Digit, Symbol]"

definition "enum_class.enum_all P \<longleftrightarrow> P Uppercase \<and> P Lowercase \<and> P Digit \<and> P Symbol"

definition "enum_class.enum_ex P \<longleftrightarrow> P Uppercase \<or> P Lowercase \<or> P Digit \<or> P Symbol"

instance
proof
  show "(UNIV :: char_class set) = set enum_class.enum"
    by (auto simp: enum_char_class_def intro: char_class.exhaust)
  show "distinct (enum_class.enum :: char_class list)"
    by (simp add: enum_char_class_def)
  show "enum_class.enum_all P \<longleftrightarrow> Ball UNIV P" for P :: "char_class \<Rightarrow> bool"
    unfolding enum_all_char_class_def by (metis (full_types) UNIV_I char_class.exhaust)
  show "enum_class.enum_ex P \<longleftrightarrow> Bex UNIV P" for P :: "char_class \<Rightarrow> bool"
    unfolding enum_ex_char_class_def by (metis (full_types) UNIV_I char_class.exhaust)
qed

end

section \<open>Sizes and ASCII codes\<close>

lemma charset_lengths [charset_simps, simp]:
  "length UPPERCASE = 26" "length LOWERCASE = 26" "length NUMBERS = 10"
  "length SYMBOLS = 32" "length SIMILAR_CHARS = 7" "length AMBIGUOUS_CHARS = 17"
  by (simp_all add: charset_defs)

lemma charset_nonempty [charset_simps, simp]:
  "UPPERCASE \<noteq> []" "LOWERCASE \<noteq> []" "NUMBERS \<noteq> []" "SYMBOLS \<noteq> []"
  by (simp_all add: charset_defs)

lemma UPPERCASE_codes: "map of_char UPPERCASE = [65..<(91::nat)]"
  by (simp add: charset_defs upt_rec)

lemma LOWERCASE_codes: "map of_char LOWERCASE = [97..<(123::nat)]"
  by (simp add: charset_defs upt_rec)

lemma NUMBERS_codes: "map of_char NUMBERS = [48..<(58::nat)]"
  by (simp add: charset_defs upt_rec)

lemma SYMBOLS_codes:
  "map of_char SYMBOLS = [33..<48] @ [58..<65] @ [91..<97] @ [123..<(127::nat)]"
  by (simp add: charset_defs upt_rec)

lemma mem_by_code:
  "c \<in> set cs \<longleftrightarrow> (of_char c :: nat) \<in> set (map of_char cs)"
  by (auto simp: inj_image_mem_iff inj_on_def)

section \<open>No duplicates, no overlaps\<close>

lemma distinct_all_classes: "distinct (UPPERCASE @ LOWERCASE @ NUMBERS @ SYMBOLS)"
  by (simp add: charset_defs)

lemma charset_distinct [charset_simps, simp]:
  "distinct UPPERCASE" "distinct LOWERCASE" "distinct NUMBERS" "distinct SYMBOLS"
  using distinct_all_classes by simp_all

lemma charset_disjoint [charset_simps, simp]:
  "set UPPERCASE \<inter> set LOWERCASE = {}" "set UPPERCASE \<inter> set NUMBERS = {}"
  "set UPPERCASE \<inter> set SYMBOLS = {}" "set LOWERCASE \<inter> set NUMBERS = {}"
  "set LOWERCASE \<inter> set SYMBOLS = {}" "set NUMBERS \<inter> set SYMBOLS = {}"
  using distinct_all_classes by (simp_all add: Int_Un_distrib Int_Un_distrib2 Int_commute)

lemma charset_disjoint_sym [charset_simps, simp]:
  "set LOWERCASE \<inter> set UPPERCASE = {}" "set NUMBERS \<inter> set UPPERCASE = {}"
  "set SYMBOLS \<inter> set UPPERCASE = {}" "set NUMBERS \<inter> set LOWERCASE = {}"
  "set SYMBOLS \<inter> set LOWERCASE = {}" "set SYMBOLS \<inter> set NUMBERS = {}"
  using charset_disjoint by blast+

lemma distinct_SIMILAR_CHARS [charset_simps, simp]: "distinct SIMILAR_CHARS"
  by (simp add: charset_defs)

section \<open>Removing the similar-looking characters\<close>

lemma UPPERCASE_without_similar [charset_simps]:
  "filter (\<lambda>c. c \<notin> set SIMILAR_CHARS) UPPERCASE = ''ABCDEFGHIJKMNPQRSTUVWXYZ''"
  by (simp add: charset_defs)

lemma LOWERCASE_without_similar [charset_simps]:
  "filter (\<lambda>c. c \<notin> set SIMILAR_CHARS) LOWERCASE = ''abcdefghjkmnpqrstuvwxyz''"
  by (simp add: charset_defs)

lemma NUMBERS_without_similar [charset_simps]:
  "filter (\<lambda>c. c \<notin> set SIMILAR_CHARS) NUMBERS = ''23456789''"
  by (simp add: charset_defs)

lemma SYMBOLS_without_similar [charset_simps]:
  "filter (\<lambda>c. c \<notin> set SIMILAR_CHARS) SYMBOLS = SYMBOLS"
  by (simp add: charset_defs)

lemma SIMILAR_CHARS_classes:
  "set SIMILAR_CHARS \<subseteq> set UPPERCASE \<union> set LOWERCASE \<union> set NUMBERS"
  by (simp add: charset_defs)

section \<open>Facts about the character classes\<close>

lemma UNIV_char_class: "UNIV = {Uppercase, Lowercase, Digit, Symbol}"
  by (auto intro: char_class.exhaust)

lemma char_class_listed: "k \<in> set [Uppercase, Lowercase, Digit, Symbol]"
  by (cases k) simp_all

lemma Collect_char_class:
  "{k. P k} = set (filter P [Uppercase, Lowercase, Digit, Symbol])"
  unfolding set_filter using char_class_listed by blast

lemma card_Collect_char_class:
  "card {k. P k} = length (filter P [Uppercase, Lowercase, Digit, Symbol])"
  unfolding Collect_char_class by (rule distinct_card) simp

lemma reference_set_distinct [simp]: "distinct (reference_set k)"
  by (cases k) simp_all

lemma reference_set_disjoint:
  "k \<noteq> k' \<Longrightarrow> set (reference_set k) \<inter> set (reference_set k') = {}"
  by (cases k; cases k') simp_all

lemma reference_set_unique:
  "c \<in> set (reference_set k) \<Longrightarrow> c \<in> set (reference_set k') \<Longrightarrow> k = k'"
  using reference_set_disjoint by blast

section \<open>The four classes together\<close>

lemma charset_codes_union:
  "set (map of_char (UPPERCASE @ LOWERCASE @ NUMBERS @ SYMBOLS)) = {33..<(127::nat)}"
  unfolding map_append set_append UPPERCASE_codes LOWERCASE_codes NUMBERS_codes SYMBOLS_codes set_upt
  by auto

text \<open>
  C20. The four reference sets hold no character twice, are pairwise disjoint, and
  together are exactly the 94 printable ASCII characters other than the space (codes
  33 to 126).
\<close>

theorem classes_partition_printable:
  "distinct (UPPERCASE @ LOWERCASE @ NUMBERS @ SYMBOLS)
   \<and> set (UPPERCASE @ LOWERCASE @ NUMBERS @ SYMBOLS)
      = {c. 33 \<le> (of_char c :: nat) \<and> (of_char c :: nat) < 127}"
proof -
  have "c \<in> set (UPPERCASE @ LOWERCASE @ NUMBERS @ SYMBOLS)
      \<longleftrightarrow> 33 \<le> (of_char c :: nat) \<and> (of_char c :: nat) < 127" for c
    by (subst mem_by_code) (simp only: charset_codes_union atLeastLessThan_iff)
  with distinct_all_classes show ?thesis by blast
qed

end
