(* ===== verification/Strength.thy ===== *)
theory Strength
  imports Charsets
begin

text \<open>
  The strength scorer: \<open>check_strength\<close> of \<^verbatim>\<open>src/password_logic.py\<close> (lines 49 to 90),
  translated statement by statement; the running \<open>score\<close> is rebound as the code
  reassigns it. The second half states the scoring rules of the specification over
  the length of the password and the set of character classes present in it, and
  proves that the code computes exactly that; the properties of the scorer are then
  short consequences.
\<close>

section \<open>The code\<close>

definition check_strength :: "string \<Rightarrow> string \<times> int" where
  "check_strength password =
     (if password = [] then (''EMPTY'', 0)
      else
        let len = int (length password);
            has_lower = list_ex (\<lambda>c. c \<in> set LOWERCASE) password;
            has_upper = list_ex (\<lambda>c. c \<in> set UPPERCASE) password;
            has_number = list_ex (\<lambda>c. c \<in> set NUMBERS) password;
            has_symbol = list_ex (\<lambda>c. c \<in> set SYMBOLS) password;
            score = 0;
            score = (if len \<ge> 8 then score + 1 else score);
            score = (if len \<ge> 12 then score + 1 else score);
            score = (if len \<ge> 16 then score + 1 else score);
            score = (if has_lower then score + 1 else score);
            score = (if has_upper then score + 1 else score);
            score = (if has_number then score + 1 else score);
            score = (if has_symbol then score + 1 else score);
            variety = (of_bool has_lower + of_bool has_upper + of_bool has_number
              + of_bool has_symbol :: int);
            score = (if variety \<ge> 3 then score + 1 else score)
        in if score \<ge> 7 then (''STRONG'', score)
           else if score \<ge> 4 then (''MEDIUM'', score)
           else (''WEAK'', score))"

section \<open>The scoring rules of the specification\<close>

datatype strength_label = EMPTY | WEAK | MEDIUM | STRONG

primrec label_name :: "strength_label \<Rightarrow> string" where
  "label_name EMPTY = ''EMPTY''"
| "label_name WEAK = ''WEAK''"
| "label_name MEDIUM = ''MEDIUM''"
| "label_name STRONG = ''STRONG''"

definition classes_present :: "string \<Rightarrow> char_class set" where
  "classes_present password = {k. list_ex (\<lambda>c. c \<in> set (reference_set k)) password}"

definition length_bonus :: "nat \<Rightarrow> int" where
  "length_bonus n = of_bool (8 \<le> n) + of_bool (12 \<le> n) + of_bool (16 \<le> n)"

definition score_spec :: "nat \<Rightarrow> char_class set \<Rightarrow> int" where
  "score_spec n ks = length_bonus n + int (card ks) + of_bool (3 \<le> card ks)"

definition label_spec :: "int \<Rightarrow> strength_label" where
  "label_spec score = (if 7 \<le> score then STRONG else if 4 \<le> score then MEDIUM else WEAK)"

definition strength_spec :: "string \<Rightarrow> strength_label \<times> int" where
  "strength_spec password =
     (if password = [] then (EMPTY, 0)
      else let score = score_spec (length password) (classes_present password)
           in (label_spec score, score))"

declare classes_present_def [strength_defs] length_bonus_def [strength_defs]
  score_spec_def [strength_defs] label_spec_def [strength_defs] strength_spec_def [strength_defs]

section \<open>Facts about the specification\<close>

lemma label_name_inj [simp]: "label_name a = label_name b \<longleftrightarrow> a = b"
  by (cases a; cases b) simp_all

lemma length_bonus_bounds [simp]: "0 \<le> length_bonus n" "length_bonus n \<le> 3"
  by (simp_all add: length_bonus_def)

lemma length_bonus_mono: "m \<le> n \<Longrightarrow> length_bonus m \<le> length_bonus n"
  by (simp add: length_bonus_def)

lemma card_char_class_le [simp]: "card (ks :: char_class set) \<le> 4"
proof -
  have "card ks \<le> card (UNIV :: char_class set)"
    by (rule card_mono) simp_all
  also have "card (UNIV :: char_class set) = 4"
    by (simp add: UNIV_char_class)
  finally show ?thesis .
qed

lemma score_spec_bounds [simp]: "0 \<le> score_spec n ks" "score_spec n ks \<le> 8"
proof -
  have "int (card ks) \<le> 4" "(of_bool (3 \<le> card ks) :: int) \<le> 1"
    using card_char_class_le [of ks] by simp_all
  with length_bonus_bounds [of n] show "score_spec n ks \<le> 8"
    unfolding score_spec_def by linarith
  show "0 \<le> score_spec n ks"
    by (simp add: score_spec_def)
qed

lemma score_spec_mono:
  assumes "m \<le> n" "ks \<subseteq> ks'"
  shows "score_spec m ks \<le> score_spec n ks'"
proof -
  from assms(2) have "card ks \<le> card ks'" by (simp add: card_mono)
  with length_bonus_mono [OF assms(1)] show ?thesis
    by (simp add: score_spec_def)
qed

lemma classes_present_Nil [simp]: "classes_present [] = {}"
  by (simp add: classes_present_def)

lemma classes_present_append [simp]:
  "classes_present (xs @ ys) = classes_present xs \<union> classes_present ys"
  by (auto simp: classes_present_def)

lemma classes_present_set_cong:
  "set xs = set ys \<Longrightarrow> classes_present xs = classes_present ys"
  by (simp add: classes_present_def list_ex_iff)

lemma classes_present_mem:
  "k \<in> classes_present password \<longleftrightarrow> set password \<inter> set (reference_set k) \<noteq> {}"
  by (auto simp: classes_present_def list_ex_iff)

lemma card_classes_present:
  "int (card (classes_present password)) =
     of_bool (list_ex (\<lambda>c. c \<in> set LOWERCASE) password)
   + of_bool (list_ex (\<lambda>c. c \<in> set UPPERCASE) password)
   + of_bool (list_ex (\<lambda>c. c \<in> set NUMBERS) password)
   + of_bool (list_ex (\<lambda>c. c \<in> set SYMBOLS) password)"
  by (simp add: classes_present_def card_Collect_char_class)

section \<open>The code computes the specification\<close>

text \<open>
  The one lemma that looks inside the code: the reassigned \<open>score\<close> is the sum the
  specification describes, and the three-way test is \<open>label_spec\<close>. Every property
  below is proved from it and from the facts about the specification.
\<close>

lemma check_strength_unfold:
  "check_strength password =
     (if password = [] then (''EMPTY'', 0)
      else (label_name (label_spec (score_spec (length password) (classes_present password))),
            score_spec (length password) (classes_present password)))"
proof (cases "password = []")
  case True
  then show ?thesis by (simp add: check_strength_def)
next
  case False
  have v: "(3 \<le> card (classes_present password))
      = (3 \<le> int (card (classes_present password)))"
    by simp
  show ?thesis
    using False unfolding check_strength_def score_spec_def v
      card_classes_present length_bonus_def label_spec_def
    by (simp add: Let_def)
qed

lemma snd_check_strength:
  "snd (check_strength pw)
     = (if pw = [] then 0 else score_spec (length pw) (classes_present pw))"
  by (simp add: check_strength_unfold)

lemma fst_check_strength:
  "fst (check_strength pw)
     = label_name (if pw = [] then EMPTY else label_spec (score_spec (length pw) (classes_present pw)))"
  by (simp add: check_strength_unfold)

lemma label_spec_STRONG_iff: "label_spec x = STRONG \<longleftrightarrow> 7 \<le> x"
  by (simp add: label_spec_def)

lemma label_spec_not_EMPTY [simp]: "label_spec x \<noteq> EMPTY"
  by (simp add: label_spec_def)

lemma score_spec_ge7_iff:
  "7 \<le> score_spec k ks \<longleftrightarrow> (card ks = 4 \<and> 12 \<le> k) \<or> (card ks = 3 \<and> 16 \<le> k)"
proof -
  have "card ks \<le> 4" by simp
  then consider "card ks = 0" | "card ks = 1" | "card ks = 2" | "card ks = 3" | "card ks = 4"
    by linarith
  then show ?thesis
    by cases (auto simp: score_spec_def length_bonus_def)
qed

lemma length_bonus_eq0_iff [simp]: "length_bonus k = 0 \<longleftrightarrow> k < 8"
  by (auto simp: length_bonus_def of_bool_def split: if_splits)

lemma score_spec_eq0_iff: "score_spec k ks = 0 \<longleftrightarrow> k < 8 \<and> ks = {}"
proof -
  have "score_spec k ks = 0 \<longleftrightarrow> length_bonus k = 0 \<and> card ks = 0"
    unfolding score_spec_def by (auto simp: add_nonneg_eq_0_iff)
  then show ?thesis by auto
qed

section \<open>Properties of the scorer\<close>

text \<open>
  C3. \<open>check_strength\<close> computes the scoring rules of the specification: the empty
  password is \<open>EMPTY\<close> with score 0; any other password scores one point for each of
  the lengths 8, 12 and 16 it reaches, one point for each character class present in
  it, and one more when at least three classes are present; the label is \<open>STRONG\<close> from
  7 points, \<open>MEDIUM\<close> from 4 and \<open>WEAK\<close> below.
\<close>

theorem check_strength_refines_spec:
  "check_strength password =
     (label_name (fst (strength_spec password)), snd (strength_spec password))"
  by (simp add: check_strength_unfold strength_spec_def Let_def)

text \<open>
  C7. The score \<open>check_strength\<close> returns lies between 0 and 8, for every string.
\<close>

theorem check_strength_bounds:
  "0 \<le> snd (check_strength password) \<and> snd (check_strength password) \<le> 8"
  by (simp add: snd_check_strength)

text \<open>
  C8. \<open>check_strength\<close> rates a password \<open>STRONG\<close> exactly when it holds characters
  of all four classes and is at least 12 long, or holds characters of three classes
  and is at least 16 long.
\<close>

theorem check_strength_strong_iff:
  "fst (check_strength password) = ''STRONG'' \<longleftrightarrow>
     (card (classes_present password) = 4 \<and> 12 \<le> length password)
   \<or> (card (classes_present password) = 3 \<and> 16 \<le> length password)"
proof (cases "password = []")
  case True
  then show ?thesis by (simp add: fst_check_strength)
next
  case False
  have "fst (check_strength password) = label_name STRONG
      \<longleftrightarrow> 7 \<le> score_spec (length password) (classes_present password)"
    using False unfolding fst_check_strength label_name_inj by (simp add: label_spec_STRONG_iff)
  then show ?thesis
    by (simp add: score_spec_ge7_iff)
qed

text \<open>
  C12. Appending characters to a password never lowers the score \<open>check_strength\<close>
  gives it; in particular the score does not fall when the length crosses 8, 12 or 16.
\<close>

theorem check_strength_extend:
  "snd (check_strength password) \<le> snd (check_strength (password @ more))"
  by (auto simp: snd_check_strength intro!: score_spec_mono)

text \<open>
  \<open>check_strength\<close> answers \<open>EMPTY\<close> for the empty string and for no other.
\<close>

theorem check_strength_empty_iff:
  "fst (check_strength password) = ''EMPTY'' \<longleftrightarrow> password = []"
proof -
  have "fst (check_strength password) = label_name EMPTY \<longleftrightarrow> password = []"
    unfolding fst_check_strength label_name_inj by simp
  then show ?thesis by simp
qed

text \<open>
  C15. The rating depends only on which characters occur in a password and on how
  long it is, not on their order or on how often each occurs.
\<close>

theorem check_strength_order_free:
  assumes "set password = set password'" and "length password = length password'"
  shows "check_strength password = check_strength password'"
proof -
  from assms(2) have "password = [] \<longleftrightarrow> password' = []" by auto
  with assms show ?thesis
    by (simp add: check_strength_unfold classes_present_set_cong [OF assms(1)])
qed

theorem check_strength_order_free_witness:
  "set ''a1B'' = set ''B1a'' \<and> length ''a1B'' = length ''B1a''
   \<and> check_strength ''a1B'' = check_strength ''B1a''"
  using check_strength_order_free [of "''a1B''" "''B1a''"] by auto

text \<open>
  The label \<open>check_strength\<close> returns is determined by the score it returns:
  \<open>STRONG\<close> from 7, \<open>MEDIUM\<close> from 4 to 6, \<open>WEAK\<close> below 4, with \<open>EMPTY\<close> kept for the
  empty string.
\<close>

theorem check_strength_label:
  "fst (check_strength password) =
     (if password = [] then ''EMPTY''
      else if 7 \<le> snd (check_strength password) then ''STRONG''
      else if 4 \<le> snd (check_strength password) then ''MEDIUM''
      else ''WEAK'')"
  by (simp add: check_strength_unfold label_spec_def)

text \<open>
  The worked examples of the specification: a 12-character password with all
  four classes is \<open>STRONG\<close> with score 7, \<open>abc\<close> is \<open>WEAK\<close> with score 1, and the
  empty string is \<open>EMPTY\<close> with score 0.
\<close>

theorem check_strength_examples:
  "check_strength ''abcdEFGH12!@'' = (''STRONG'', 7)
   \<and> check_strength ''abc'' = (''WEAK'', 1)
   \<and> check_strength [] = (''EMPTY'', 0)"
  by (simp add: check_strength_def charset_defs)

text \<open>
  A password that is not empty scores 0 exactly when it is shorter than 8 and
  holds no character of any of the four classes; it is then rated \<open>WEAK\<close>.
\<close>

theorem check_strength_zero_iff:
  assumes "password \<noteq> []"
  shows "(snd (check_strength password) = 0
      \<longleftrightarrow> length password < 8 \<and> classes_present password = {})
    \<and> (snd (check_strength password) = 0 \<longrightarrow> fst (check_strength password) = ''WEAK'')"
proof -
  have "fst (check_strength password) = ''WEAK''" if "snd (check_strength password) = 0"
    using that assms by (simp add: check_strength_unfold label_spec_def)
  moreover have "snd (check_strength password) = 0
      \<longleftrightarrow> length password < 8 \<and> classes_present password = {}"
    using assms by (simp add: snd_check_strength score_spec_eq0_iff)
  ultimately show ?thesis by blast
qed

theorem check_strength_zero_iff_witness:
  "'' '' \<noteq> [] \<and> snd (check_strength '' '') = 0 \<and> fst (check_strength '' '') = ''WEAK''
   \<and> length '' '' < 8 \<and> classes_present '' '' = {}"
  using check_strength_zero_iff [of "'' ''"]
  by (simp add: check_strength_def charset_defs)

end
