(* ===== verification/Random_Source.thy ===== *)
theory Random_Source
  imports Prelude
begin

text \<open>
  The one call the generator makes into Python's \<open>secrets\<close> module:
  \<open>secrets.choice(seq)\<close>. The library is not part of the repository; it is modelled
  from its documented behaviour. \<open>choice\<close> raises \<open>IndexError\<close> on an empty
  sequence before it reads the random source; otherwise it reads one value \<open>r\<close> from
  the source and returns the element at index \<open>r mod length seq\<close>. The library
  guarantees an index below the length, and for such values the reduction is the
  identity; it is there so that the model is total. A source that cannot deliver is
  an empty tape, and the read raises \<open>RandomSourceUnavailable\<close>.
\<close>

definition choice :: "'a list \<Rightarrow> entropy \<Rightarrow> 'a drawing" where
  "choice seq rng =
     (if seq = [] then (Inl IndexError, rng)
      else case rng of
             [] \<Rightarrow> (Inl RandomSourceUnavailable, [])
           | r # rng' \<Rightarrow> (Inr (seq ! (r mod length seq)), rng'))"

lemma choice_empty [simp]: "choice [] rng = (Inl IndexError, rng)"
  by (simp add: choice_def)

lemma choice_unavailable [simp]:
  "seq \<noteq> [] \<Longrightarrow> choice seq [] = (Inl RandomSourceUnavailable, [])"
  by (simp add: choice_def)

lemma choice_Cons [simp]:
  "seq \<noteq> [] \<Longrightarrow> choice seq (r # rng) = (Inr (seq ! (r mod length seq)), rng)"
  by (simp add: choice_def)

lemma choice_in_range:
  "r < length seq \<Longrightarrow> choice seq (r # rng) = (Inr (seq ! r), rng)"
  by (cases seq) (simp_all add: choice_def)

lemma choice_returns_member:
  "choice seq rng = (Inr x, rng') \<Longrightarrow> x \<in> set seq"
  by (auto simp: choice_def split: if_splits list.splits)

lemma choice_reads_one:
  "choice seq rng = (Inr x, rng') \<Longrightarrow> rng = hd rng # rng' "
  by (auto simp: choice_def split: if_splits list.splits)

lemma choice_every_member:
  assumes "x \<in> set seq"
  shows "\<exists>r < length seq. choice seq (r # rng) = (Inr x, rng)"
  using assms by (auto simp: in_set_conv_nth choice_in_range)

lemma choice_IndexError_iff:
  "fst (choice seq rng) = Inl IndexError \<longleftrightarrow> seq = []"
  by (auto simp: choice_def split: list.splits)

end
