(* ===== verification/Pool_Builder.thy ===== *)
theory Pool_Builder
  imports Charsets
begin

text \<open>
  The pool builder: the first half of \<open>generate_password\<close> in
  \<^verbatim>\<open>src/password_logic.py\<close> (lines 19 to 37). \<open>class_chars\<close> is the pool after
  the four \<open>extend\<close> calls, \<open>without_similar\<close> the filtering comprehension, and
  \<open>build_pool\<close> the two emptiness checks around them: \<open>Inl\<close> carries the message
  the code returns as its error, \<open>Inr\<close> the pool handed to the sampler.
\<close>

section \<open>The code\<close>

definition class_chars :: "bool \<Rightarrow> bool \<Rightarrow> bool \<Rightarrow> bool \<Rightarrow> char list" where
  "class_chars use_upper use_lower use_numbers use_symbols =
     (let char_pool = [];
          char_pool = (if use_upper then char_pool @ UPPERCASE else char_pool);
          char_pool = (if use_lower then char_pool @ LOWERCASE else char_pool);
          char_pool = (if use_numbers then char_pool @ NUMBERS else char_pool);
          char_pool = (if use_symbols then char_pool @ SYMBOLS else char_pool)
      in char_pool)"

definition without_similar :: "char list \<Rightarrow> char list" where
  "without_similar char_pool = filter (\<lambda>char. char \<notin> set SIMILAR_CHARS) char_pool"

definition build_pool :: "bool \<Rightarrow> bool \<Rightarrow> bool \<Rightarrow> bool \<Rightarrow> bool \<Rightarrow> string + char list" where
  "build_pool use_upper use_lower use_numbers use_symbols exclude_similar =
     (let char_pool = class_chars use_upper use_lower use_numbers use_symbols
      in if char_pool = [] then Inl ''No character types selected.''
         else
           let char_pool = (if exclude_similar then without_similar char_pool else char_pool)
           in if char_pool = [] then Inl ''Character set is empty after exclusions.''
              else Inr char_pool)"

declare class_chars_def [pool_defs] without_similar_def [pool_defs] build_pool_def [pool_defs]

section \<open>The specification's view\<close>

text \<open>
  The specification describes the pool by the set of selected classes: the union of
  their reference sets, minus the similar-looking characters when exclusion is on.
\<close>

definition selected :: "bool \<Rightarrow> bool \<Rightarrow> bool \<Rightarrow> bool \<Rightarrow> char_class list" where
  "selected use_upper use_lower use_numbers use_symbols =
     (if use_upper then [Uppercase] else []) @ (if use_lower then [Lowercase] else [])
     @ (if use_numbers then [Digit] else []) @ (if use_symbols then [Symbol] else [])"

definition pool_spec :: "char_class set \<Rightarrow> bool \<Rightarrow> char set" where
  "pool_spec classes exclude_similar =
     (\<Union>k\<in>classes. set (reference_set k)) - (if exclude_similar then set SIMILAR_CHARS else {})"

section \<open>The pool before exclusion\<close>

lemma class_chars_concat:
  "class_chars u l n s = concat (map reference_set (selected u l n s))"
  by (simp add: class_chars_def selected_def)

lemma selected_Nil_iff [simp]: "selected u l n s = [] \<longleftrightarrow> \<not> u \<and> \<not> l \<and> \<not> n \<and> \<not> s"
  by (simp add: selected_def)

lemma set_selected:
  "set (selected u l n s) =
     {k. (k = Uppercase \<and> u) \<or> (k = Lowercase \<and> l) \<or> (k = Digit \<and> n) \<or> (k = Symbol \<and> s)}"
  by (auto simp: selected_def)

lemma distinct_selected [simp]: "distinct (selected u l n s)"
  by (simp add: selected_def)

lemma class_chars_Nil_iff [simp]: "class_chars u l n s = [] \<longleftrightarrow> \<not> u \<and> \<not> l \<and> \<not> n \<and> \<not> s"
  by (simp add: class_chars_def)

lemma set_class_chars: "set (class_chars u l n s) = (\<Union>k\<in>set (selected u l n s). set (reference_set k))"
  by (simp add: class_chars_concat)

lemma distinct_class_chars [simp]: "distinct (class_chars u l n s)"
  by (simp add: class_chars_def Int_Un_distrib)

lemma length_class_chars:
  "length (class_chars u l n s) =
     (if u then 26 else 0) + (if l then 26 else 0) + (if n then 10 else 0) + (if s then 32 else 0)"
  by (simp add: class_chars_def)

section \<open>Exclusion of similar-looking characters\<close>

lemma set_without_similar [simp]: "set (without_similar cs) = set cs - set SIMILAR_CHARS"
  by (auto simp: without_similar_def)

lemma distinct_without_similar [simp]: "distinct cs \<Longrightarrow> distinct (without_similar cs)"
  by (simp add: without_similar_def)

lemma without_similar_append [simp]:
  "without_similar (xs @ ys) = without_similar xs @ without_similar ys"
  by (simp add: without_similar_def)

lemma without_similar_Nil [simp]: "without_similar [] = []"
  by (simp add: without_similar_def)

lemmas without_similar_classes [simp] =
  UPPERCASE_without_similar [folded without_similar_def]
  LOWERCASE_without_similar [folded without_similar_def]
  NUMBERS_without_similar [folded without_similar_def]
  SYMBOLS_without_similar [folded without_similar_def]

lemma without_similar_class_chars_Nil_iff [simp]:
  "without_similar (class_chars u l n s) = [] \<longleftrightarrow> \<not> u \<and> \<not> l \<and> \<not> n \<and> \<not> s"
  by (simp add: class_chars_def)

lemma length_without_similar_class_chars:
  "length (without_similar (class_chars u l n s)) =
     (if u then 24 else 0) + (if l then 23 else 0) + (if n then 8 else 0) + (if s then 32 else 0)"
  by (simp add: class_chars_def)

section \<open>The two outcomes of the builder\<close>

lemma build_pool_none:
  "\<not> u \<Longrightarrow> \<not> l \<Longrightarrow> \<not> n \<Longrightarrow> \<not> s \<Longrightarrow> build_pool u l n s ex = Inl ''No character types selected.''"
  by (simp add: build_pool_def)

lemma build_pool_some:
  "u \<or> l \<or> n \<or> s \<Longrightarrow>
   build_pool u l n s ex
     = Inr (if ex then without_similar (class_chars u l n s) else class_chars u l n s)"
  by (auto simp: build_pool_def Let_def)

lemma build_pool_Inl_iff:
  "build_pool u l n s ex = Inl msg \<longleftrightarrow>
     \<not> u \<and> \<not> l \<and> \<not> n \<and> \<not> s \<and> msg = ''No character types selected.''"
  by (cases "u \<or> l \<or> n \<or> s") (auto simp: build_pool_some build_pool_none)

lemma build_pool_Inr_nonempty: "build_pool u l n s ex = Inr pool \<Longrightarrow> pool \<noteq> []"
  by (auto simp: build_pool_def Let_def split: if_splits)

lemma build_pool_Inr_distinct: "build_pool u l n s ex = Inr pool \<Longrightarrow> distinct pool"
  by (auto simp: build_pool_def Let_def split: if_splits)

lemma build_pool_Inr_set:
  "build_pool u l n s ex = Inr pool \<Longrightarrow> set pool = pool_spec (set (selected u l n s)) ex"
  by (auto simp: build_pool_def Let_def pool_spec_def set_class_chars split: if_splits)

section \<open>Properties of the builder\<close>

text \<open>
  C14. The pool builder fails only with \<open>No character types selected.\<close>, and only
  when no class is selected; otherwise it hands over a pool that is not empty, holds
  no character twice, and holds exactly the characters of the selected classes, minus
  the similar-looking ones when exclusion is on.
\<close>

theorem build_pool_correct:
  "(case build_pool u l n s ex of
      Inl msg \<Rightarrow> msg = ''No character types selected.'' \<and> selected u l n s = []
    | Inr pool \<Rightarrow> pool \<noteq> [] \<and> distinct pool \<and> set pool = pool_spec (set (selected u l n s)) ex)"
  by (cases "u \<or> l \<or> n \<or> s")
    (auto simp: build_pool_some build_pool_none pool_spec_def set_class_chars)

end
