(* ===== verification/Generator.thy ===== *)
theory Generator
  imports Random_Source Pool_Builder
begin

text \<open>
  The sampler and the generation facade: the second half of \<open>generate_password\<close> in
  \<^verbatim>\<open>src/password_logic.py\<close> (lines 39 to 46) and the function as a whole (lines 15
  to 46). \<open>sample\<close> is the generator expression joined into a string: one call of
  \<open>secrets.choice\<close> per position, in order, an exception of a call ending the loop.
  \<open>generate_password\<close> returns the pair the code returns, password first and error
  message second, each \<open>None\<close> or \<open>Some\<close>, together with what is left of the random
  source; \<open>Inl\<close> is an exception that leaves the function. The \<open>try\<close> of the code
  turns an \<open>IndexError\<close> of the sampler into its third message and lets any other
  exception pass.
\<close>

section \<open>The code\<close>

fun sample :: "char list \<Rightarrow> nat \<Rightarrow> entropy \<Rightarrow> string drawing" where
  "sample char_pool 0 rng = (Inr [], rng)"
| "sample char_pool (Suc n) rng =
     (case choice char_pool rng of
        (Inl exn, rng') \<Rightarrow> (Inl exn, rng')
      | (Inr c, rng') \<Rightarrow>
          (case sample char_pool n rng' of
             (Inl exn, rng'') \<Rightarrow> (Inl exn, rng'')
           | (Inr cs, rng'') \<Rightarrow> (Inr (c # cs), rng'')))"

definition generate_password ::
  "int \<Rightarrow> bool \<Rightarrow> bool \<Rightarrow> bool \<Rightarrow> bool \<Rightarrow> bool \<Rightarrow> entropy \<Rightarrow> (string option \<times> string option) drawing"
where
  "generate_password len use_upper use_lower use_numbers use_symbols exclude_similar rng =
     (case build_pool use_upper use_lower use_numbers use_symbols exclude_similar of
        Inl error \<Rightarrow> (Inr (None, Some error), rng)
      | Inr char_pool \<Rightarrow>
          (case sample char_pool (nat len) rng of
             (Inl IndexError, rng') \<Rightarrow>
               (Inr (None, Some ''Could not generate password from the given character set.''), rng')
           | (Inl exn, rng') \<Rightarrow> (Inl exn, rng')
           | (Inr password, rng') \<Rightarrow> (Inr (Some password, None), rng')))"

section \<open>The specification's view\<close>

text \<open>
  What a tape of draws selects from a pool, position by position; and the contract of
  the facade as a relation between a request and the pairs it may answer with.
\<close>

definition picks :: "'a list \<Rightarrow> nat list \<Rightarrow> 'a list" where
  "picks pool rs = map (\<lambda>r. pool ! (r mod length pool)) rs"

definition the_pool :: "bool \<Rightarrow> bool \<Rightarrow> bool \<Rightarrow> bool \<Rightarrow> bool \<Rightarrow> char list" where
  "the_pool u l n s ex = (if ex then without_similar (class_chars u l n s) else class_chars u l n s)"

inductive generates :: "char_class set \<Rightarrow> bool \<Rightarrow> int \<Rightarrow> string option \<times> string option \<Rightarrow> bool" where
  no_class: "classes = {} \<Longrightarrow> generates classes ex len (None, Some ''No character types selected.'')"
| password: "classes \<noteq> {} \<Longrightarrow> length pw = nat len \<Longrightarrow> set pw \<subseteq> pool_spec classes ex
     \<Longrightarrow> generates classes ex len (Some pw, None)"

inductive_simps generates_password_iff: "generates classes ex len (Some pw, e)"
inductive_simps generates_error_iff: "generates classes ex len (None, e)"
inductive_cases generatesE: "generates classes ex len r"

section \<open>The sampler\<close>

lemma picks_simps [simp]:
  "picks pool [] = []" "picks pool (r # rs) = pool ! (r mod length pool) # picks pool rs"
  by (simp_all add: picks_def)

lemma length_picks [simp]: "length (picks pool rs) = length rs"
  by (simp add: picks_def)

lemma set_picks: "pool \<noteq> [] \<Longrightarrow> set (picks pool rs) \<subseteq> set pool"
  by (auto simp: picks_def)

lemma picks_in_range: "set rs \<subseteq> {..<length pool} \<Longrightarrow> picks pool rs = map ((!) pool) rs"
  by (auto simp: picks_def subset_iff)

lemma picks_bij:
  assumes "distinct pool"
  shows "bij_betw (picks pool) {rs. length rs = k \<and> set rs \<subseteq> {..<length pool}}
     {xs. length xs = k \<and> set xs \<subseteq> set pool}"
  unfolding bij_betw_def
proof
  show "inj_on (picks pool) {rs. length rs = k \<and> set rs \<subseteq> {..<length pool}}"
    using assms by (auto simp: inj_on_def picks_in_range dest: map_nth_inj)
  show "picks pool ` {rs. length rs = k \<and> set rs \<subseteq> {..<length pool}}
      = {xs. length xs = k \<and> set xs \<subseteq> set pool}"
  proof (intro equalityI subsetI)
    fix xs assume "xs \<in> picks pool ` {rs. length rs = k \<and> set rs \<subseteq> {..<length pool}}"
    then show "xs \<in> {xs. length xs = k \<and> set xs \<subseteq> set pool}"
      by (auto simp: picks_in_range subset_iff)
  next
    fix xs assume "xs \<in> {xs. length xs = k \<and> set xs \<subseteq> set pool}"
    then obtain rs where "length rs = k" "set rs \<subseteq> {..<length pool}" "map ((!) pool) rs = xs"
      using map_nth_surj [of xs pool] by auto
    then show "xs \<in> picks pool ` {rs. length rs = k \<and> set rs \<subseteq> {..<length pool}}"
      by (auto simp: picks_in_range image_iff intro!: exI [of _ rs])
  qed
qed

lemma sample_empty_pool [simp]: "sample [] (Suc n) rng = (Inl IndexError, rng)"
  by simp

lemma sample_enough:
  "pool \<noteq> [] \<Longrightarrow> n \<le> length rng \<Longrightarrow>
   sample pool n rng = (Inr (picks pool (take n rng)), drop n rng)"
proof (induction n arbitrary: rng)
  case 0
  then show ?case by simp
next
  case (Suc n)
  then obtain r rs where rng: "rng = r # rs" "n \<le> length rs"
    by (cases rng) auto
  with Suc.IH [of rs] Suc.prems(1) show ?case by simp
qed

lemma sample_short:
  "pool \<noteq> [] \<Longrightarrow> length rng < n \<Longrightarrow> sample pool n rng = (Inl RandomSourceUnavailable, [])"
proof (induction n arbitrary: rng)
  case 0
  then show ?case by simp
next
  case (Suc n)
  show ?case
  proof (cases rng)
    case Nil
    with Suc.prems show ?thesis by simp
  next
    case (Cons r rs)
    with Suc.prems have "length rs < n" by simp
    with Suc.IH [of rs] Suc.prems(1) Cons show ?thesis by simp
  qed
qed

lemma sample_cases:
  "pool \<noteq> [] \<Longrightarrow>
   sample pool n rng =
     (if n \<le> length rng then (Inr (picks pool (take n rng)), drop n rng)
      else (Inl RandomSourceUnavailable, []))"
  by (simp add: sample_enough sample_short)

lemma sample_IndexError_iff:
  "fst (sample pool n rng) = Inl IndexError \<longleftrightarrow> pool = [] \<and> 0 < n"
proof (cases "pool = []")
  case True
  then show ?thesis by (cases n) simp_all
next
  case False
  then show ?thesis by (simp add: sample_cases del: sample.simps)
qed

section \<open>The facade, case by case\<close>

lemma the_pool_nonempty [simp]: "the_pool u l n s ex = [] \<longleftrightarrow> \<not> u \<and> \<not> l \<and> \<not> n \<and> \<not> s"
  by (simp add: the_pool_def)

lemma build_pool_the_pool: "u \<or> l \<or> n \<or> s \<Longrightarrow> build_pool u l n s ex = Inr (the_pool u l n s ex)"
  by (simp add: build_pool_some the_pool_def)

lemma set_the_pool: "set (the_pool u l n s ex) = pool_spec (set (selected u l n s)) ex"
  by (simp add: the_pool_def pool_spec_def set_class_chars)

lemma distinct_the_pool [simp]: "distinct (the_pool u l n s ex)"
  by (simp add: the_pool_def)

lemma generate_password_none:
  "\<not> u \<Longrightarrow> \<not> l \<Longrightarrow> \<not> n \<Longrightarrow> \<not> s \<Longrightarrow>
   generate_password len u l n s ex rng = (Inr (None, Some ''No character types selected.''), rng)"
  by (simp add: generate_password_def build_pool_none)

lemma generate_password_some:
  "u \<or> l \<or> n \<or> s \<Longrightarrow>
   generate_password len u l n s ex rng =
     (if nat len \<le> length rng
      then (Inr (Some (picks (the_pool u l n s ex) (take (nat len) rng)), None), drop (nat len) rng)
      else (Inl RandomSourceUnavailable, []))"
  by (simp add: generate_password_def build_pool_the_pool sample_cases)

lemma fst_generate_password_in_range:
  assumes "u \<or> l \<or> n \<or> s" and "length rng = nat len"
  shows "fst (generate_password len u l n s ex rng)
    = Inr (Some (picks (the_pool u l n s ex) rng), None)"
  using assms by (simp add: generate_password_some)

lemma generate_password_SomeD:
  assumes "generate_password len u l n s ex rng = (Inr (Some pw, e), rng')"
  shows "length pw = nat len" "set pw \<subseteq> set (the_pool u l n s ex)" "e = None"
    "u \<or> l \<or> n \<or> s" "nat len \<le> length rng" "rng' = drop (nat len) rng"
proof -
  show sel: "u \<or> l \<or> n \<or> s"
    using assms by (rule contrapos_pp) (simp add: generate_password_none)
  with assms show enough: "nat len \<le> length rng"
    and "e = None" and "rng' = drop (nat len) rng"
    by (auto simp: generate_password_some split: if_splits)
  from assms sel enough have pw: "pw = picks (the_pool u l n s ex) (take (nat len) rng)"
    by (simp add: generate_password_some)
  from enough show "length pw = nat len"
    by (simp add: pw)
  from sel show "set pw \<subseteq> set (the_pool u l n s ex)"
    unfolding pw by (intro set_picks) simp
qed

section \<open>Evaluation at concrete requests\<close>

text \<open>
  Three runs that the witnesses below share: upper-case letters only, three draws;
  no class at all; digits without the similar-looking ones, a source that runs dry.
\<close>

lemma run_ABC:
  "generate_password 3 True False False False False [0, 27, 2, 5]
     = (Inr (Some ''ABC'', None), [5])"
  by (simp add: generate_password_some the_pool_def class_chars_def UPPERCASE_def)

lemma run_no_class:
  "generate_password 16 False False False False False [7, 7]
     = (Inr (None, Some ''No character types selected.''), [7, 7])"
  by (simp add: generate_password_none)

lemma run_dry:
  "generate_password 3 False False True False True [4, 1]
     = (Inl RandomSourceUnavailable, [])"
  by (simp add: generate_password_some)

section \<open>Properties of the facade\<close>

text \<open>
  C1. Whenever \<open>generate_password\<close> returns a password, the password has exactly the
  requested length (length zero for a request that is not positive), each of its
  characters belongs to the reference set of a selected class and, when exclusion is
  on, none of them is a similar-looking character; and no error message comes with it.
\<close>

theorem generate_password_sound:
  assumes "generate_password len u l n s ex rng = (Inr (Some pw, e), rng')"
  shows "length pw = nat len \<and> set pw \<subseteq> pool_spec (set (selected u l n s)) ex \<and> e = None"
  using generate_password_SomeD(1-3) [OF assms] by (simp add: set_the_pool)

theorem generate_password_sound_witness:
  "generate_password 3 True False False False False [0, 27, 2, 5] = (Inr (Some ''ABC'', None), [5])
   \<and> length ''ABC'' = nat 3
   \<and> set ''ABC'' \<subseteq> pool_spec (set (selected True False False False)) False"
  using generate_password_sound [OF run_ABC] run_ABC by simp

text \<open>
  C2. \<open>generate_password\<close> answers with the message \<open>No character types selected.\<close>
  and no password exactly when none of the four class flags is set, whatever the
  requested length, the exclusion flag and the state of the random source.
\<close>

theorem generate_password_error_iff:
  "fst (generate_password len u l n s ex rng) = Inr (None, Some ''No character types selected.'')
     \<longleftrightarrow> \<not> u \<and> \<not> l \<and> \<not> n \<and> \<not> s"
  by (cases "u \<or> l \<or> n \<or> s") (auto simp: generate_password_none generate_password_some)

text \<open>
  C4. With at least one class selected and a random source that can deliver as many
  values as the request is long, \<open>generate_password\<close> returns a password and no
  error: position by position the character the next value of the source picks from
  the pool; it reads exactly that many values and leaves the rest of the source.
\<close>

theorem generate_password_total:
  assumes "u \<or> l \<or> n \<or> s" and "nat len \<le> length rng"
  shows "generate_password len u l n s ex rng =
    (Inr (Some (picks (the_pool u l n s ex) (take (nat len) rng)), None), drop (nat len) rng)"
  using assms by (simp add: generate_password_some)

theorem generate_password_total_witness:
  "nat 3 \<le> length [0, 27, 2, 5 :: nat]
   \<and> generate_password 3 True False False False False [0, 27, 2, 5] =
    (Inr (Some (picks (the_pool True False False False False) (take (nat 3) [0, 27, 2, 5])), None),
     drop (nat 3) [0, 27, 2, 5])"
  using generate_password_total [of True False False False 3 "[0, 27, 2, 5]" False] by simp

text \<open>
  C5. The pair \<open>generate_password\<close> returns holds a password or an error message,
  never both and never neither.
\<close>

theorem generate_password_shape:
  assumes "generate_password len u l n s ex rng = (Inr (p, e), rng')"
  shows "(p = None) \<noteq> (e = None)"
  using assms
  by (cases "u \<or> l \<or> n \<or> s") (auto simp: generate_password_none generate_password_some split: if_splits)

theorem generate_password_shape_witness:
  "generate_password 3 True False False False False [0, 27, 2, 5] = (Inr (Some ''ABC'', None), [5])
   \<and> ((Some ''ABC'' :: string option) = None) \<noteq> ((None :: string option) = None)"
  using generate_password_shape [OF run_ABC] run_ABC by simp

text \<open>
  C6. The only error message \<open>generate_password\<close> ever returns is
  \<open>No character types selected.\<close>; it returns it only when no class is selected, and then
  without reading the random source. So the two other messages of the code (an empty
  pool after exclusion, a failed draw) are unreachable.
\<close>

theorem generate_password_only_message:
  assumes "generate_password len u l n s ex rng = (Inr (None, Some msg), rng')"
  shows "msg = ''No character types selected.'' \<and> \<not> u \<and> \<not> l \<and> \<not> n \<and> \<not> s \<and> rng' = rng"
  using assms
  by (cases "u \<or> l \<or> n \<or> s") (auto simp: generate_password_none generate_password_some split: if_splits)

theorem generate_password_only_message_witness:
  "generate_password 16 False False False False False [7, 7]
     = (Inr (None, Some ''No character types selected.''), [7, 7])
   \<and> ''No character types selected.'' = ''No character types selected.''"
  using generate_password_only_message [OF run_no_class] run_no_class by simp

text \<open>
  C9. With a class selected and a random source that cannot deliver as many values
  as the request is long, no pair is returned: the failure of the source leaves
  \<open>generate_password\<close> as an exception, and the handler for a failed draw does not
  catch it.
\<close>

theorem generate_password_unavailable:
  assumes "u \<or> l \<or> n \<or> s" and "length rng < nat len"
  shows "generate_password len u l n s ex rng = (Inl RandomSourceUnavailable, [])"
  using assms by (simp add: generate_password_some)

theorem generate_password_unavailable_witness:
  "length [4, 1 :: nat] < nat 3
   \<and> generate_password 3 False False True False True [4, 1] = (Inl RandomSourceUnavailable, [])"
  using generate_password_unavailable [of False False True False "[4, 1]" 3 True] by simp

text \<open>
  C10. The generator adds no bias of its own. For a request with a class selected,
  reading the answer off the random source is a one-to-one correspondence between
  the tapes of in-range values, as long as the request, and the passwords of the
  requested length over the pool: each such password is the answer to exactly one
  such tape, so a source that is uniform over the tapes makes every password equally
  likely.
\<close>

theorem generate_password_uniform:
  assumes "u \<or> l \<or> n \<or> s"
  shows "bij_betw (\<lambda>rng. fst (generate_password len u l n s ex rng))
     {rng. length rng = nat len \<and> set rng \<subseteq> {..<length (the_pool u l n s ex)}}
     ((\<lambda>pw. Inr (Some pw, None))
        ` {pw. length pw = nat len \<and> set pw \<subseteq> pool_spec (set (selected u l n s)) ex})"
proof -
  let ?pool = "the_pool u l n s ex"
  let ?A = "{rng. length rng = nat len \<and> set rng \<subseteq> {..<length ?pool}}"
  let ?B = "{pw. length pw = nat len \<and> set pw \<subseteq> set ?pool}"
  let ?f = "\<lambda>rng. fst (generate_password len u l n s ex rng)"
  let ?g = "\<lambda>pw :: string. (Inr (Some pw, None) :: (string option \<times> string option) raising)"
  have bij: "bij_betw (picks ?pool) ?A ?B"
    by (rule picks_bij) simp
  have f: "?f rng = ?g (picks ?pool rng)" if "rng \<in> ?A" for rng
    using that assms by (intro fst_generate_password_in_range) simp_all
  have "inj_on ?f ?A"
  proof (rule inj_onI)
    fix x y assume xy: "x \<in> ?A" "y \<in> ?A" and "?f x = ?f y"
    then have "picks ?pool x = picks ?pool y"
      using f [OF xy(1)] f [OF xy(2)] by simp
    with bij xy show "x = y"
      unfolding bij_betw_def by (blast dest: inj_onD)
  qed
  moreover have "?f ` ?A = ?g ` ?B"
  proof -
    have "?f ` ?A = (\<lambda>rng. ?g (picks ?pool rng)) ` ?A"
      by (rule image_cong [OF refl f])
    also have "\<dots> = ?g ` (picks ?pool ` ?A)"
      by (simp only: image_image)
    also have "picks ?pool ` ?A = ?B"
      using bij by (simp only: bij_betw_def)
    finally show ?thesis .
  qed
  ultimately show ?thesis
    unfolding bij_betw_def set_the_pool [symmetric] ..
qed

theorem generate_password_uniform_witness:
  "bij_betw (\<lambda>rng. fst (generate_password 2 False False True False True rng))
     {rng. length rng = nat 2 \<and> set rng \<subseteq> {..<length (the_pool False False True False True)}}
     ((\<lambda>pw. Inr (Some pw, None))
        ` {pw. length pw = nat 2
             \<and> set pw \<subseteq> pool_spec (set (selected False False True False)) True})"
  using generate_password_uniform [of False False True False 2 True] by simp

text \<open>
  C11. \<open>generate_password\<close> implements the facade's contract and nothing less: a pair
  is a possible answer of the code (for some state of the random source) exactly when
  the contract allows it, that is, the no-class message when no class is selected, and
  otherwise any password of the requested length over the selected classes minus the
  excluded characters.
\<close>

theorem generate_password_refines:
  "(\<exists>rng rng'. generate_password len u l n s ex rng = (Inr r, rng'))
     \<longleftrightarrow> generates (set (selected u l n s)) ex len r"
proof
  assume "\<exists>rng rng'. generate_password len u l n s ex rng = (Inr r, rng')"
  then obtain rng rng' where run: "generate_password len u l n s ex rng = (Inr r, rng')"
    by blast
  show "generates (set (selected u l n s)) ex len r"
  proof (cases "u \<or> l \<or> n \<or> s")
    case True
    with run have r: "r = (Some (picks (the_pool u l n s ex) (take (nat len) rng)), None)"
      and "nat len \<le> length rng"
      by (auto simp: generate_password_some split: if_splits)
    moreover from True have "selected u l n s \<noteq> []" by simp
    moreover from True have "set (picks (the_pool u l n s ex) (take (nat len) rng))
        \<subseteq> pool_spec (set (selected u l n s)) ex"
      unfolding set_the_pool [symmetric] by (intro set_picks) simp
    ultimately show ?thesis
      by (auto intro!: generates.password)
  next
    case False
    with run show ?thesis
      by (auto simp: generate_password_none intro: generates.no_class)
  qed
next
  assume "generates (set (selected u l n s)) ex len r"
  then show "\<exists>rng rng'. generate_password len u l n s ex rng = (Inr r, rng')"
  proof (cases rule: generates.cases)
    case no_class
    then show ?thesis
      by (auto simp: generate_password_none)
  next
    case (password pw)
    then have sel: "u \<or> l \<or> n \<or> s" by auto
    from password obtain rs where rs: "length rs = length pw"
        "set rs \<subseteq> {..<length (the_pool u l n s ex)}" "map ((!) (the_pool u l n s ex)) rs = pw"
      using map_nth_surj [of pw "the_pool u l n s ex"] by (auto simp: set_the_pool)
    with password sel have "generate_password len u l n s ex rs = (Inr r, [])"
      by (simp add: generate_password_some picks_in_range)
    then show ?thesis by blast
  qed
qed

text \<open>
  C16. A request for a length that is not positive, with a class selected, is
  answered with the empty password and no error, and the random source is not read:
  the code does not reject such a length.
\<close>

theorem generate_password_nonpositive:
  assumes "u \<or> l \<or> n \<or> s" and "len \<le> 0"
  shows "generate_password len u l n s ex rng = (Inr (Some [], None), rng)"
  using assms by (simp add: generate_password_some)

theorem generate_password_nonpositive_witness:
  "(-4 :: int) \<le> 0
   \<and> generate_password (-4) False True False False False [9] = (Inr (Some [], None), [9])"
  using generate_password_nonpositive [of False True False False "-4" False "[9]"] by simp

text \<open>
  What \<open>generate_password\<close> costs the random source: nothing when no class is
  selected, and otherwise one value per requested position, or all that is left when
  the source runs dry before the password is complete.
\<close>

theorem generate_password_entropy:
  "snd (generate_password len u l n s ex rng)
     = (if \<not> u \<and> \<not> l \<and> \<not> n \<and> \<not> s then rng else drop (nat len) rng)"
  by (cases "u \<or> l \<or> n \<or> s") (auto simp: generate_password_none generate_password_some)

end
