(* ===== verification/Python_Builtins.thy ===== *)
theory Python_Builtins
  imports Prelude
begin

text \<open>
  The parts of the Python runtime that the shells of \<^verbatim>\<open>src/main.py\<close> and
  \<^verbatim>\<open>src/gui_app.py\<close> call, as functions on an explicit \<open>world\<close>: the lines that standard input will
  deliver, the characters written to standard output so far, and the random source.
  None of this is code of the repository; the definitions follow the language
  reference.

  \<^item> \<open>print_line\<close> is \<open>print\<close> with one argument; \<open>input_line\<close> is \<open>input\<close>: it writes
    the prompt, then takes the next line, and raises \<open>EOFError\<close> when there is none.
  \<^item> \<open>py_int\<close> is \<open>int\<close> on a string: surrounding white space is stripped, one sign is
    allowed, digits may be grouped by single underscores; \<open>None\<close> stands for \<open>ValueError\<close>.
  \<^item> \<open>py_str\<close> is \<open>str\<close> on an \<open>int\<close>, which is also how an f-string renders it; the
    lemmas show that \<open>py_int\<close> reads back what \<open>py_str\<close> writes.
  \<^item> \<open>py_lower\<close> is \<open>str.lower\<close> on the code points below 256; \<open>py_truthy\<close> is the
    truth value of an optional string; \<open>py_format\<close> is its rendering in an f-string.

  Two bounds. A character is a code point below 256, so the decimal digits and the
  white space of other scripts, which Python's \<open>int\<close> and \<open>str.strip\<close> accept, are
  outside the model. And \<open>py_int\<close> and \<open>py_str\<close> convert numbers of any length, as
  CPython does before version 3.11 or with its limit of 4300 digits switched off.
\<close>

section \<open>The console\<close>

record world =
  stdin :: "string list"
  stdout :: string
  source :: entropy

definition print_line :: "string \<Rightarrow> world \<Rightarrow> world" where
  "print_line s w = w\<lparr>stdout := stdout w @ s @ [CHR 0x0A]\<rparr>"

definition input_line :: "string \<Rightarrow> world \<Rightarrow> string raising \<times> world" where
  "input_line prompt w =
     (let w = w\<lparr>stdout := stdout w @ prompt\<rparr>
      in case stdin w of
           [] \<Rightarrow> (Inl EOFError, w)
         | line # rest \<Rightarrow> (Inr line, w\<lparr>stdin := rest\<rparr>))"

section \<open>Strings\<close>

definition py_space :: "char \<Rightarrow> bool" where
  "py_space c = ((of_char c :: nat) \<in> {9, 10, 11, 12, 13, 28, 29, 30, 31, 32, 133, 160})"

definition py_strip :: "string \<Rightarrow> string" where
  "py_strip s = rev (dropWhile py_space (rev (dropWhile py_space s)))"

fun py_digits :: "nat \<Rightarrow> string \<Rightarrow> nat option" where
  "py_digits acc [] = None"
| "py_digits acc [c] = (if c \<in> set ''0123456789'' then Some (10 * acc + (of_char c - 48)) else None)"
| "py_digits acc (c # d # cs) =
     (if c \<in> set ''0123456789''
      then py_digits (10 * acc + (of_char c - 48)) (if d = CHR ''_'' then cs else d # cs)
      else None)"

definition py_int :: "string \<Rightarrow> int option" where
  "py_int s =
     (case py_strip s of
        [] \<Rightarrow> None
      | c # cs \<Rightarrow>
          if c = CHR ''-'' then map_option (\<lambda>n. - int n) (py_digits 0 cs)
          else if c = CHR ''+'' then map_option int (py_digits 0 cs)
          else map_option int (py_digits 0 (c # cs)))"

fun py_str_nat :: "nat \<Rightarrow> string" where
  "py_str_nat n =
     (if n < 10 then [char_of (48 + n)] else py_str_nat (n div 10) @ [char_of (48 + n mod 10)])"

definition py_str :: "int \<Rightarrow> string" where
  "py_str i = (if i < 0 then ''-'' @ py_str_nat (nat (- i)) else py_str_nat (nat i))"

definition py_digit :: "char \<Rightarrow> bool" where
  "py_digit c \<longleftrightarrow> c \<in> set ''0123456789''"

primrec py_truthy :: "string option \<Rightarrow> bool" where
  "py_truthy None = False"
| "py_truthy (Some s) = (s \<noteq> [])"

primrec py_format :: "string option \<Rightarrow> string" where
  "py_format None = ''None''"
| "py_format (Some s) = s"

definition py_lower_char :: "char \<Rightarrow> char" where
  "py_lower_char c =
     (let k = (of_char c :: nat)
      in if (65 \<le> k \<and> k \<le> 90) \<or> (192 \<le> k \<and> k \<le> 222 \<and> k \<noteq> 215) then char_of (k + 32) else c)"

definition py_lower :: "string \<Rightarrow> string" where
  "py_lower s = map py_lower_char s"

section \<open>Facts about the console\<close>

lemma print_line_simps [simp]:
  "stdin (print_line s w) = stdin w" "source (print_line s w) = source w"
  "stdout (print_line s w) = stdout w @ s @ [CHR 0x0A]"
  by (simp_all add: print_line_def)

lemma input_line_Nil:
  "stdin w = [] \<Longrightarrow> input_line prompt w = (Inl EOFError, w\<lparr>stdout := stdout w @ prompt\<rparr>)"
  by (simp add: input_line_def)

lemma input_line_Cons:
  "stdin w = line # rest \<Longrightarrow>
   input_line prompt w = (Inr line, w\<lparr>stdin := rest, stdout := stdout w @ prompt\<rparr>)"
  by (simp add: input_line_def)

lemma input_line_cases:
  "input_line prompt w =
     (case stdin w of
        [] \<Rightarrow> (Inl EOFError, w\<lparr>stdout := stdout w @ prompt\<rparr>)
      | line # rest \<Rightarrow> (Inr line, w\<lparr>stdin := rest, stdout := stdout w @ prompt\<rparr>))"
  by (simp add: input_line_def split: list.splits)

section \<open>Facts about the string functions\<close>

lemma py_lower_char_y: "py_lower_char c = CHR ''y'' \<longleftrightarrow> c = CHR ''y'' \<or> c = CHR ''Y''"
proof -
  define k where "k = (of_char c :: nat)"
  have eq: "c = d \<longleftrightarrow> k = of_char d" for d
    by (simp add: k_def)
  have k: "k < 256"
    by (simp add: k_def)
  have low: "py_lower_char c =
      (if (65 \<le> k \<and> k \<le> 90) \<or> (192 \<le> k \<and> k \<le> 222 \<and> k \<noteq> 215) then char_of (k + 32) else c)"
    by (simp add: py_lower_char_def k_def Let_def)
  have co: "char_of (k + 32) = CHR ''y'' \<longleftrightarrow> (k + 32) mod 256 = 121"
    by (simp add: char_of_eq_iff take_bit_eq_mod)
  have "py_lower_char c = CHR ''y'' \<longleftrightarrow> k = 121 \<or> k = 89"
  proof (cases "(65 \<le> k \<and> k \<le> 90) \<or> (192 \<le> k \<and> k \<le> 222 \<and> k \<noteq> 215)")
    case True
    then have "py_lower_char c = CHR ''y'' \<longleftrightarrow> (k + 32) mod 256 = 121"
      by (simp only: low co if_True)
    also have "(k + 32) mod 256 = k + 32"
      using True by (intro mod_less) auto
    also have "k + 32 = 121 \<longleftrightarrow> k = 121 \<or> k = 89"
      using True by auto
    
    finally show ?thesis .
  next
    case False
    then have "py_lower_char c = CHR ''y'' \<longleftrightarrow> k = 121"
      by (simp only: low if_False eq) simp
    with False show ?thesis by auto
  qed
  then show ?thesis
    by (simp add: eq)
qed

lemma py_lower_y: "py_lower s = ''y'' \<longleftrightarrow> s = ''y'' \<or> s = ''Y''"
proof (cases s)
  case Nil
  then show ?thesis by (simp add: py_lower_def)
next
  case (Cons c cs)
  then show ?thesis by (cases cs) (simp_all add: py_lower_def py_lower_char_y)
qed

section \<open>Writing and reading an integer\<close>

declare py_str_nat.simps [simp del]

lemma py_digit_char_of:
  assumes "(n :: nat) < 10"
  shows "py_digit (char_of (48 + n))" "of_char (char_of (48 + n)) - 48 = n"
    "char_of (48 + n) \<noteq> CHR ''_''" "\<not> py_space (char_of (48 + n))"
    "char_of (48 + n) \<noteq> CHR ''-''" "char_of (48 + n) \<noteq> CHR ''+''"
proof -
  from assms have "n \<in> {0, 1, 2, 3, 4, 5, 6, 7, 8, 9}" by auto
  then show "py_digit (char_of (48 + n))" "of_char (char_of (48 + n)) - 48 = n"
    "char_of (48 + n) \<noteq> CHR ''_''" "\<not> py_space (char_of (48 + n))"
    "char_of (48 + n) \<noteq> CHR ''-''" "char_of (48 + n) \<noteq> CHR ''+''"
    by (auto simp: py_digit_def py_space_def char_of_eq_iff)
qed

lemma py_str_nat_digits: "list_all py_digit (py_str_nat n)" "py_str_nat n \<noteq> []"
  by (induction n rule: py_str_nat.induct; subst py_str_nat.simps; simp add: py_digit_char_of)+

lemma py_digit_not_underscore: "py_digit c \<Longrightarrow> c \<noteq> CHR ''_''"
  by (auto simp: py_digit_def)

lemma py_digits_digit:
  "py_digit c \<Longrightarrow> py_digits acc [c] = Some (10 * acc + (of_char c - 48))"
  "py_digit c \<Longrightarrow> py_digit d \<Longrightarrow>
   py_digits acc (c # d # cs) = py_digits (10 * acc + (of_char c - 48)) (d # cs)"
  using py_digit_not_underscore [of d] by (simp_all add: py_digit_def)

lemma py_digits_snoc:
  assumes "list_all py_digit ds" "ds \<noteq> []" "py_digit c"
  shows "py_digits acc (ds @ [c]) = map_option (\<lambda>v. 10 * v + (of_char c - 48)) (py_digits acc ds)"
  using assms(1,2)
proof (induction ds arbitrary: acc)
  case (Cons d ds)
  show ?case
  proof (cases ds)
    case Nil
    with Cons.prems assms(3) show ?thesis
      by (simp add: py_digits_digit del: py_digits.simps)
  next
    case (Cons e es)
    with Cons.prems Cons.IH [of "10 * acc + (of_char d - 48)"] show ?thesis
      by (simp add: py_digits_digit del: py_digits.simps)
  qed
qed simp

lemma py_digits_py_str_nat: "py_digits 0 (py_str_nat n) = Some n"
proof (induction n rule: py_str_nat.induct)
  case (1 n)
  show ?case
  proof (cases "n < 10")
    case True
    then show ?thesis
      using py_digit_char_of [OF True]
      by (subst py_str_nat.simps) (simp add: py_digits_digit del: py_digits.simps)
  next
    case False
    have "n mod 10 < 10" by simp
    note d = py_digit_char_of [OF this]
    from False 1 have "py_digits 0 (py_str_nat (n div 10)) = Some (n div 10)" by simp
    with False show ?thesis
      by (subst py_str_nat.simps) (simp add: py_digits_snoc py_str_nat_digits d)
  qed
qed

lemma py_strip_id:
  assumes "s \<noteq> []" "\<not> py_space (hd s)" "\<not> py_space (last s)"
  shows "py_strip s = s"
proof -
  from assms have "dropWhile py_space s = s"
    by (cases s) simp_all
  moreover from assms have "dropWhile py_space (rev s) = rev s"
    by (cases "rev s") (simp_all add: hd_rev)
  ultimately show ?thesis
    by (simp add: py_strip_def)
qed

lemma py_str_nat_ends:
  "\<not> py_space (hd (py_str_nat n))" "\<not> py_space (last (py_str_nat n))"
  "hd (py_str_nat n) \<noteq> CHR ''-''" "hd (py_str_nat n) \<noteq> CHR ''+''"
proof -
  have *: "\<not> py_space c \<and> c \<noteq> CHR ''-'' \<and> c \<noteq> CHR ''+''" if "py_digit c" for c
    using that by (auto simp: py_digit_def py_space_def)
  have "py_digit (hd (py_str_nat n))" "py_digit (last (py_str_nat n))"
    using py_str_nat_digits [of n] by (cases "py_str_nat n"; simp add: list_all_iff)+
  with * show "\<not> py_space (hd (py_str_nat n))" "\<not> py_space (last (py_str_nat n))"
    "hd (py_str_nat n) \<noteq> CHR ''-''" "hd (py_str_nat n) \<noteq> CHR ''+''"
    by blast+
qed

lemma py_int_py_str: "py_int (py_str i) = Some i"
proof (cases "i < 0")
  case True
  let ?s = "py_str_nat (nat (- i))"
  have "py_strip (CHR ''-'' # ?s) = CHR ''-'' # ?s"
    using py_str_nat_digits(2) [of "nat (- i)"] py_str_nat_ends(2) [of "nat (- i)"]
    by (intro py_strip_id) (simp_all add: py_space_def)
  with True show ?thesis
    by (simp add: py_int_def py_str_def py_digits_py_str_nat)
next
  case False
  let ?s = "py_str_nat (nat i)"
  have strip: "py_strip ?s = ?s"
    using py_str_nat_digits(2) py_str_nat_ends(1,2) by (intro py_strip_id)
  obtain c cs where s: "?s = c # cs"
    using py_str_nat_digits(2) [of "nat i"] by (cases ?s) auto
  with py_str_nat_ends(3,4) [of "nat i"] have "c \<noteq> CHR ''-''" "c \<noteq> CHR ''+''"
    by simp_all
  with False strip s py_digits_py_str_nat [of "nat i"] show ?thesis
    by (simp add: py_int_def py_str_def)
qed

end
