(* ===== verification/CLI.thy ===== *)
theory CLI
  imports Python_Builtins Generator
begin

text \<open>
  The command-line shell, \<^verbatim>\<open>src/main.py\<close>. Every function of the file is a function
  from a \<open>world\<close> to a result and the world it leaves: \<open>install_dependencies\<close>
  (lines 7 to 20), \<open>run_cli\<close> (lines 23 to 60) with its length loop \<open>read_length\<close>
  (lines 31 to 39) and its four questions \<open>ask\<close> (lines 42 to 45), the menu loop
  \<open>menu\<close> (lines 69 to 93) and the script body \<open>main\<close> (lines 63 to 93). What lies
  outside the program is an \<open>environment\<close>: the path of the interpreter, what \<open>pip\<close>
  does, and what \<open>import gui_app\<close> gives: an \<open>ImportError\<close>, or the module, which the menu
  sees as its function \<open>run_gui\<close> on the world. Theory \<open>Spec2Isabelle\<close> puts the graphical
  shell of theory \<open>Event_Loop\<close> in that place.

  Both loops read one line per round, so they are recursive functions that terminate
  because the input gets shorter; an input that ends raises \<open>EOFError\<close>, as
  \<open>input\<close> does. The lemmas give closed forms of each function on an input of a given
  shape, from which the properties of whole sessions follow.
\<close>

section \<open>The environment\<close>

datatype pip_outcome = PipInstalled | CalledProcessError string | FileNotFoundError

datatype 'a importing = ImportError string | Imported 'a

record environment =
  executable :: string
  pip :: pip_outcome
  gui_module :: "(world \<Rightarrow> unit raising \<times> world) importing"

section \<open>The functions of the shell\<close>

definition install_dependencies :: "environment \<Rightarrow> world \<Rightarrow> unit raising \<times> world" where
  "install_dependencies env w =
     (let w = print_line ''Checking for required packages...'' w
      in case pip env of
           PipInstalled \<Rightarrow> (Inr (), print_line ''Dependencies are up to date.'' w)
         | CalledProcessError e \<Rightarrow>
             (let w = print_line (''Error installing dependencies: '' @ e) w;
                  w = print_line ''Please try to install the dependencies manually by running:'' w;
                  w = print_line (executable env @ '' -m pip install -r requirements.txt'') w
              in (Inl (SystemExit 1), w))
         | FileNotFoundError \<Rightarrow>
             (Inl (SystemExit 1),
              print_line (''pip is not installed or not in the system'' @ [CHR 0x27]
                @ ''s PATH. Please install pip.'') w))"

function read_length :: "world \<Rightarrow> int raising \<times> world" where
  "read_length w =
     (case input_line ''Enter desired password length (e.g., 16): '' w of
        (Inl exn, w') \<Rightarrow> (Inl exn, w')
      | (Inr line, w') \<Rightarrow>
          (case py_int line of
             None \<Rightarrow> read_length (print_line ''Invalid input. Please enter a number.'' w')
           | Some len \<Rightarrow>
               if len > 0 then (Inr len, w')
               else read_length (print_line ''Please enter a positive number.'' w')))"
  by pat_completeness auto
termination
  by (relation "measure (\<lambda>w. length (stdin w))")
    (auto simp: input_line_def print_line_def Let_def split: list.splits)

definition ask :: "string \<Rightarrow> world \<Rightarrow> bool raising \<times> world" where
  "ask prompt w =
     (case input_line prompt w of
        (Inl exn, w') \<Rightarrow> (Inl exn, w')
      | (Inr line, w') \<Rightarrow> (Inr (py_lower line = ''y''), w'))"

definition run_cli :: "world \<Rightarrow> unit raising \<times> world" where
  "run_cli w =
     (let w = print_line ([CHR 0x0A] @ ''--- Random Password Generator (CLI Mode) ---'') w in
      case read_length w of (Inl exn, w) \<Rightarrow> (Inl exn, w) | (Inr len, w) \<Rightarrow>
      case ask ''Include uppercase letters? (y/n): '' w of (Inl exn, w) \<Rightarrow> (Inl exn, w) | (Inr use_upper, w) \<Rightarrow>
      case ask ''Include lowercase letters? (y/n): '' w of (Inl exn, w) \<Rightarrow> (Inl exn, w) | (Inr use_lower, w) \<Rightarrow>
      case ask ''Include numbers? (y/n): '' w of (Inl exn, w) \<Rightarrow> (Inl exn, w) | (Inr use_numbers, w) \<Rightarrow>
      case ask ''Include symbols? (y/n): '' w of (Inl exn, w) \<Rightarrow> (Inl exn, w) | (Inr use_symbols, w) \<Rightarrow>
      case generate_password len use_upper use_lower use_numbers use_symbols False (source w) of
        (Inl exn, rng) \<Rightarrow> (Inl exn, w\<lparr>source := rng\<rparr>)
      | (Inr (password, error), rng) \<Rightarrow>
          (let w = w\<lparr>source := rng\<rparr> in
           if py_truthy error
           then (Inr (), print_line ([CHR 0x0A] @ ''Error: '' @ py_format error) w)
           else (Inr (), print_line ([CHR 0x0A] @ ''Generated Password: '' @ py_format password) w)))"

function menu :: "environment \<Rightarrow> world \<Rightarrow> unit raising \<times> world" where
  "menu env w =
     (let w = print_line ([CHR 0x0A] @ ''Choose your mode:'') w;
          w = print_line ''1. Beginner Mode (CLI)'' w;
          w = print_line ''2. Advanced Mode (GUI)'' w
      in case input_line ''Enter your choice (1 or 2): '' w of
           (Inl exn, w) \<Rightarrow> (Inl exn, w)
         | (Inr chosen, w) \<Rightarrow>
             if chosen = ''1'' then run_cli w
             else if chosen = ''2'' then
               (let w = print_line ''Launching GUI...'' w
                in case gui_module env of
                     ImportError e \<Rightarrow>
                       (let w = print_line ([CHR 0x0A] @ ''--- ERROR ---'') w;
                            w = print_line (''Failed to import GUI components: '' @ e) w;
                            w = print_line ''Please ensure PySide6 is installed correctly.'' w;
                            w = print_line ''You can try running: pip install PySide6'' w;
                            w = print_line ''-------------'' w
                        in (Inl (SystemExit 1), w))
                   | Imported run_gui \<Rightarrow> run_gui w)
             else menu env (print_line ''Invalid choice. Please enter 1 or 2.'' w))"
  by pat_completeness auto
termination
  by (relation "measure (\<lambda>(env, w). length (stdin w))")
    (auto simp: input_line_def print_line_def Let_def split: list.splits)

definition main :: "environment \<Rightarrow> world \<Rightarrow> unit raising \<times> world" where
  "main env w =
     (case install_dependencies env w of
        (Inl exn, w) \<Rightarrow> (Inl exn, w)
      | (Inr _, w) \<Rightarrow> menu env w)"

section \<open>Vocabulary of the specification\<close>

text \<open>
  \<open>accepts\<close> holds of a line that the length loop takes; \<open>reply\<close> is what one round
  of the loop prints for a line it rejects; \<open>yes\<close> holds of an answer that selects a
  class; \<open>banner\<close>, \<open>questions\<close>, \<open>menu_prompt\<close> and \<open>menu_round\<close> are the fixed texts
  of a session; \<open>import_failure\<close> is what the menu prints when the graphical shell
  cannot be imported.
\<close>

definition accepts :: "string \<Rightarrow> bool" where
  "accepts line = (case py_int line of None \<Rightarrow> False | Some len \<Rightarrow> 0 < len)"

definition reply :: "string \<Rightarrow> string" where
  "reply line =
     ''Enter desired password length (e.g., 16): ''
     @ (if py_int line = None then ''Invalid input. Please enter a number.''
        else ''Please enter a positive number.'') @ [CHR 0x0A]"

definition yes :: "string \<Rightarrow> bool" where
  "yes answer = (answer = ''y'' \<or> answer = ''Y'')"

definition questions :: string where
  "questions = ''Include uppercase letters? (y/n): '' @ ''Include lowercase letters? (y/n): ''
     @ ''Include numbers? (y/n): '' @ ''Include symbols? (y/n): ''"

definition banner :: string where
  "banner = [CHR 0x0A] @ ''--- Random Password Generator (CLI Mode) ---'' @ [CHR 0x0A]"

definition menu_prompt :: string where
  "menu_prompt = [CHR 0x0A] @ ''Choose your mode:'' @ [CHR 0x0A]
     @ ''1. Beginner Mode (CLI)'' @ [CHR 0x0A]
     @ ''2. Advanced Mode (GUI)'' @ [CHR 0x0A]
     @ ''Enter your choice (1 or 2): ''"

definition menu_round :: string where
  "menu_round = menu_prompt @ ''Invalid choice. Please enter 1 or 2.'' @ [CHR 0x0A]"

definition launching :: string where
  "launching = menu_prompt @ ''Launching GUI...'' @ [CHR 0x0A]"

definition import_failure :: "string \<Rightarrow> string" where
  "import_failure e = [CHR 0x0A] @ ''--- ERROR ---'' @ [CHR 0x0A]
     @ ''Failed to import GUI components: '' @ e @ [CHR 0x0A]
     @ ''Please ensure PySide6 is installed correctly.'' @ [CHR 0x0A]
     @ ''You can try running: pip install PySide6'' @ [CHR 0x0A]
     @ ''-------------'' @ [CHR 0x0A]"

section \<open>Sample sessions\<close>

definition session :: world where
  "session = \<lparr>stdin = [''abc'', ''0'', ''3'', ''y'', ''n'', ''no'', '''', ''left''], stdout = [],
     source = [0, 27, 2, 5]\<rparr>"

definition refusing :: world where
  "refusing = \<lparr>stdin = ['' 16 '', ''n'', ''N'', ''yes'', ''''], stdout = [], source = [7, 7]\<rparr>"

definition starved :: world where
  "starved = \<lparr>stdin = [''3'', ''y'', ''n'', ''n'', ''n''], stdout = [], source = [4, 1]\<rparr>"

definition launcher :: environment where
  "launcher = \<lparr>executable = ''python3'', pip = PipInstalled,
     gui_module = ImportError ''No module''\<rparr>"

definition undecided :: world where
  "undecided = \<lparr>stdin = [''x'', ''2''], stdout = [], source = []\<rparr>"

section \<open>The length loop\<close>

declare read_length.simps [simp del] menu.simps [simp del]

lemma read_length_Nil:
  "stdin w = [] \<Longrightarrow>
   read_length w
     = (Inl EOFError, w\<lparr>stdout := stdout w @ ''Enter desired password length (e.g., 16): ''\<rparr>)"
  by (subst read_length.simps) (simp add: input_line_Nil)

lemma read_length_accept:
  "stdin w = line # rest \<Longrightarrow> accepts line \<Longrightarrow>
   read_length w
     = (Inr (the (py_int line)),
        w\<lparr>stdin := rest, stdout := stdout w @ ''Enter desired password length (e.g., 16): ''\<rparr>)"
  by (subst read_length.simps) (auto simp: input_line_Cons accepts_def split: option.splits)

lemma read_length_reject:
  "stdin w = line # rest \<Longrightarrow> \<not> accepts line \<Longrightarrow>
   read_length w = read_length (w\<lparr>stdin := rest, stdout := stdout w @ reply line\<rparr>)"
  by (subst read_length.simps)
    (auto simp: input_line_Cons accepts_def reply_def print_line_def split: option.splits)

lemma read_length_rejected:
  "\<forall>line\<in>set (stdin w). \<not> accepts line \<Longrightarrow>
   read_length w
     = (Inl EOFError,
        w\<lparr>stdin := [], stdout := stdout w @ concat (map reply (stdin w))
          @ ''Enter desired password length (e.g., 16): ''\<rparr>)"
proof (induction "stdin w" arbitrary: w)
  case Nil
  then show ?case by (simp add: read_length_Nil [OF Nil(1) [symmetric]] Nil(1) [symmetric])
next
  case (Cons line rest)
  note w = Cons.hyps(2) [symmetric]
  let ?w = "w\<lparr>stdin := rest, stdout := stdout w @ reply line\<rparr>"
  from Cons.prems w have "\<not> accepts line" "\<forall>line\<in>set (stdin ?w). \<not> accepts line"
    by simp_all
  with Cons.hyps(1) [of ?w] show ?case
    by (simp add: read_length_reject [OF w] w)
qed

lemma read_length_accepted:
  "stdin w = rejected @ line # rest \<Longrightarrow> \<forall>line\<in>set rejected. \<not> accepts line \<Longrightarrow>
   accepts line \<Longrightarrow>
   read_length w
     = (Inr (the (py_int line)),
        w\<lparr>stdin := rest, stdout := stdout w @ concat (map reply rejected)
          @ ''Enter desired password length (e.g., 16): ''\<rparr>)"
proof (induction rejected arbitrary: w)
  case Nil
  then show ?case by (simp add: read_length_accept)
next
  case (Cons r rejected)
  let ?w = "w\<lparr>stdin := rejected @ line # rest, stdout := stdout w @ reply r\<rparr>"
  from Cons.prems have "read_length w = read_length ?w"
    by (intro read_length_reject) simp_all
  also from Cons.prems have "read_length ?w
      = (Inr (the (py_int line)),
         ?w\<lparr>stdin := rest, stdout := stdout ?w @ concat (map reply rejected)
           @ ''Enter desired password length (e.g., 16): ''\<rparr>)"
    by (intro Cons.IH) simp_all
  finally show ?case by simp
qed

section \<open>The dialogue\<close>

lemma ask_Nil: "stdin w = [] \<Longrightarrow> ask prompt w = (Inl EOFError, w\<lparr>stdout := stdout w @ prompt\<rparr>)"
  by (simp add: ask_def input_line_Nil)

lemma ask_Cons:
  "stdin w = answer # rest \<Longrightarrow>
   ask prompt w = (Inr (yes answer), w\<lparr>stdin := rest, stdout := stdout w @ prompt\<rparr>)"
  by (simp add: ask_def input_line_Cons py_lower_y yes_def)

lemma run_cli_dialogue:
  assumes "stdin w = rejected @ line # a1 # a2 # a3 # a4 # rest"
    and "\<forall>line\<in>set rejected. \<not> accepts line" and "accepts line"
  shows "run_cli w =
    (let w' = w\<lparr>stdin := rest,
                stdout := stdout w @ banner @ concat (map reply rejected)
                  @ ''Enter desired password length (e.g., 16): '' @ questions\<rparr>
     in case generate_password (the (py_int line)) (yes a1) (yes a2) (yes a3) (yes a4) False (source w) of
          (Inl exn, rng) \<Rightarrow> (Inl exn, w'\<lparr>source := rng\<rparr>)
        | (Inr (password, error), rng) \<Rightarrow>
            (Inr (), print_line ([CHR 0x0A]
               @ (if py_truthy error then ''Error: '' @ py_format error
                  else ''Generated Password: '' @ py_format password)) (w'\<lparr>source := rng\<rparr>)))"
proof -
  let ?w0 = "print_line ([CHR 0x0A] @ ''--- Random Password Generator (CLI Mode) ---'') w"
  have "stdin ?w0 = rejected @ line # a1 # a2 # a3 # a4 # rest"
    using assms(1) by simp
  note rl = read_length_accepted [OF this assms(2,3)]
  show ?thesis
    unfolding run_cli_def Let_def rl
    by (simp add: ask_Cons questions_def banner_def split: prod.splits sum.splits)
qed

section \<open>What the length loop returns and what can be raised\<close>

lemma accepts_iff: "accepts line \<longleftrightarrow> (\<exists>len > 0. py_int line = Some len)"
  by (auto simp: accepts_def split: option.splits)

lemma find_accepts_split:
  assumes "find accepts xs = Some line"
  shows "\<exists>rejected rest. xs = rejected @ line # rest
    \<and> (\<forall>l\<in>set rejected. \<not> accepts l) \<and> accepts line"
  using assms
proof (induction xs)
  case Nil
  then show ?case by simp
next
  case (Cons x xs)
  show ?case
  proof (cases "accepts x")
    case True
    with Cons.prems have "x # xs = [] @ line # xs \<and> (\<forall>l\<in>set []. \<not> accepts l) \<and> accepts line"
      by simp
    then show ?thesis by blast
  next
    case False
    with Cons obtain rejected rest where "xs = rejected @ line # rest"
        "\<forall>l\<in>set rejected. \<not> accepts l" "accepts line"
      by auto
    with False have "x # xs = (x # rejected) @ line # rest
        \<and> (\<forall>l\<in>set (x # rejected). \<not> accepts l) \<and> accepts line"
      by simp
    then show ?thesis by blast
  qed
qed

lemma read_length_find:
  "fst (read_length w) =
     (case find accepts (stdin w) of
        None \<Rightarrow> Inl EOFError
      | Some line \<Rightarrow> Inr (the (py_int line)))"
proof (cases "find accepts (stdin w)")
  case None
  then have "\<forall>line\<in>set (stdin w). \<not> accepts line"
    by (simp add: find_None_iff)
  with None show ?thesis
    by (simp add: read_length_rejected)
next
  case (Some line)
  from find_accepts_split [OF this] obtain rejected rest
    where "stdin w = rejected @ line # rest" "\<forall>l\<in>set rejected. \<not> accepts l" "accepts line"
    by blast
  from read_length_accepted [OF this] Some show ?thesis
    by simp
qed

lemma read_length_InrD:
  assumes "read_length w = (Inr len, w')"
  shows "0 < len" "source w' = source w" "length (stdin w') < length (stdin w)"
proof -
  from assms obtain line where "find accepts (stdin w) = Some line"
    using read_length_find [of w] by (cases "find accepts (stdin w)") simp_all
  from find_accepts_split [OF this] obtain rejected rest
    where split: "stdin w = rejected @ line # rest" "\<forall>l\<in>set rejected. \<not> accepts l" "accepts line"
    by blast
  note closed = read_length_accepted [OF split]
  from closed assms split(3) show "0 < len"
    by (auto simp: accepts_iff)
  from closed assms show "source w' = source w"
    by auto
  from closed assms split(1) show "length (stdin w') < length (stdin w)"
    by auto
qed

lemma read_length_raises: "read_length w = (Inl exn, w') \<Longrightarrow> exn = EOFError"
  using read_length_find [of w] by (simp split: option.splits)

lemma ask_raises: "ask prompt w = (Inl exn, w') \<Longrightarrow> exn = EOFError"
  by (cases "stdin w") (simp_all add: ask_Nil ask_Cons)

lemma generate_password_raises:
  "generate_password len u l n s ex rng = (Inl exn, rng') \<Longrightarrow> exn = RandomSourceUnavailable"
  by (cases "u \<or> l \<or> n \<or> s") (auto simp: generate_password_none generate_password_some split: if_splits)

section \<open>The menu and the script body\<close>

lemma menu_Nil:
  "stdin w = [] \<Longrightarrow> menu env w = (Inl EOFError, w\<lparr>stdout := stdout w @ menu_prompt\<rparr>)"
  by (subst menu.simps) (simp add: input_line_Nil menu_prompt_def)

lemma menu_cli:
  "stdin w = ''1'' # rest \<Longrightarrow>
   menu env w = run_cli (w\<lparr>stdin := rest, stdout := stdout w @ menu_prompt\<rparr>)"
  by (subst menu.simps) (simp add: input_line_Cons menu_prompt_def print_line_def)

lemma menu_gui:
  assumes "stdin w = ''2'' # rest"
  shows "menu env w =
     (case gui_module env of
        ImportError e \<Rightarrow>
          (Inl (SystemExit 1), w\<lparr>stdin := rest, stdout := stdout w @ launching @ import_failure e\<rparr>)
      | Imported run_gui \<Rightarrow> run_gui (w\<lparr>stdin := rest, stdout := stdout w @ launching\<rparr>))"
  using assms
  by (subst menu.simps)
    (simp add: input_line_Cons print_line_def launching_def menu_prompt_def import_failure_def
      Let_def split: importing.splits)

lemma menu_invalid:
  "stdin w = c # rest \<Longrightarrow> c \<noteq> ''1'' \<Longrightarrow> c \<noteq> ''2'' \<Longrightarrow>
   menu env w = menu env (w\<lparr>stdin := rest, stdout := stdout w @ menu_round\<rparr>)"
  by (subst menu.simps) (simp add: input_line_Cons menu_prompt_def menu_round_def print_line_def)

lemma menu_skips:
  assumes "stdin w = invalid @ rest" and "\<forall>c\<in>set invalid. c \<noteq> ''1'' \<and> c \<noteq> ''2''"
  shows "menu env w = menu env (w\<lparr>stdin := rest,
     stdout := stdout w @ concat (replicate (length invalid) menu_round)\<rparr>)"
  using assms
proof (induction invalid arbitrary: w)
  case Nil
  then have "w\<lparr>stdin := rest, stdout := stdout w\<rparr> = w" by simp
  then show ?case by simp
next
  case (Cons c invalid)
  then show ?case
    by (simp add: menu_invalid [of w c "invalid @ rest"])
qed

lemma install_dependencies_ok:
  "pip env = PipInstalled \<Longrightarrow>
   install_dependencies env w = (Inr (), w\<lparr>stdout := stdout w
     @ ''Checking for required packages...'' @ [CHR 0x0A]
     @ ''Dependencies are up to date.'' @ [CHR 0x0A]\<rparr>)"
  by (simp add: install_dependencies_def)

lemma install_dependencies_fails:
  "pip env \<noteq> PipInstalled \<Longrightarrow> fst (install_dependencies env w) = Inl (SystemExit 1)"
  "stdin (snd (install_dependencies env w)) = stdin w"
  "source (snd (install_dependencies env w)) = source w"
  by (simp_all add: install_dependencies_def Let_def split: pip_outcome.splits)

lemma main_cli:
  assumes "pip env = PipInstalled" and "stdin w = invalid @ ''1'' # rest"
    and "\<forall>c\<in>set invalid. c \<noteq> ''1'' \<and> c \<noteq> ''2''"
  shows "main env w = run_cli (w\<lparr>stdin := rest, stdout := stdout w
     @ ''Checking for required packages...'' @ [CHR 0x0A]
     @ ''Dependencies are up to date.'' @ [CHR 0x0A]
     @ concat (replicate (length invalid) menu_round) @ menu_prompt\<rparr>)"
  using assms
  by (simp add: main_def install_dependencies_ok menu_skips [of _ invalid "''1'' # rest"]
      menu_cli [of _ rest])

lemma main_gui:
  assumes "pip env = PipInstalled" and "stdin w = invalid @ ''2'' # rest"
    and "\<forall>c\<in>set invalid. c \<noteq> ''1'' \<and> c \<noteq> ''2''"
  shows "main env w =
     (let out = stdout w @ ''Checking for required packages...'' @ [CHR 0x0A]
            @ ''Dependencies are up to date.'' @ [CHR 0x0A]
            @ concat (replicate (length invalid) menu_round) @ launching
      in case gui_module env of
           ImportError e \<Rightarrow> (Inl (SystemExit 1), w\<lparr>stdin := rest, stdout := out @ import_failure e\<rparr>)
         | Imported run_gui \<Rightarrow> run_gui (w\<lparr>stdin := rest, stdout := out\<rparr>))"
  using assms
  by (simp add: main_def install_dependencies_ok menu_skips [of _ invalid "''2'' # rest"]
      menu_gui [of _ rest] split: importing.splits)

section \<open>Concrete sessions\<close>

lemma accepts_examples:
  "\<not> accepts ''abc''" "\<not> accepts ''0''" "\<not> accepts ''-4''" "accepts ''3''" "accepts '' 16 ''"
  "accepts ''+1_0''"
  by (simp_all add: accepts_def py_int_def py_strip_def py_space_def)

lemma yes_examples: "yes ''y''" "yes ''Y''" "\<not> yes ''n''" "\<not> yes ''yes''" "\<not> yes []"
  by (simp_all add: yes_def)

lemma session_stdin:
  "stdin session = [''abc'', ''0''] @ ''3'' # ''y'' # ''n'' # ''no'' # [] # [''left'']"
  "\<forall>line\<in>set [''abc'', ''0'']. \<not> accepts line"
  by (simp_all add: session_def accepts_examples)

lemma run_read_length:
  "read_length session = (Inr 3, session\<lparr>stdin := [''y'', ''n'', ''no'', '''', ''left''],
     stdout := ''Enter desired password length (e.g., 16): Invalid input. Please enter a number.''
       @ [CHR 0x0A] @ ''Enter desired password length (e.g., 16): Please enter a positive number.''
       @ [CHR 0x0A] @ ''Enter desired password length (e.g., 16): ''\<rparr>)"
  using read_length_accepted [OF session_stdin accepts_examples(4)]
  by (simp add: reply_def py_int_def py_strip_def py_space_def session_def)

section \<open>Properties of the command-line shell\<close>

text \<open>
  C24. The length loop of \<open>run_cli\<close> ends in every world, and what it does is fixed by
  the input alone. It returns the value of the first line that \<open>int\<close> reads as a
  positive number, leaving the lines after it, and raises \<open>EOFError\<close> with the input
  used up when there is no such line; in both cases it has printed one reply per
  rejected line and one more prompt.
\<close>

theorem read_length_result:
  "read_length w =
     (case find accepts (stdin w) of
        None \<Rightarrow>
          (Inl EOFError,
           w\<lparr>stdin := [], stdout := stdout w @ concat (map reply (stdin w))
             @ ''Enter desired password length (e.g., 16): ''\<rparr>)
      | Some line \<Rightarrow>
          (Inr (the (py_int line)),
           w\<lparr>stdin := tl (dropWhile (\<lambda>l. \<not> accepts l) (stdin w)),
             stdout := stdout w @ concat (map reply (takeWhile (\<lambda>l. \<not> accepts l) (stdin w)))
               @ ''Enter desired password length (e.g., 16): ''\<rparr>))"
proof (cases "find accepts (stdin w)")
  case None
  then have "\<forall>line\<in>set (stdin w). \<not> accepts line"
    by (simp add: find_None_iff)
  with None show ?thesis
    by (simp add: read_length_rejected)
next
  case (Some line)
  from find_accepts_split [OF this] obtain rejected rest
    where split: "stdin w = rejected @ line # rest" "\<forall>l\<in>set rejected. \<not> accepts l" "accepts line"
    by blast
  then have "takeWhile (\<lambda>l. \<not> accepts l) (stdin w) = rejected"
      "dropWhile (\<lambda>l. \<not> accepts l) (stdin w) = line # rest"
    by (simp_all add: takeWhile_append2 dropWhile_append2)
  with read_length_accepted [OF split] Some show ?thesis
    by simp
qed

text \<open>
  C25. A length that the loop of \<open>run_cli\<close> returns is positive; the loop has then
  consumed at least one line of the input and has not touched the random source.
\<close>

theorem read_length_validates:
  assumes "read_length w = (Inr len, w')"
  shows "0 < len \<and> source w' = source w \<and> length (stdin w') < length (stdin w)"
  using read_length_InrD [OF assms] by simp

theorem read_length_validates_witness:
  "read_length session = (Inr 3, session\<lparr>stdin := [''y'', ''n'', ''no'', '''', ''left''],
     stdout := ''Enter desired password length (e.g., 16): Invalid input. Please enter a number.''
       @ [CHR 0x0A] @ ''Enter desired password length (e.g., 16): Please enter a positive number.''
       @ [CHR 0x0A] @ ''Enter desired password length (e.g., 16): ''\<rparr>)
   \<and> 0 < (3 :: int) \<and> length [''y'', ''n'', ''no'', '''', ''left''] < length (stdin session)"
  using read_length_validates [OF run_read_length] run_read_length by simp

text \<open>
  C26. A session of \<open>run_cli\<close> in which a positive length is entered after any number
  of rejected lines, at least one of the four questions is answered \<open>y\<close> or \<open>Y\<close>, and
  the random source delivers enough values, returns normally. It prints the banner, one
  reply per rejected line, the five prompts and the line \<open>Generated Password:\<close> with a
  password drawn from the classes answered with yes, similar characters included; it
  consumes one value of the source per character and leaves the rest of the input.
\<close>

theorem run_cli_generates:
  assumes "stdin w = rejected @ line # a1 # a2 # a3 # a4 # rest"
    and "\<forall>line\<in>set rejected. \<not> accepts line" and "accepts line"
    and "yes a1 \<or> yes a2 \<or> yes a3 \<or> yes a4"
    and "nat (the (py_int line)) \<le> length (source w)"
  shows "run_cli w = (Inr (), w\<lparr>stdin := rest,
     stdout := stdout w @ banner @ concat (map reply rejected)
       @ ''Enter desired password length (e.g., 16): '' @ questions @ [CHR 0x0A]
       @ ''Generated Password: ''
       @ picks (the_pool (yes a1) (yes a2) (yes a3) (yes a4) False)
           (take (nat (the (py_int line))) (source w)) @ [CHR 0x0A],
     source := drop (nat (the (py_int line))) (source w)\<rparr>)"
  using assms(4,5) unfolding run_cli_dialogue [OF assms(1-3)]
  by (simp add: generate_password_some print_line_def)

theorem run_cli_generates_witness:
  "stdin session = [''abc'', ''0''] @ ''3'' # ''y'' # ''n'' # ''no'' # [] # [''left'']
   \<and> \<not> accepts ''abc'' \<and> \<not> accepts ''0'' \<and> accepts ''3''
   \<and> (yes ''y'' \<or> yes ''n'' \<or> yes ''no'' \<or> yes [])
   \<and> nat (the (py_int ''3'')) \<le> length (source session)
   \<and> run_cli session = (Inr (), \<lparr>stdin = [''left''],
       stdout = [CHR 0x0A] @ ''--- Random Password Generator (CLI Mode) ---'' @ [CHR 0x0A]
         @ ''Enter desired password length (e.g., 16): Invalid input. Please enter a number.''
         @ [CHR 0x0A]
         @ ''Enter desired password length (e.g., 16): Please enter a positive number.''
         @ [CHR 0x0A] @ ''Enter desired password length (e.g., 16): ''
         @ ''Include uppercase letters? (y/n): Include lowercase letters? (y/n): ''
         @ ''Include numbers? (y/n): Include symbols? (y/n): '' @ [CHR 0x0A]
         @ ''Generated Password: ABC'' @ [CHR 0x0A],
       source = [5]\<rparr>)"
proof -
  have len: "py_int ''3'' = Some 3"
    by (simp add: py_int_def py_strip_def py_space_def)
  have enough: "nat (the (py_int ''3'')) \<le> length (source session)"
    by (simp add: len session_def)
  have some: "yes ''y'' \<or> yes ''n'' \<or> yes ''no'' \<or> yes []"
    by (simp add: yes_examples)
  from run_cli_generates [OF session_stdin accepts_examples(4) some enough]
  have "run_cli session = (Inr (), \<lparr>stdin = [''left''],
       stdout = [CHR 0x0A] @ ''--- Random Password Generator (CLI Mode) ---'' @ [CHR 0x0A]
         @ ''Enter desired password length (e.g., 16): Invalid input. Please enter a number.''
         @ [CHR 0x0A]
         @ ''Enter desired password length (e.g., 16): Please enter a positive number.''
         @ [CHR 0x0A] @ ''Enter desired password length (e.g., 16): ''
         @ ''Include uppercase letters? (y/n): Include lowercase letters? (y/n): ''
         @ ''Include numbers? (y/n): Include symbols? (y/n): '' @ [CHR 0x0A]
         @ ''Generated Password: ABC'' @ [CHR 0x0A],
       source = [5]\<rparr>)"
    by (simp add: len yes_def session_def banner_def questions_def reply_def picks_def
        the_pool_def class_chars_def UPPERCASE_def py_int_def py_strip_def py_space_def)
  with session_stdin(1) accepts_examples(1,2,4) some enough show ?thesis
    by simp
qed

text \<open>
  C27. A session of \<open>run_cli\<close> in which none of the four questions is answered
  \<open>y\<close> or \<open>Y\<close> returns normally after printing
  \<open>Error: No character types selected.\<close>; it reads nothing from the random source.
\<close>

theorem run_cli_no_class:
  assumes "stdin w = rejected @ line # a1 # a2 # a3 # a4 # rest"
    and "\<forall>line\<in>set rejected. \<not> accepts line" and "accepts line"
    and "\<not> yes a1 \<and> \<not> yes a2 \<and> \<not> yes a3 \<and> \<not> yes a4"
  shows "run_cli w = (Inr (), w\<lparr>stdin := rest,
     stdout := stdout w @ banner @ concat (map reply rejected)
       @ ''Enter desired password length (e.g., 16): '' @ questions @ [CHR 0x0A]
       @ ''Error: No character types selected.'' @ [CHR 0x0A]\<rparr>)"
  using assms(4) unfolding run_cli_dialogue [OF assms(1-3)]
  by (simp add: generate_password_none print_line_def)

theorem run_cli_no_class_witness:
  "stdin refusing = [] @ '' 16 '' # ''n'' # ''N'' # ''yes'' # [] # []
   \<and> accepts '' 16 ''
   \<and> (\<not> yes ''n'' \<and> \<not> yes ''N'' \<and> \<not> yes ''yes'' \<and> \<not> yes [])
   \<and> run_cli refusing = (Inr (), refusing\<lparr>stdin := [],
       stdout := stdout refusing @ banner @ concat (map reply [])
         @ ''Enter desired password length (e.g., 16): '' @ questions @ [CHR 0x0A]
         @ ''Error: No character types selected.'' @ [CHR 0x0A]\<rparr>)"
proof -
  have 1: "stdin refusing = [] @ '' 16 '' # ''n'' # ''N'' # ''yes'' # [] # []"
    by (simp add: refusing_def)
  have 2: "\<forall>line\<in>set []. \<not> accepts line"
    by simp
  have 3: "\<not> yes ''n'' \<and> \<not> yes ''N'' \<and> \<not> yes ''yes'' \<and> \<not> yes []"
    by (simp add: yes_def)
  from run_cli_no_class [OF 1 2 accepts_examples(5) 3] 1 2 3 accepts_examples(5)
  show ?thesis by blast
qed

text \<open>
  C28. The only exceptions that leave \<open>run_cli\<close> are \<open>EOFError\<close> (the input ends
  before the dialogue does) and the failure of the random source; an \<open>IndexError\<close> or a
  \<open>ValueError\<close> never does.
\<close>

theorem run_cli_exceptions:
  assumes "fst (run_cli w) = Inl exn"
  shows "exn = EOFError \<or> exn = RandomSourceUnavailable"
  using assms unfolding run_cli_def Let_def
  by (auto split: prod.splits sum.splits if_splits
      dest: read_length_raises ask_raises generate_password_raises)

lemma run_starved: "fst (run_cli starved) = Inl RandomSourceUnavailable"
proof -
  have "stdin starved = [] @ ''3'' # ''y'' # ''n'' # ''n'' # ''n'' # []"
    by (simp add: starved_def)
  from run_cli_dialogue [OF this _ accepts_examples(4)] show ?thesis
    by (simp add: generate_password_some yes_def starved_def py_int_def py_strip_def py_space_def)
qed

theorem run_cli_exceptions_witness:
  "fst (run_cli starved) = Inl RandomSourceUnavailable
   \<and> (RandomSourceUnavailable = EOFError \<or> RandomSourceUnavailable = RandomSourceUnavailable)"
  using run_cli_exceptions [OF run_starved] run_starved by simp

text \<open>
  C29. When \<open>pip\<close> fails or is missing, \<open>main\<close> exits with status 1 before it reads
  any input or random value.
\<close>

theorem main_exits_on_pip_failure:
  assumes "pip env \<noteq> PipInstalled"
  shows "fst (main env w) = Inl (SystemExit 1) \<and> stdin (snd (main env w)) = stdin w
    \<and> source (snd (main env w)) = source w"
  using assms install_dependencies_fails [of env w]
  by (auto simp: main_def split: prod.splits sum.splits)

theorem main_exits_on_pip_failure_witness:
  "pip \<lparr>executable = ''python3'', pip = FileNotFoundError,
     gui_module = ImportError []\<rparr> \<noteq> PipInstalled
   \<and> main \<lparr>executable = ''python3'', pip = FileNotFoundError,
     gui_module = ImportError []\<rparr> session
      = (Inl (SystemExit 1), session\<lparr>stdout := ''Checking for required packages...'' @ [CHR 0x0A]
          @ ''pip is not installed or not in the system'' @ [CHR 0x27]
          @ ''s PATH. Please install pip.'' @ [CHR 0x0A]\<rparr>)"
proof -
  let ?env = "\<lparr>executable = ''python3'', pip = FileNotFoundError,
     gui_module = ImportError []\<rparr>"
  have "pip ?env \<noteq> PipInstalled" by simp
  from main_exits_on_pip_failure [OF this, of session] show ?thesis
    by (simp add: main_def install_dependencies_def print_line_def session_def)
qed

text \<open>
  C30. With the dependencies installed, \<open>main\<close> repeats the menu once per line that is
  neither \<open>1\<close> nor \<open>2\<close>. On the first \<open>1\<close> it runs \<open>run_cli\<close> on the rest of the
  input; on the first \<open>2\<close> it prints \<open>Launching GUI...\<close> and runs the graphical shell
  on the rest of the input, or, when the shell cannot be imported, prints the five lines
  of the import failure and exits with status 1.
\<close>

theorem main_dispatch:
  assumes "pip env = PipInstalled" and "stdin w = invalid @ c # rest"
    and "\<forall>c\<in>set invalid. c \<noteq> ''1'' \<and> c \<noteq> ''2''" and "c = ''1'' \<or> c = ''2''"
  shows "if c = ''1''
    then main env w = run_cli (w\<lparr>stdin := rest, stdout := stdout w
       @ ''Checking for required packages...'' @ [CHR 0x0A]
       @ ''Dependencies are up to date.'' @ [CHR 0x0A]
       @ concat (replicate (length invalid) menu_round) @ menu_prompt\<rparr>)
    else main env w =
      (let out = stdout w @ ''Checking for required packages...'' @ [CHR 0x0A]
             @ ''Dependencies are up to date.'' @ [CHR 0x0A]
             @ concat (replicate (length invalid) menu_round) @ launching
       in case gui_module env of
            ImportError e \<Rightarrow> (Inl (SystemExit 1), w\<lparr>stdin := rest, stdout := out @ import_failure e\<rparr>)
          | Imported run_gui \<Rightarrow> run_gui (w\<lparr>stdin := rest, stdout := out\<rparr>))"
  using assms main_cli [of env w invalid rest] main_gui [of env w invalid rest] by auto

theorem main_dispatch_witness:
  "pip launcher = PipInstalled \<and> stdin undecided = [''x''] @ ''2'' # []
   \<and> ''x'' \<noteq> ''1'' \<and> ''x'' \<noteq> ''2'' \<and> (''2'' = ''1'' \<or> ''2'' = ''2'')
   \<and> fst (main launcher undecided) = Inl (SystemExit 1)"
proof -
  have 1: "pip launcher = PipInstalled" and 2: "stdin undecided = [''x''] @ ''2'' # []"
    and 3: "\<forall>c\<in>set [''x'']. c \<noteq> ''1'' \<and> c \<noteq> ''2''" and 4: "''2'' = ''1'' \<or> ''2'' = ''2''"
    by (simp_all add: launcher_def undecided_def)
  from main_dispatch [OF 1 2 3 4] 1 2 3 4 show ?thesis
    by (simp add: launcher_def)
qed

end
