(* ===== verification/Widgets.thy ===== *)
theory Widgets
  imports Complex_Main Prelude
begin

text \<open>
  The widgets \<^verbatim>\<open>src/gui_app.py\<close> defines itself: the icons \<open>GuiApp.create_icon\<close> paints
  and the class \<open>ToggleSwitch\<close>.

  Painting is modelled by what is painted. A \<open>QPainter\<close> is the list of the calls made
  on it, a \<open>paint_op list\<close> with the coordinates as rationals (the switch paints at
  \<open>h/2 - 10\<close>); \<open>create_icon\<close> returns the pixmap with the calls that painted it and
  \<open>paint_event\<close> the calls one repaint of a switch makes. \<open>painted\<close> reads such a list
  as Qt does, giving every shape the brush in force when it is drawn; \<open>extent\<close> is the
  bounding box of a shape and \<open>fits\<close> says that it lies within a rectangle.

  A switch is a record that extends the part of \<open>QCheckBox\<close> the class uses (the checked
  state and the geometry) by the attributes of \<open>ToggleSwitch\<close>; its animation is a record
  of its own. Each method is a function of the same name. \<open>contents_rect\<close> is the
  rectangle \<open>contentsRect()\<close> returns for a widget without content margins, the whole
  widget, and \<open>contains\<close> is \<open>QRect.contains\<close>. What Qt does with a switch is
  modelled from its documentation: \<open>set_checked\<close> changes the state and, when it did
  change, runs the slot connected to \<open>stateChanged\<close>; a running animation writes
  positions between its start and end values through the property setter
  (\<open>frame_allowed\<close>, \<open>animation_frame\<close>) and ends on its end value
  (\<open>animation_finished\<close>); the layout gives a widget a new geometry (\<open>resize\<close>).

  The lemmas describe the icons, give the two shapes a switch paints, and show which
  statements about the knob every operation preserves.
\<close>

section \<open>Painting\<close>

datatype colour = Transparent | Hex string

datatype pen = NoPen | Pen colour int

datatype paint_op =
  SetRenderHint
| SetBrush colour
| SetPen pen
| DrawRoundedRect rat rat rat rat rat rat
| DrawEllipse rat rat rat rat
| DrawRect rat rat rat rat
| DrawLine rat rat rat rat
| EndPaint

record pixmap =
  pix_width :: int
  pix_height :: int
  pix_fill :: colour
  pix_ops :: "paint_op list"

type_synonym icon = pixmap

section \<open>Icons\<close>

definition create_icon :: "string \<Rightarrow> string \<Rightarrow> icon" where
  "create_icon color shape =
     (let pixmap = \<lparr>pix_width = 32, pix_height = 32, pix_fill = Transparent, pix_ops = []\<rparr>;
          ops = [SetRenderHint, SetPen (Pen (Hex color) 2)];
          ops =
            (if shape = ''copy'' then ops @ [DrawRect 8 5 13 16, DrawRect 12 2 13 16]
             else if shape = ''circle'' then ops @ [DrawEllipse 6 6 20 20]
             else if shape = ''menu''
             then ops @ [DrawLine 6 8 26 8, DrawLine 6 16 26 16, DrawLine 6 24 26 24]
             else ops)
      in pixmap\<lparr>pix_ops := ops @ [EndPaint]\<rparr>)"

definition sun_icon :: icon where
  "sun_icon = create_icon ''#f9d71c'' ''circle''"

definition moon_icon :: icon where
  "moon_icon = create_icon ''#a0a0a0'' ''circle''"

definition copy_icon :: icon where
  "copy_icon = create_icon ''#a0a0a0'' ''copy''"

definition menu_icon :: icon where
  "menu_icon = create_icon ''#a0a0a0'' ''menu''"

section \<open>The toggle switch\<close>

datatype easing_curve = Linear | OutBounce

record property_animation =
  start_value :: "int option"
  end_value :: "int option"
  duration :: int
  easing_curve :: easing_curve
  running :: bool

record check_box =
  checked :: bool
  widget_width :: int
  widget_height :: int

record rect =
  rect_x :: int
  rect_y :: int
  rect_width :: int
  rect_height :: int

record toggle_switch = check_box +
  bg_color :: colour
  circle_color :: colour
  active_color :: colour
  circle_position :: int
  animation :: property_animation

definition new_switch :: "int \<Rightarrow> int \<Rightarrow> toggle_switch" where
  "new_switch w h =
     \<lparr>checked = False, widget_width = w, widget_height = h,
      bg_color = Hex ''#555'', circle_color = Hex ''#DDD'', active_color = Hex ''#007acc'',
      circle_position = 3,
      animation = \<lparr>start_value = None, end_value = None, duration = 200,
        easing_curve = OutBounce, running = False\<rparr>\<rparr>"

definition set_circle_position :: "int \<Rightarrow> toggle_switch \<Rightarrow> toggle_switch" where
  "set_circle_position pos sw = sw\<lparr>circle_position := pos\<rparr>"

definition start_transition :: "int \<Rightarrow> toggle_switch \<Rightarrow> toggle_switch" where
  "start_transition state sw =
     (let sw = sw\<lparr>animation := (animation sw)\<lparr>start_value := Some (circle_position sw)\<rparr>\<rparr>;
          sw = (if state \<noteq> 0
                then sw\<lparr>animation := (animation sw)\<lparr>end_value := Some (widget_width sw - 23)\<rparr>\<rparr>
                else sw\<lparr>animation := (animation sw)\<lparr>end_value := Some 3\<rparr>\<rparr>)
      in sw\<lparr>animation := (animation sw)\<lparr>running := True\<rparr>\<rparr>)"

definition contents_rect :: "toggle_switch \<Rightarrow> rect" where
  "contents_rect sw =
     \<lparr>rect_x = 0, rect_y = 0, rect_width = widget_width sw, rect_height = widget_height sw\<rparr>"

definition contains :: "rect \<Rightarrow> int \<times> int \<Rightarrow> bool" where
  "contains r pos =
     (case pos of (x, y) \<Rightarrow>
        rect_x r \<le> x \<and> x < rect_x r + rect_width r \<and> rect_y r \<le> y \<and> y < rect_y r + rect_height r)"

definition hit_button :: "toggle_switch \<Rightarrow> int \<times> int \<Rightarrow> bool" where
  "hit_button sw pos = contains (contents_rect sw) pos"

definition paint_event :: "toggle_switch \<Rightarrow> paint_op list" where
  "paint_event sw =
     (let p = [SetRenderHint];
          rect = contents_rect sw;
          h = rect_height rect;
          w = 40;
          p = p @ [SetBrush (bg_color sw)];
          p = p @ [SetPen NoPen];
          p = p @ [DrawRoundedRect 0 (of_int h / 2 - 10) w 20 10 10];
          p = p @ [SetBrush (circle_color sw)];
          p = (if checked sw then p @ [SetBrush (active_color sw)] else p);
          p = p @ [DrawEllipse (of_int (circle_position sw)) (of_int h / 2 - 8) 16 16]
      in p @ [EndPaint])"

definition size_hint :: "int \<times> int" where
  "size_hint = (45, 25)"

section \<open>What Qt does with the switch\<close>

definition set_checked :: "bool \<Rightarrow> toggle_switch \<Rightarrow> toggle_switch" where
  "set_checked b sw =
     (if checked sw = b then sw else start_transition (if b then 2 else 0) (sw\<lparr>checked := b\<rparr>))"

definition frame_allowed :: "int \<Rightarrow> toggle_switch \<Rightarrow> bool" where
  "frame_allowed pos sw =
     (running (animation sw) \<and>
      (case (start_value (animation sw), end_value (animation sw)) of
         (Some a, Some b) \<Rightarrow> min a b \<le> pos \<and> pos \<le> max a b
       | _ \<Rightarrow> False))"

definition animation_frame :: "int \<Rightarrow> toggle_switch \<Rightarrow> toggle_switch" where
  "animation_frame pos sw = set_circle_position pos sw"

definition animation_finished :: "toggle_switch \<Rightarrow> toggle_switch" where
  "animation_finished sw =
     (case end_value (animation sw) of
        None \<Rightarrow> sw\<lparr>animation := (animation sw)\<lparr>running := False\<rparr>\<rparr>
      | Some pos \<Rightarrow> (set_circle_position pos sw)\<lparr>animation := (animation sw)\<lparr>running := False\<rparr>\<rparr>)"

definition resize :: "int \<times> int \<Rightarrow> toggle_switch \<Rightarrow> toggle_switch" where
  "resize dims sw = sw\<lparr>widget_width := fst dims, widget_height := snd dims\<rparr>"

section \<open>Reading a display list\<close>

fun painted :: "colour \<Rightarrow> paint_op list \<Rightarrow> (paint_op \<times> colour) list" where
  "painted brush [] = []"
| "painted brush (SetBrush c # ops) = painted c ops"
| "painted brush (DrawRoundedRect x y w h rx ry # ops)
     = (DrawRoundedRect x y w h rx ry, brush) # painted brush ops"
| "painted brush (DrawEllipse x y w h # ops) = (DrawEllipse x y w h, brush) # painted brush ops"
| "painted brush (DrawRect x y w h # ops) = (DrawRect x y w h, brush) # painted brush ops"
| "painted brush (DrawLine x1 y1 x2 y2 # ops) = (DrawLine x1 y1 x2 y2, brush) # painted brush ops"
| "painted brush (_ # ops) = painted brush ops"

type_synonym box = "rat \<times> rat \<times> rat \<times> rat"

fun extent :: "paint_op \<Rightarrow> box option" where
  "extent (DrawRoundedRect x y w h rx ry) = Some (x, y, x + w, y + h)"
| "extent (DrawEllipse x y w h) = Some (x, y, x + w, y + h)"
| "extent (DrawRect x y w h) = Some (x, y, x + w, y + h)"
| "extent (DrawLine x1 y1 x2 y2) = Some (min x1 x2, min y1 y2, max x1 x2, max y1 y2)"
| "extent _ = None"

fun inside :: "box \<Rightarrow> box \<Rightarrow> bool" where
  "inside (l, t, r, b) (l', t', r', b') \<longleftrightarrow> l' \<le> l \<and> t' \<le> t \<and> r \<le> r' \<and> b \<le> b'"

definition fits :: "rat \<Rightarrow> rat \<Rightarrow> rat \<Rightarrow> paint_op \<Rightarrow> bool" where
  "fits margin w h op =
     (case extent op of
        None \<Rightarrow> True
      | Some box \<Rightarrow> inside box (margin, margin, w - margin, h - margin))"

section \<open>Vocabulary of the properties\<close>

text \<open>
  \<open>rest_position\<close> is where \<open>start_transition\<close> sends the knob for the state and the
  width the switch has now. \<open>switch_ok\<close> is what holds of a switch whatever happens to
  it: its colours are those of the constructor, a running animation has both its
  values, and an unchecked switch rests, or comes to rest, at position 3.
  \<open>switch_aligned\<close> is the stronger statement that the knob rests, or comes to rest, at
  \<open>rest_position\<close>; it holds as long as the width of the switch is the one it had when
  its last animation started.
\<close>

definition rest_position :: "toggle_switch \<Rightarrow> int" where
  "rest_position sw = (if checked sw then widget_width sw - 23 else 3)"

definition switch_aligned :: "toggle_switch \<Rightarrow> bool" where
  "switch_aligned sw \<longleftrightarrow>
     (if running (animation sw) then end_value (animation sw) = Some (rest_position sw)
      else circle_position sw = rest_position sw)"

definition switch_ok :: "toggle_switch \<Rightarrow> bool" where
  "switch_ok sw \<longleftrightarrow>
     bg_color sw = Hex ''#555'' \<and> circle_color sw = Hex ''#DDD'' \<and> active_color sw = Hex ''#007acc''
     \<and> (running (animation sw)
          \<longrightarrow> start_value (animation sw) \<noteq> None \<and> end_value (animation sw) \<noteq> None)
     \<and> (\<not> checked sw \<longrightarrow> switch_aligned sw)"

section \<open>Icons\<close>

lemma create_icon_shapes:
  "map fst (painted Transparent (pix_ops (create_icon color shape))) =
     (if shape = ''copy'' then [DrawRect 8 5 13 16, DrawRect 12 2 13 16]
      else if shape = ''circle'' then [DrawEllipse 6 6 20 20]
      else if shape = ''menu'' then [DrawLine 6 8 26 8, DrawLine 6 16 26 16, DrawLine 6 24 26 24]
      else [])"
  by (simp add: create_icon_def)

lemma create_icon_pixmap [simp]:
  "pix_width (create_icon color shape) = 32" "pix_height (create_icon color shape) = 32"
  "pix_fill (create_icon color shape) = Transparent"
  by (simp_all add: create_icon_def Let_def)

lemma create_icon_pen:
  "SetPen p \<in> set (pix_ops (create_icon color shape)) \<longleftrightarrow> p = Pen (Hex color) 2"
  by (auto simp: create_icon_def Let_def)

lemma create_icon_inj:
  assumes "shape \<in> {''copy'', ''circle'', ''menu''}" "shape' \<in> {''copy'', ''circle'', ''menu''}"
  shows "create_icon color shape = create_icon color' shape' \<longleftrightarrow> color = color' \<and> shape = shape'"
  using assms by (auto simp: create_icon_def Let_def)

lemma icons_distinct: "distinct [sun_icon, moon_icon, copy_icon, menu_icon]"
  by (simp add: sun_icon_def moon_icon_def copy_icon_def menu_icon_def create_icon_def)

lemma create_icon_stroke_fits:
  assumes "SetPen (Pen c n) \<in> set (pix_ops (create_icon color shape))"
  shows "list_all (fits (of_int n / 2) 32 32) (pix_ops (create_icon color shape))"
proof -
  from assms have "n = 2"
    by (simp add: create_icon_pen)
  then show ?thesis
    by (simp add: create_icon_def fits_def Let_def)
qed

section \<open>Facts about the toggle switch\<close>

lemma checked_set_checked [simp]: "checked (set_checked b sw) = b"
  by (simp add: set_checked_def start_transition_def Let_def)

lemma set_checked_frame [simp]:
  "widget_width (set_checked b sw) = widget_width sw"
  "widget_height (set_checked b sw) = widget_height sw"
  "circle_position (set_checked b sw) = circle_position sw"
  "bg_color (set_checked b sw) = bg_color sw" "circle_color (set_checked b sw) = circle_color sw"
  "active_color (set_checked b sw) = active_color sw"
  by (simp_all add: set_checked_def start_transition_def Let_def)

lemma hit_button_set_checked [simp]: "hit_button (set_checked b sw) pos = hit_button sw pos"
  by (simp add: hit_button_def contents_rect_def)

lemma set_checked_animation:
  "animation (set_checked b sw) =
     (if checked sw = b then animation sw
      else (animation sw)\<lparr>start_value := Some (circle_position sw),
             end_value := Some (if b then widget_width sw - 23 else 3), running := True\<rparr>)"
  by (simp add: set_checked_def start_transition_def Let_def)

lemma animation_frame_simps [simp]:
  "checked (animation_frame pos sw) = checked sw"
  "widget_width (animation_frame pos sw) = widget_width sw"
  "widget_height (animation_frame pos sw) = widget_height sw"
  "animation (animation_frame pos sw) = animation sw"
  "circle_position (animation_frame pos sw) = pos"
  "bg_color (animation_frame pos sw) = bg_color sw"
  "circle_color (animation_frame pos sw) = circle_color sw"
  "active_color (animation_frame pos sw) = active_color sw"
  by (simp_all add: animation_frame_def set_circle_position_def)

lemma animation_finished_simps [simp]:
  "checked (animation_finished sw) = checked sw"
  "widget_width (animation_finished sw) = widget_width sw"
  "widget_height (animation_finished sw) = widget_height sw"
  "running (animation (animation_finished sw)) = False"
  "bg_color (animation_finished sw) = bg_color sw"
  "circle_color (animation_finished sw) = circle_color sw"
  "active_color (animation_finished sw) = active_color sw"
  by (simp_all add: animation_finished_def set_circle_position_def split: option.splits)

lemma animation_finished_position:
  "end_value (animation sw) = Some pos \<Longrightarrow> circle_position (animation_finished sw) = pos"
  by (simp add: animation_finished_def set_circle_position_def)

lemma resize_simps [simp]:
  "checked (resize dims sw) = checked sw" "widget_width (resize dims sw) = fst dims"
  "widget_height (resize dims sw) = snd dims" "animation (resize dims sw) = animation sw"
  "circle_position (resize dims sw) = circle_position sw"
  "bg_color (resize dims sw) = bg_color sw" "circle_color (resize dims sw) = circle_color sw"
  "active_color (resize dims sw) = active_color sw"
  by (simp_all add: resize_def)

lemma rest_position_simps [simp]:
  "rest_position (set_checked b sw) = (if b then widget_width sw - 23 else 3)"
  "rest_position (animation_frame pos sw) = rest_position sw"
  "rest_position (animation_finished sw) = rest_position sw"
  "rest_position (resize dims sw) = (if checked sw then fst dims - 23 else 3)"
  by (simp_all add: rest_position_def)

lemmas switch_defs = switch_ok_def switch_aligned_def rest_position_def

lemma switch_new [simp]: "switch_ok (new_switch w h)" "switch_aligned (new_switch w h)"
  by (simp_all add: switch_defs new_switch_def)

lemma switch_aligned_set_checked: "switch_aligned sw \<Longrightarrow> switch_aligned (set_checked b sw)"
  by (auto simp: switch_aligned_def set_checked_animation rest_position_def)

lemma switch_ok_set_checked: "switch_ok sw \<Longrightarrow> switch_ok (set_checked b sw)"
  by (auto simp: switch_defs set_checked_animation)

lemma switch_aligned_frame:
  "switch_aligned sw \<Longrightarrow> frame_allowed pos sw \<Longrightarrow> switch_aligned (animation_frame pos sw)"
  by (simp add: switch_aligned_def frame_allowed_def)

lemma switch_ok_frame:
  "switch_ok sw \<Longrightarrow> frame_allowed pos sw \<Longrightarrow> switch_ok (animation_frame pos sw)"
  by (simp add: switch_ok_def switch_aligned_def frame_allowed_def)

lemma switch_aligned_finished:
  "switch_aligned sw \<Longrightarrow> running (animation sw) \<Longrightarrow> switch_aligned (animation_finished sw)"
  by (simp add: switch_aligned_def animation_finished_position)

lemma switch_ok_finished:
  "switch_ok sw \<Longrightarrow> running (animation sw) \<Longrightarrow> switch_ok (animation_finished sw)"
  by (simp add: switch_ok_def switch_aligned_def animation_finished_position)

lemma switch_ok_resize: "switch_ok sw \<Longrightarrow> switch_ok (resize dims sw)"
  by (simp add: switch_defs)

lemma switch_aligned_resize:
  "switch_aligned sw \<Longrightarrow> checked sw \<longrightarrow> fst dims = widget_width sw \<Longrightarrow> switch_aligned (resize dims sw)"
  by (auto simp: switch_aligned_def rest_position_def)

lemma painted_paint_event:
  "painted Transparent (paint_event sw) =
     [(DrawRoundedRect 0 (of_int (widget_height sw) / 2 - 10) 40 20 10 10, bg_color sw),
      (DrawEllipse (of_int (circle_position sw)) (of_int (widget_height sw) / 2 - 8) 16 16,
       if checked sw then active_color sw else circle_color sw)]"
  by (simp add: paint_event_def contents_rect_def Let_def)

lemma knob_inside_track:
  "inside (the (extent (DrawEllipse (of_int pos) (h / 2 - 8) 16 16)))
          (the (extent (DrawRoundedRect 0 (h / 2 - 10) 40 20 10 10)))
     \<longleftrightarrow> 0 \<le> pos \<and> pos \<le> 24"
  by auto

lemma hit_button_corners:
  "hit_button sw (0, 0) \<longleftrightarrow> 0 < widget_width sw \<and> 0 < widget_height sw"
  "\<not> hit_button sw (widget_width sw, y)" "\<not> hit_button sw (x, widget_height sw)"
  by (simp_all add: hit_button_def contents_rect_def contains_def)

end
