(* ===== verification/Layout.thy ===== *)
theory Layout
  imports Widgets
begin

text \<open>
  The widget tree of the window of \<^verbatim>\<open>src/gui_app.py\<close>, as data. The constructor of
  \<open>GuiApp\<close> creates its widgets, configures them by setter calls and puts them into
  layouts; none of this changes once the window is shown. The model keeps what was
  built: a \<open>part\<close> names a widget by the attribute or local variable that holds it, a
  \<open>setting\<close> is one call that configures a widget or its layout, a \<open>slot\<close> names a
  method connected to a signal, and an \<open>item\<close> is what a layout holds: a widget with
  its settings and the items of its own layout, a nested layout, or a stretch.

  \<open>add_item\<close> and \<open>configure\<close> are \<open>addWidget\<close>, \<open>addLayout\<close>, \<open>addStretch\<close> and the
  setters. \<open>parts\<close>, \<open>settings\<close> and \<open>paths\<close> read a tree: the widgets in it, the
  settings of each, and for each widget the widgets it lies in, outermost first. The lemmas relate
  these to \<open>add_item\<close> and \<open>configure\<close>.
\<close>

section \<open>Widgets and their settings\<close>

datatype switch_id = UpperSwitch | LowerSwitch | NumbersSwitch | SymbolsSwitch | ExcludeSimilarSwitch

datatype part =
  CentralWidget | Splitter | OptionsPanel | OptionsTitle | LenLabel | LenSlider
| ToggleLabel switch_id | Toggle switch_id
| MainPanel | PanelToggleButton | ThemeButton | TitleLabel | Card | PasswordDisplay | CopyButton
| StrengthLabel | StrengthBar | CopiedLabel | GenerateButton

datatype alignment = AlignCenter | AlignLeft

datatype orientation = Horizontal | Vertical

datatype cursor_shape = PointingHandCursor

datatype slot =
  StartTransition | GenerateAndDisplay | LengthChanged | ToggleOptionsPanel | ToggleTheme
| CopyToClipboard

datatype setting =
  ObjectName string
| Text string
| IconOf icon
| Alignment alignment
| Cursor cursor_shape
| FixedSize int int
| MinimumSize int int
| MaximumSize int int
| MinimumHeight int
| IconSize int int
| ReadOnly bool
| Range int int
| Maximum int
| TextVisible bool
| LayoutOf orientation
| Oriented orientation
| InLayout nat alignment
| ContentsMargins int int int int
| Spacing int
| Sizes "int list"
| Collapsible nat bool
| DropShadow int "int \<times> int \<times> int \<times> int" "int \<times> int"
| Connect slot

datatype item =
  Widget part "setting list" "item list"
| Box orientation "item list"
| Stretch nat

instantiation switch_id :: enum
begin

definition "enum_class.enum = [UpperSwitch, LowerSwitch, NumbersSwitch, SymbolsSwitch, ExcludeSimilarSwitch]"

definition "enum_class.enum_all P \<longleftrightarrow>
  P UpperSwitch \<and> P LowerSwitch \<and> P NumbersSwitch \<and> P SymbolsSwitch \<and> P ExcludeSimilarSwitch"

definition "enum_class.enum_ex P \<longleftrightarrow>
  P UpperSwitch \<or> P LowerSwitch \<or> P NumbersSwitch \<or> P SymbolsSwitch \<or> P ExcludeSimilarSwitch"

instance
proof
  show "(UNIV :: switch_id set) = set enum_class.enum"
    by (auto simp: enum_switch_id_def intro: switch_id.exhaust)
  show "distinct (enum_class.enum :: switch_id list)"
    by (simp add: enum_switch_id_def)
  show "enum_class.enum_all P \<longleftrightarrow> Ball UNIV P" for P :: "switch_id \<Rightarrow> bool"
    unfolding enum_all_switch_id_def by (metis (full_types) UNIV_I switch_id.exhaust)
  show "enum_class.enum_ex P \<longleftrightarrow> Bex UNIV P" for P :: "switch_id \<Rightarrow> bool"
    unfolding enum_ex_switch_id_def by (metis (full_types) UNIV_I switch_id.exhaust)
qed

end

section \<open>Building a tree\<close>

fun add_item :: "item \<Rightarrow> item \<Rightarrow> item" where
  "add_item x (Widget p ss cs) = Widget p ss (cs @ [x])"
| "add_item x (Box d cs) = Box d (cs @ [x])"
| "add_item x (Stretch n) = Stretch n"

fun configure :: "setting \<Rightarrow> item \<Rightarrow> item" where
  "configure s (Widget p ss cs) = Widget p (ss @ [s]) cs"
| "configure s (Box d cs) = Box d cs"
| "configure s (Stretch n) = Stretch n"

section \<open>Reading a tree\<close>

fun parts :: "item \<Rightarrow> part list" where
  "parts (Widget p ss cs) = p # concat (map parts cs)"
| "parts (Box d cs) = concat (map parts cs)"
| "parts (Stretch n) = []"

fun settings :: "item \<Rightarrow> (part \<times> setting list) list" where
  "settings (Widget p ss cs) = (p, ss) # concat (map settings cs)"
| "settings (Box d cs) = concat (map settings cs)"
| "settings (Stretch n) = []"

fun paths :: "item \<Rightarrow> (part \<times> part list) list" where
  "paths (Widget p ss cs) = (p, []) # map (\<lambda>(q, above). (q, p # above)) (concat (map paths cs))"
| "paths (Box d cs) = concat (map paths cs)"
| "paths (Stretch n) = []"

definition settings_of :: "part \<Rightarrow> item \<Rightarrow> setting list" where
  "settings_of p t = (case map_of (settings t) p of None \<Rightarrow> [] | Some ss \<Rightarrow> ss)"

definition slots_of :: "part \<Rightarrow> item \<Rightarrow> slot list" where
  "slots_of p t = concat (map (\<lambda>s. case s of Connect f \<Rightarrow> [f] | _ \<Rightarrow> []) (settings_of p t))"

definition enclosing :: "part \<Rightarrow> item \<Rightarrow> part list option" where
  "enclosing p t = map_option (\<lambda>above. above @ [p]) (map_of (paths t) p)"

section \<open>Facts about trees\<close>

lemma map_fst_settings [simp]: "map fst (settings t) = parts t"
  by (induction t rule: settings.induct) (simp_all add: map_concat cong: map_cong)

lemma map_fst_paths [simp]: "map fst (paths t) = parts t"
  by (induction t rule: paths.induct)
    (simp_all add: map_concat case_prod_unfold comp_def cong: map_cong)

lemma parts_add_item:
  "parts (add_item x t) = (case t of Stretch n \<Rightarrow> [] | _ \<Rightarrow> parts t @ parts x)"
  by (cases t) simp_all

lemma parts_configure [simp]: "parts (configure s t) = parts t"
  by (cases t) simp_all

lemma fst_set_paths [simp]: "fst ` set (paths t) = set (parts t)"
  by (simp flip: set_map)

lemma enclosing_iff_parts: "enclosing p t \<noteq> None \<longleftrightarrow> p \<in> set (parts t)"
  by (simp add: enclosing_def map_of_eq_None_iff)

lemma enclosing_last: "enclosing p t = Some ps \<Longrightarrow> last ps = p"
  by (auto simp: enclosing_def)

end
