(* ===== verification/GUI.thy ===== *)
theory GUI
  imports Layout Strength Generator Python_Builtins
begin

text \<open>
  The window of the graphical shell, class \<open>GuiApp\<close> of \<^verbatim>\<open>src/gui_app.py\<close>. The window is
  a record \<open>gui_app\<close>. A widget or attribute that a handler reads or writes is a field
  holding the part of it the code uses: the text of a label or of the password
  display, the value of the slider and of the strength bar, whether a panel or the
  notice is visible, the five switches (records of theory \<open>Widgets\<close>), the icon on the
  theme button. The widgets as the constructor configures and arranges them are the
  trees \<open>options_layout\<close>, \<open>main_panel\<close> and \<open>main_layout\<close> (theory \<open>Layout\<close>), in which a
  widget is named by its \<open>part\<close>. Four more fields are what lies outside the window:
  the style sheets on disk, the clipboard, the number of pending single-shot timers,
  and the console with the random source.

  Each method of the class is a function on that record, named as in the code. The
  constructor \<open>init\<close> and its helpers \<open>create_options_panel\<close>, \<open>create_toggle\<close> and
  \<open>create_main_panel\<close> follow the code call by call; \<open>assemble\<close> is the part of
  \<open>__init__\<close> that puts the two panels into the splitter. \<open>create_toggle\<close> takes the
  name of the switch it creates, which in the code is the identity of the new object.
  \<open>length_changed\<close> is the lambda connected to the slider, \<open>switch_clicked\<close> and
  \<open>slider_moved\<close> are what Qt runs for a click on a switch and a move of the slider,
  \<open>timer_fired\<close> is the single-shot timer of \<open>copy_to_clipboard\<close>. A handler that calls
  \<open>generate_password\<close> returns a result as the functions of the command-line shell do,
  \<open>Inl\<close> for an exception. What Qt and Python do is modelled from their documentation
  and kept apart: a slider keeps its value within its range and signals only a change,
  a progress bar ignores a value outside its range (\<open>progress_set_value\<close>),
  \<open>os.path.join\<close>.

  \<open>built\<close> is the window when the constructor is about to generate the first password,
  and \<open>window_tree\<close> with its parts \<open>options_tree\<close>, \<open>main_tree\<close>, \<open>card_tree\<close> and
  \<open>toggle_row\<close> is the tree it has built by then, written out. The lemmas give closed
  forms of \<open>generate_and_display\<close> for each state of the settings and of the random
  source, what every handler leaves unchanged, and the fields of \<open>built\<close>; theory
  \<open>Event_Loop\<close> builds the invariants of the running window on them.
\<close>

section \<open>The window\<close>

record gui_app =
  light_theme_path :: string
  dark_theme_path :: string
  len_var :: int
  len_label :: string
  len_slider :: int
  upper_var :: toggle_switch
  lower_var :: toggle_switch
  numbers_var :: toggle_switch
  symbols_var :: toggle_switch
  exclude_similar_var :: toggle_switch
  theme_button :: icon
  password_display :: string
  strength_label :: string
  strength_bar :: int
  strength_property :: string
  copied_label :: bool
  options_panel :: bool
  is_dark_theme :: bool
  style_sheet :: string
  files :: "(string \<times> string) list"
  clipboard :: string
  timers :: nat
  console :: world
  window_title :: string
  minimum_size :: "int \<times> int"
  main_layout :: item
  options_layout :: item
  main_panel :: item

section \<open>What the code takes from Python and Qt\<close>

definition path_join :: "string \<Rightarrow> string \<Rightarrow> string" where
  "path_join dir name = (if dir = [] \<or> last dir = CHR ''/'' then dir @ name else dir @ ''/'' @ name)"

definition progress_set_value :: "int \<Rightarrow> gui_app \<Rightarrow> gui_app" where
  "progress_set_value v g = (if 0 \<le> v \<and> v \<le> 8 then g\<lparr>strength_bar := v\<rparr> else g)"

definition show_window :: "gui_app \<Rightarrow> gui_app" where
  "show_window g = g\<lparr>options_panel := True\<rparr>"

definition unbuilt :: "(string \<times> string) list \<Rightarrow> world \<Rightarrow> gui_app" where
  "unbuilt fs w =
     \<lparr>light_theme_path = [], dark_theme_path = [], len_var = 0, len_label = [], len_slider = 0,
      upper_var = new_switch 0 0, lower_var = new_switch 0 0, numbers_var = new_switch 0 0,
      symbols_var = new_switch 0 0, exclude_similar_var = new_switch 0 0, theme_button = menu_icon,
      password_display = [], strength_label = [], strength_bar = - 1, strength_property = [],
      copied_label = False, options_panel = False, is_dark_theme = False, style_sheet = [],
      files = fs, clipboard = [], timers = 0, console = w, window_title = [], minimum_size = (0, 0),
      main_layout = Box Vertical [], options_layout = Box Vertical [], main_panel = Box Vertical []\<rparr>"

section \<open>The methods of the window\<close>

definition update_strength_meter :: "string \<Rightarrow> gui_app \<Rightarrow> gui_app" where
  "update_strength_meter password g =
     (case check_strength password of
        (strength, score) \<Rightarrow>
          (let g = progress_set_value score g;
               g = g\<lparr>strength_label := ''Strength: '' @ strength\<rparr>
           in g\<lparr>strength_property := strength\<rparr>))"

definition generate_and_display :: "gui_app \<Rightarrow> unit raising \<times> gui_app" where
  "generate_and_display g =
     (case generate_password (len_var g) (checked (upper_var g)) (checked (lower_var g))
             (checked (numbers_var g)) (checked (symbols_var g)) (checked (exclude_similar_var g))
             (source (console g)) of
        (Inl exn, rng) \<Rightarrow> (Inl exn, g\<lparr>console := (console g)\<lparr>source := rng\<rparr>\<rparr>)
      | (Inr (password, error), rng) \<Rightarrow>
          (let g = g\<lparr>console := (console g)\<lparr>source := rng\<rparr>\<rparr>
           in if py_truthy error
              then (Inr (), update_strength_meter [] (g\<lparr>password_display := py_format error\<rparr>))
              else case password of
                     None \<Rightarrow> (Inl TypeError, g)
                   | Some pw \<Rightarrow> (Inr (), update_strength_meter pw (g\<lparr>password_display := pw\<rparr>))))"

definition length_changed :: "int \<Rightarrow> gui_app \<Rightarrow> unit raising \<times> gui_app" where
  "length_changed v g =
     generate_and_display (g\<lparr>len_var := v, len_label := ''Password Length: '' @ py_str v\<rparr>)"

definition copy_to_clipboard :: "gui_app \<Rightarrow> gui_app" where
  "copy_to_clipboard g =
     g\<lparr>copied_label := True, clipboard := password_display g, timers := Suc (timers g)\<rparr>"

definition load_stylesheet :: "string \<Rightarrow> gui_app \<Rightarrow> gui_app" where
  "load_stylesheet path g =
     (case map_of (files g) path of
        Some sheet \<Rightarrow> g\<lparr>style_sheet := sheet\<rparr>
      | None \<Rightarrow> g\<lparr>console := print_line (''Stylesheet not found at: '' @ path) (console g)\<rparr>)"

definition toggle_theme :: "gui_app \<Rightarrow> gui_app" where
  "toggle_theme g =
     (let g = g\<lparr>is_dark_theme := \<not> is_dark_theme g\<rparr>
      in if is_dark_theme g
         then (load_stylesheet (dark_theme_path g) g)\<lparr>theme_button := moon_icon\<rparr>
         else (load_stylesheet (light_theme_path g) g)\<lparr>theme_button := sun_icon\<rparr>)"

definition toggle_options_panel :: "gui_app \<Rightarrow> gui_app" where
  "toggle_options_panel g =
     (if options_panel g then g\<lparr>options_panel := False\<rparr> else g\<lparr>options_panel := True\<rparr>)"

definition switch_item :: "switch_id \<Rightarrow> item" where
  "switch_item k = Widget (Toggle k) [Cursor PointingHandCursor, Connect StartTransition] []"

definition create_toggle ::
  "switch_id \<Rightarrow> string \<Rightarrow> bool \<Rightarrow> int \<times> int \<Rightarrow> gui_app \<Rightarrow> toggle_switch \<times> gui_app"
where
  "create_toggle k caption is_checked dims g =
     (let toggle_layout = Box Horizontal [];
          label = Widget (ToggleLabel k) [Text caption] [];
          switch = new_switch (fst dims) (snd dims);
          node = switch_item k;
          switch = set_checked is_checked switch;
          node = configure (Connect GenerateAndDisplay) node;
          toggle_layout = add_item label toggle_layout;
          toggle_layout = add_item (Stretch 0) toggle_layout;
          toggle_layout = add_item node toggle_layout;
          g = g\<lparr>options_layout := add_item toggle_layout (options_layout g)\<rparr>
      in (switch, g))"

definition create_options_panel :: "int \<times> int \<Rightarrow> gui_app \<Rightarrow> gui_app" where
  "create_options_panel dims g =
     (let g = g\<lparr>options_layout := Widget OptionsPanel
            [ObjectName ''OptionsPanel'', LayoutOf Vertical, ContentsMargins 15 15 15 15, Spacing 15] []\<rparr>;
          title = Widget OptionsTitle
            [Text ''Properties'', ObjectName ''OptionsTitle'', Alignment AlignCenter] [];
          g = g\<lparr>options_layout := add_item title (options_layout g)\<rparr>;
          g = g\<lparr>len_var := 18\<rparr>;
          g = g\<lparr>len_label := ''Password Length: '' @ py_str (len_var g)\<rparr>;
          g = g\<lparr>options_layout := add_item (Widget LenLabel [] []) (options_layout g)\<rparr>;
          slider = Widget LenSlider [Oriented Horizontal, Range 4 64] [];
          g = g\<lparr>len_slider := max 4 (min 64 (len_var g))\<rparr>;
          slider = configure (Connect LengthChanged) slider;
          g = g\<lparr>options_layout := add_item slider (options_layout g)\<rparr>;
          (switch, g) = create_toggle UpperSwitch ''Include Uppercase (A-Z)'' True dims g;
          g = g\<lparr>upper_var := switch\<rparr>;
          (switch, g) = create_toggle LowerSwitch ''Include Lowercase (a-z)'' True dims g;
          g = g\<lparr>lower_var := switch\<rparr>;
          (switch, g) = create_toggle NumbersSwitch ''Include Numbers (0-9)'' True dims g;
          g = g\<lparr>numbers_var := switch\<rparr>;
          (switch, g) = create_toggle SymbolsSwitch ''Include Symbols (!@#$)'' True dims g;
          g = g\<lparr>symbols_var := switch\<rparr>;
          (switch, g) = create_toggle ExcludeSimilarSwitch ''Exclude Similar (O, 0, l, 1)'' False dims g;
          g = g\<lparr>exclude_similar_var := switch\<rparr>
      in g\<lparr>options_layout := add_item (Stretch 0) (options_layout g)\<rparr>)"

definition create_main_panel :: "gui_app \<Rightarrow> gui_app" where
  "create_main_panel g =
     (let main_panel = Widget MainPanel [LayoutOf Vertical, Alignment AlignCenter] [];
          top_bar_layout = Box Horizontal [];
          panel_toggle_button = Widget PanelToggleButton
            [IconOf menu_icon, Text [], ObjectName ''ThemeButton'', Cursor PointingHandCursor,
             Connect ToggleOptionsPanel, FixedSize 40 40, IconSize 28 28] [];
          top_bar_layout = add_item panel_toggle_button top_bar_layout;
          top_bar_layout = add_item (Stretch 0) top_bar_layout;
          g = g\<lparr>theme_button := moon_icon\<rparr>;
          theme_button = Widget ThemeButton
            [Text [], ObjectName ''ThemeButton'', Cursor PointingHandCursor, Connect ToggleTheme,
             FixedSize 40 40, IconSize 28 28] [];
          top_bar_layout = add_item theme_button top_bar_layout;
          main_panel = add_item top_bar_layout main_panel;
          title_label = Widget TitleLabel
            [Text ''Modern Password Generator'', ObjectName ''TitleLabel'', Alignment AlignCenter] [];
          main_panel = add_item title_label main_panel;
          main_panel = add_item (Stretch 1) main_panel;
          card = Widget Card
            [ObjectName ''PasswordCard'', MinimumSize 450 150, MaximumSize 600 200, LayoutOf Vertical,
             ContentsMargins 20 20 20 20] [];
          g = g\<lparr>password_display := ''Generating...''\<rparr>;
          password_display = Widget PasswordDisplay
            [ObjectName ''PasswordDisplay'', ReadOnly True, Alignment AlignCenter] [];
          copy_button = Widget CopyButton
            [IconOf copy_icon, Text [], ObjectName ''CopyButton'', Cursor PointingHandCursor,
             Connect CopyToClipboard, FixedSize 45 45, IconSize 32 32] [];
          display_layout = Box Horizontal [];
          display_layout = add_item password_display display_layout;
          display_layout = add_item copy_button display_layout;
          card = add_item display_layout card;
          g = g\<lparr>strength_label := ''Strength''\<rparr>;
          card = add_item (Widget StrengthLabel [ObjectName ''StrengthLabel'', InLayout 0 AlignLeft] []) card;
          g = g\<lparr>strength_bar := - 1\<rparr>;
          card = add_item (Widget StrengthBar [Maximum 8, TextVisible False] []) card;
          g = g\<lparr>copied_label := False\<rparr>;
          card = add_item (Widget CopiedLabel
            [Text ''Copied to clipboard!'', ObjectName ''CopiedLabel'', Alignment AlignCenter] []) card;
          card = configure (DropShadow 30 (0, 0, 0, 80) (0, 5)) card;
          main_panel = add_item card main_panel;
          generate_button = Widget GenerateButton
            [Text ''Generate Password'', MinimumHeight 50, Connect GenerateAndDisplay] [];
          main_panel = add_item generate_button main_panel;
          main_panel = add_item (Stretch 2) main_panel
      in g\<lparr>main_panel := main_panel\<rparr>)"

definition assemble :: "gui_app \<Rightarrow> gui_app" where
  "assemble g =
     (let splitter = Widget Splitter [Oriented Horizontal] [];
          splitter = add_item (options_layout g) splitter;
          splitter = add_item (main_panel g) splitter;
          splitter = configure (Sizes [250, 550]) splitter;
          splitter = configure (Collapsible 0 True) splitter;
          splitter = configure (Collapsible 1 False) splitter
      in g\<lparr>main_layout := add_item splitter (main_layout g)\<rparr>)"

definition init :: "string \<Rightarrow> int \<times> int \<Rightarrow> gui_app \<Rightarrow> unit raising \<times> gui_app" where
  "init current_dir dims g =
     (let g = g\<lparr>light_theme_path := path_join current_dir ''light_theme.qss''\<rparr>;
          g = g\<lparr>dark_theme_path := path_join current_dir ''dark_theme.qss''\<rparr>;
          g = g\<lparr>window_title := ''Modern Password Generator''\<rparr>;
          g = g\<lparr>minimum_size := (800, 600)\<rparr>;
          g = g\<lparr>main_layout := Widget CentralWidget
            [LayoutOf Horizontal, ContentsMargins 0 0 0 0, Spacing 0] []\<rparr>;
          g = create_options_panel dims g;
          g = create_main_panel g;
          g = assemble g;
          g = g\<lparr>is_dark_theme := True\<rparr>;
          g = load_stylesheet (dark_theme_path g) g
      in generate_and_display g)"

section \<open>The connections of the widgets\<close>

definition switch_of :: "switch_id \<Rightarrow> gui_app \<Rightarrow> toggle_switch" where
  "switch_of k g =
     (case k of UpperSwitch \<Rightarrow> upper_var g | LowerSwitch \<Rightarrow> lower_var g
      | NumbersSwitch \<Rightarrow> numbers_var g | SymbolsSwitch \<Rightarrow> symbols_var g
      | ExcludeSimilarSwitch \<Rightarrow> exclude_similar_var g)"

definition put_switch :: "switch_id \<Rightarrow> toggle_switch \<Rightarrow> gui_app \<Rightarrow> gui_app" where
  "put_switch k sw g =
     (case k of UpperSwitch \<Rightarrow> g\<lparr>upper_var := sw\<rparr> | LowerSwitch \<Rightarrow> g\<lparr>lower_var := sw\<rparr>
      | NumbersSwitch \<Rightarrow> g\<lparr>numbers_var := sw\<rparr> | SymbolsSwitch \<Rightarrow> g\<lparr>symbols_var := sw\<rparr>
      | ExcludeSimilarSwitch \<Rightarrow> g\<lparr>exclude_similar_var := sw\<rparr>)"

definition switch_clicked :: "switch_id \<Rightarrow> gui_app \<Rightarrow> unit raising \<times> gui_app" where
  "switch_clicked k g =
     generate_and_display (put_switch k (set_checked (\<not> checked (switch_of k g)) (switch_of k g)) g)"

definition slider_moved :: "int \<Rightarrow> gui_app \<Rightarrow> unit raising \<times> gui_app" where
  "slider_moved v g =
     (let v = max 4 (min 64 v)
      in if v = len_slider g then (Inr (), g) else length_changed v (g\<lparr>len_slider := v\<rparr>))"

definition timer_fired :: "gui_app \<Rightarrow> gui_app" where
  "timer_fired g = g\<lparr>copied_label := False, timers := timers g - 1\<rparr>"

section \<open>Vocabulary of the properties\<close>

text \<open>
  \<open>any_class\<close> and \<open>pool_of\<close> read the settings off the switches; \<open>display_ok\<close> says
  that the display agrees with the settings and \<open>meter_ok\<close> that the meter agrees with
  the display. \<open>built\<close> is the window as \<open>init\<close> has set it up when it generates the
  first password.
\<close>

definition any_class :: "gui_app \<Rightarrow> bool" where
  "any_class g \<longleftrightarrow> checked (upper_var g) \<or> checked (lower_var g) \<or> checked (numbers_var g)
     \<or> checked (symbols_var g)"

definition pool_of :: "gui_app \<Rightarrow> char list" where
  "pool_of g = the_pool (checked (upper_var g)) (checked (lower_var g)) (checked (numbers_var g))
     (checked (symbols_var g)) (checked (exclude_similar_var g))"

definition meter_shows :: "string \<Rightarrow> gui_app \<Rightarrow> bool" where
  "meter_shows pw g \<longleftrightarrow> strength_bar g = snd (check_strength pw)
     \<and> strength_label g = ''Strength: '' @ fst (check_strength pw)
     \<and> strength_property g = fst (check_strength pw)"

definition display_ok :: "gui_app \<Rightarrow> bool" where
  "display_ok g \<longleftrightarrow>
     (if any_class g
      then length (password_display g) = nat (len_var g) \<and> set (password_display g) \<subseteq> set (pool_of g)
      else password_display g = ''No character types selected.'')"

definition meter_ok :: "gui_app \<Rightarrow> bool" where
  "meter_ok g \<longleftrightarrow> meter_shows (if any_class g then password_display g else []) g"

definition built :: "string \<Rightarrow> int \<times> int \<Rightarrow> gui_app \<Rightarrow> gui_app" where
  "built current_dir dims g =
     (let g = g\<lparr>light_theme_path := path_join current_dir ''light_theme.qss''\<rparr>;
          g = g\<lparr>dark_theme_path := path_join current_dir ''dark_theme.qss''\<rparr>;
          g = g\<lparr>window_title := ''Modern Password Generator''\<rparr>;
          g = g\<lparr>minimum_size := (800, 600)\<rparr>;
          g = g\<lparr>main_layout := Widget CentralWidget
            [LayoutOf Horizontal, ContentsMargins 0 0 0 0, Spacing 0] []\<rparr>;
          g = create_options_panel dims g;
          g = create_main_panel g;
          g = assemble g;
          g = g\<lparr>is_dark_theme := True\<rparr>
      in load_stylesheet (dark_theme_path g) g)"

definition toggle_row :: "switch_id \<Rightarrow> string \<Rightarrow> item" where
  "toggle_row k caption =
     Box Horizontal [Widget (ToggleLabel k) [Text caption] [], Stretch 0,
       Widget (Toggle k) [Cursor PointingHandCursor, Connect StartTransition,
         Connect GenerateAndDisplay] []]"

definition options_tree :: item where
  "options_tree =
     Widget OptionsPanel
       [ObjectName ''OptionsPanel'', LayoutOf Vertical, ContentsMargins 15 15 15 15, Spacing 15]
       [Widget OptionsTitle [Text ''Properties'', ObjectName ''OptionsTitle'', Alignment AlignCenter] [],
        Widget LenLabel [] [],
        Widget LenSlider [Oriented Horizontal, Range 4 64, Connect LengthChanged] [],
        toggle_row UpperSwitch ''Include Uppercase (A-Z)'',
        toggle_row LowerSwitch ''Include Lowercase (a-z)'',
        toggle_row NumbersSwitch ''Include Numbers (0-9)'',
        toggle_row SymbolsSwitch ''Include Symbols (!@#$)'',
        toggle_row ExcludeSimilarSwitch ''Exclude Similar (O, 0, l, 1)'',
        Stretch 0]"

definition card_tree :: item where
  "card_tree =
     Widget Card
       [ObjectName ''PasswordCard'', MinimumSize 450 150, MaximumSize 600 200, LayoutOf Vertical,
        ContentsMargins 20 20 20 20, DropShadow 30 (0, 0, 0, 80) (0, 5)]
       [Box Horizontal
          [Widget PasswordDisplay
             [ObjectName ''PasswordDisplay'', ReadOnly True, Alignment AlignCenter] [],
           Widget CopyButton
             [IconOf copy_icon, Text [], ObjectName ''CopyButton'', Cursor PointingHandCursor,
              Connect CopyToClipboard, FixedSize 45 45, IconSize 32 32] []],
        Widget StrengthLabel [ObjectName ''StrengthLabel'', InLayout 0 AlignLeft] [],
        Widget StrengthBar [Maximum 8, TextVisible False] [],
        Widget CopiedLabel
          [Text ''Copied to clipboard!'', ObjectName ''CopiedLabel'', Alignment AlignCenter] []]"

definition main_tree :: item where
  "main_tree =
     Widget MainPanel [LayoutOf Vertical, Alignment AlignCenter]
       [Box Horizontal
          [Widget PanelToggleButton
             [IconOf menu_icon, Text [], ObjectName ''ThemeButton'', Cursor PointingHandCursor,
              Connect ToggleOptionsPanel, FixedSize 40 40, IconSize 28 28] [],
           Stretch 0,
           Widget ThemeButton
             [Text [], ObjectName ''ThemeButton'', Cursor PointingHandCursor, Connect ToggleTheme,
              FixedSize 40 40, IconSize 28 28] []],
        Widget TitleLabel
          [Text ''Modern Password Generator'', ObjectName ''TitleLabel'', Alignment AlignCenter] [],
        Stretch 1,
        card_tree,
        Widget GenerateButton
          [Text ''Generate Password'', MinimumHeight 50, Connect GenerateAndDisplay] [],
        Stretch 2]"

definition window_tree :: item where
  "window_tree =
     Widget CentralWidget [LayoutOf Horizontal, ContentsMargins 0 0 0 0, Spacing 0]
       [Widget Splitter
          [Oriented Horizontal, Sizes [250, 550], Collapsible 0 True, Collapsible 1 False]
          [options_tree, main_tree]]"

section \<open>Sample states\<close>

definition desk :: world where
  "desk = \<lparr>stdin = [], stdout = [], source = [0..<200]\<rparr>"

definition themes :: "(string \<times> string) list" where
  "themes = [(''/app/light_theme.qss'', ''light''), (''/app/dark_theme.qss'', ''dark'')]"

definition fresh :: gui_app where
  "fresh = built ''/app'' (640, 480) (unbuilt themes desk)"

section \<open>The strength meter\<close>

lemma score_range: "0 \<le> snd (check_strength pw)" "snd (check_strength pw) \<le> 8"
  by (simp_all add: snd_check_strength)

lemma update_strength_meter_eq:
  "update_strength_meter pw g =
     g\<lparr>strength_label := ''Strength: '' @ fst (check_strength pw),
       strength_bar := snd (check_strength pw), strength_property := fst (check_strength pw)\<rparr>"
  using score_range [of pw]
  by (cases "check_strength pw") (simp add: update_strength_meter_def progress_set_value_def)

lemma check_strength_Nil [simp]: "check_strength [] = (''EMPTY'', 0)"
  by (simp add: check_strength_def)

section \<open>One generation\<close>

lemma generate_and_display_none:
  assumes "\<not> any_class g"
  shows "generate_and_display g =
    (Inr (), g\<lparr>password_display := ''No character types selected.'',
       strength_label := ''Strength: EMPTY'', strength_bar := 0, strength_property := ''EMPTY''\<rparr>)"
  using assms
  by (simp add: generate_and_display_def any_class_def generate_password_none
      update_strength_meter_eq)

lemma generate_and_display_some:
  assumes "any_class g" and "nat (len_var g) \<le> length (source (console g))"
  shows "generate_and_display g =
    (let pw = picks (pool_of g) (take (nat (len_var g)) (source (console g)))
     in (Inr (), g\<lparr>password_display := pw,
           strength_label := ''Strength: '' @ fst (check_strength pw),
           strength_bar := snd (check_strength pw), strength_property := fst (check_strength pw),
           console := (console g)\<lparr>source := drop (nat (len_var g)) (source (console g))\<rparr>\<rparr>))"
  using assms
  by (simp add: generate_and_display_def any_class_def pool_of_def generate_password_some
      update_strength_meter_eq Let_def)

lemma generate_and_display_dry:
  assumes "any_class g" and "length (source (console g)) < nat (len_var g)"
  shows "generate_and_display g = (Inl RandomSourceUnavailable, g\<lparr>console := (console g)\<lparr>source := []\<rparr>\<rparr>)"
  using assms
  by (simp add: generate_and_display_def any_class_def generate_password_some)

lemma generate_and_display_cases:
  "generate_and_display g =
     (if \<not> any_class g
      then (Inr (), g\<lparr>password_display := ''No character types selected.'',
              strength_label := ''Strength: EMPTY'', strength_bar := 0, strength_property := ''EMPTY''\<rparr>)
      else if nat (len_var g) \<le> length (source (console g))
      then (let pw = picks (pool_of g) (take (nat (len_var g)) (source (console g)))
            in (Inr (), g\<lparr>password_display := pw,
                 strength_label := ''Strength: '' @ fst (check_strength pw),
                 strength_bar := snd (check_strength pw), strength_property := fst (check_strength pw),
                 console := (console g)\<lparr>source := drop (nat (len_var g)) (source (console g))\<rparr>\<rparr>))
      else (Inl RandomSourceUnavailable, g\<lparr>console := (console g)\<lparr>source := []\<rparr>\<rparr>))"
  by (simp add: generate_and_display_none generate_and_display_some generate_and_display_dry)

lemma generate_and_display_frame:
  assumes "generate_and_display g = (r, g')"
  shows "len_var g' = len_var g" "len_label g' = len_label g" "len_slider g' = len_slider g"
    "upper_var g' = upper_var g" "lower_var g' = lower_var g" "numbers_var g' = numbers_var g"
    "symbols_var g' = symbols_var g" "exclude_similar_var g' = exclude_similar_var g"
    "theme_button g' = theme_button g" "copied_label g' = copied_label g"
    "options_panel g' = options_panel g" "is_dark_theme g' = is_dark_theme g"
    "style_sheet g' = style_sheet g" "files g' = files g" "clipboard g' = clipboard g"
    "timers g' = timers g" "stdin (console g') = stdin (console g)"
    "stdout (console g') = stdout (console g)" "main_layout g' = main_layout g"
  using assms by (auto simp: generate_and_display_cases Let_def split: if_splits)

lemma generate_and_display_flags:
  assumes "generate_and_display g = (r, g')"
  shows "any_class g' = any_class g" "pool_of g' = pool_of g"
  using generate_and_display_frame [OF assms] by (simp_all add: any_class_def pool_of_def)

lemma pool_of_nonempty [simp]: "pool_of g = [] \<longleftrightarrow> \<not> any_class g"
  by (simp add: pool_of_def any_class_def)

lemma generate_and_display_post:
  assumes "generate_and_display g = (Inr (), g')"
  shows "display_ok g'" "meter_ok g'"
proof -
  note flags = generate_and_display_flags [OF assms] generate_and_display_frame(1) [OF assms]
  show "display_ok g'"
    unfolding display_ok_def flags using assms
    by (auto simp: generate_and_display_cases Let_def set_picks [THEN subsetD] split: if_splits)
  show "meter_ok g'"
    unfolding meter_ok_def flags using assms
    by (auto simp: generate_and_display_cases Let_def meter_shows_def split: if_splits)
qed

lemma generate_and_display_raises:
  assumes "generate_and_display g = (Inl exn, g')"
  shows "exn = RandomSourceUnavailable" "any_class g"
    "length (source (console g)) < nat (len_var g)"
  using assms by (auto simp: generate_and_display_cases Let_def split: if_splits)

lemma generate_and_display_consumes:
  assumes "generate_and_display g = (Inr (), g')"
  shows "source (console g') = drop (if any_class g then nat (len_var g) else 0) (source (console g))"
  using assms by (auto simp: generate_and_display_cases Let_def split: if_splits)

lemmas generate_and_display_snd [simp] =
  generate_and_display_frame [OF prod.collapse [symmetric]]
  generate_and_display_flags [OF prod.collapse [symmetric]]

lemma generate_and_display_ok:
  assumes "fst (generate_and_display g) = Inr ()"
  shows "display_ok (snd (generate_and_display g))" "meter_ok (snd (generate_and_display g))"
proof -
  from assms have "generate_and_display g = (Inr (), snd (generate_and_display g))"
    by (metis prod.collapse)
  then show "display_ok (snd (generate_and_display g))" "meter_ok (snd (generate_and_display g))"
    by (rule generate_and_display_post)+
qed

lemma generate_and_display_returns:
  "\<not> any_class g \<or> nat (len_var g) \<le> length (source (console g))
   \<Longrightarrow> fst (generate_and_display g) = Inr ()"
  by (auto simp: generate_and_display_cases Let_def)

lemma generate_and_display_raise:
  assumes "fst (generate_and_display g) \<noteq> Inr ()"
  shows "snd (generate_and_display g) = g\<lparr>console := (console g)\<lparr>source := []\<rparr>\<rparr>"
proof -
  from assms generate_and_display_returns [of g]
  have "any_class g" "length (source (console g)) < nat (len_var g)"
    by (cases "any_class g"; cases "nat (len_var g) \<le> length (source (console g))"; simp)+
  then show ?thesis
    by (simp add: generate_and_display_dry)
qed

lemma generate_and_display_budget:
  assumes "console G = console g" "len_var G \<le> 64"
  shows "length (source (console g)) \<le> length (source (console (snd (generate_and_display G)))) + 64"
  using assms by (auto simp: generate_and_display_cases Let_def)

lemma display_ok_spec:
  "display_ok g \<longleftrightarrow>
     (if any_class g
      then length (password_display g) = nat (len_var g)
        \<and> set (password_display g)
          \<subseteq> pool_spec (set (selected (checked (upper_var g)) (checked (lower_var g))
               (checked (numbers_var g)) (checked (symbols_var g)))) (checked (exclude_similar_var g))
      else password_display g = ''No character types selected.'')"
  by (simp add: display_ok_def pool_of_def set_the_pool)

section \<open>What the handlers leave unchanged\<close>

lemma switch_of_simps [simp]:
  "switch_of UpperSwitch g = upper_var g" "switch_of LowerSwitch g = lower_var g"
  "switch_of NumbersSwitch g = numbers_var g" "switch_of SymbolsSwitch g = symbols_var g"
  "switch_of ExcludeSimilarSwitch g = exclude_similar_var g"
  by (simp_all add: switch_of_def)

lemma switch_of_cong:
  assumes "upper_var g' = upper_var g" "lower_var g' = lower_var g" "numbers_var g' = numbers_var g"
    and "symbols_var g' = symbols_var g" "exclude_similar_var g' = exclude_similar_var g"
  shows "switch_of k g' = switch_of k g"
  using assms by (cases k) simp_all

lemma put_switch_frame [simp]:
  "len_var (put_switch k sw g) = len_var g" "len_label (put_switch k sw g) = len_label g"
  "len_slider (put_switch k sw g) = len_slider g" "theme_button (put_switch k sw g) = theme_button g"
  "password_display (put_switch k sw g) = password_display g"
  "copied_label (put_switch k sw g) = copied_label g" "options_panel (put_switch k sw g) = options_panel g"
  "is_dark_theme (put_switch k sw g) = is_dark_theme g" "timers (put_switch k sw g) = timers g"
  "console (put_switch k sw g) = console g" "clipboard (put_switch k sw g) = clipboard g"
  "main_layout (put_switch k sw g) = main_layout g"
  by (cases k; simp add: put_switch_def)+

lemma switch_of_put_switch [simp]:
  "switch_of k' (put_switch k sw g) = (if k' = k then sw else switch_of k' g)"
  by (cases k; cases k') (simp_all add: put_switch_def switch_of_def)

lemma put_switch_same_checked [simp]:
  assumes "checked sw = checked (switch_of k g)"
  shows "checked (upper_var (put_switch k sw g)) = checked (upper_var g)"
    "checked (lower_var (put_switch k sw g)) = checked (lower_var g)"
    "checked (numbers_var (put_switch k sw g)) = checked (numbers_var g)"
    "checked (symbols_var (put_switch k sw g)) = checked (symbols_var g)"
    "checked (exclude_similar_var (put_switch k sw g)) = checked (exclude_similar_var g)"
  using assms by (cases k; simp add: put_switch_def)+

lemma put_switch_view [simp]:
  "strength_label (put_switch k sw g) = strength_label g"
  "strength_bar (put_switch k sw g) = strength_bar g"
  "strength_property (put_switch k sw g) = strength_property g"
  "style_sheet (put_switch k sw g) = style_sheet g" "files (put_switch k sw g) = files g"
  by (cases k; simp add: put_switch_def)+

lemma load_stylesheet_frame [simp]:
  "len_var (load_stylesheet path g) = len_var g" "len_label (load_stylesheet path g) = len_label g"
  "len_slider (load_stylesheet path g) = len_slider g"
  "upper_var (load_stylesheet path g) = upper_var g" "lower_var (load_stylesheet path g) = lower_var g"
  "numbers_var (load_stylesheet path g) = numbers_var g"
  "symbols_var (load_stylesheet path g) = symbols_var g"
  "exclude_similar_var (load_stylesheet path g) = exclude_similar_var g"
  "theme_button (load_stylesheet path g) = theme_button g"
  "password_display (load_stylesheet path g) = password_display g"
  "strength_label (load_stylesheet path g) = strength_label g"
  "strength_bar (load_stylesheet path g) = strength_bar g"
  "strength_property (load_stylesheet path g) = strength_property g"
  "copied_label (load_stylesheet path g) = copied_label g"
  "options_panel (load_stylesheet path g) = options_panel g"
  "is_dark_theme (load_stylesheet path g) = is_dark_theme g"
  "files (load_stylesheet path g) = files g" "clipboard (load_stylesheet path g) = clipboard g"
  "timers (load_stylesheet path g) = timers g"
  "source (console (load_stylesheet path g)) = source (console g)"
  "light_theme_path (load_stylesheet path g) = light_theme_path g"
  "dark_theme_path (load_stylesheet path g) = dark_theme_path g"
  "main_layout (load_stylesheet path g) = main_layout g"
  "window_title (load_stylesheet path g) = window_title g"
  "minimum_size (load_stylesheet path g) = minimum_size g"
  by (simp_all add: load_stylesheet_def print_line_def split: option.splits)

lemmas view_defs = display_ok_def meter_ok_def meter_shows_def any_class_def pool_of_def

lemma view_frame:
  assumes "display_ok g" "meter_ok g"
    and "checked (upper_var g') = checked (upper_var g)"
    and "checked (lower_var g') = checked (lower_var g)"
    and "checked (numbers_var g') = checked (numbers_var g)"
    and "checked (symbols_var g') = checked (symbols_var g)"
    and "checked (exclude_similar_var g') = checked (exclude_similar_var g)"
    and "len_var g' = len_var g" "password_display g' = password_display g"
    and "strength_label g' = strength_label g" "strength_bar g' = strength_bar g"
    and "strength_property g' = strength_property g"
  shows "display_ok g' \<and> meter_ok g'"
proof -
  have "any_class g' = any_class g" "pool_of g' = pool_of g"
    using assms(3-7) by (simp_all add: any_class_def pool_of_def)
  with assms show ?thesis
    unfolding display_ok_def meter_ok_def meter_shows_def by simp
qed

section \<open>Construction\<close>

lemma py_str_examples: "py_str 18 = ''18''" "py_str 4 = ''4''" "py_str 64 = ''64''" "py_str (- 7) = ''-7''"
  by (simp_all add: py_str_def py_str_nat.simps char_of_eq_iff)

lemma init_built: "init current_dir dims g = generate_and_display (built current_dir dims g)"
  by (simp add: init_def built_def Let_def)

lemma create_toggle_eq:
  "create_toggle k caption b dims g =
     (set_checked b (new_switch (fst dims) (snd dims)),
      g\<lparr>options_layout := add_item
          (Box Horizontal [Widget (ToggleLabel k) [Text caption] [], Stretch 0,
             Widget (Toggle k) [Cursor PointingHandCursor, Connect StartTransition,
               Connect GenerateAndDisplay] []])
          (options_layout g)\<rparr>)"
  by (simp add: create_toggle_def switch_item_def Let_def)

lemma switch_set_checked_new [simp]:
  "switch_ok (set_checked b (new_switch w h))" "switch_aligned (set_checked b (new_switch w h))"
  by (simp_all add: switch_ok_set_checked switch_aligned_set_checked)

lemmas construction_defs = built_def create_options_panel_def create_main_panel_def assemble_def
  Let_def

lemma built_fields [simp]:
  "len_var (built current_dir dims g) = 18" "len_slider (built current_dir dims g) = 18"
  "len_label (built current_dir dims g) = ''Password Length: '' @ py_str 18"
  "checked (upper_var (built current_dir dims g))"
  "checked (lower_var (built current_dir dims g))"
  "checked (numbers_var (built current_dir dims g))"
  "checked (symbols_var (built current_dir dims g))"
  "\<not> checked (exclude_similar_var (built current_dir dims g))"
  "theme_button (built current_dir dims g) = moon_icon"
  "is_dark_theme (built current_dir dims g)"
  "\<not> copied_label (built current_dir dims g)"
  "options_panel (built current_dir dims g) = options_panel g"
  "timers (built current_dir dims g) = timers g"
  "source (console (built current_dir dims g)) = source (console g)"
  "files (built current_dir dims g) = files g"
  by (simp_all add: construction_defs create_toggle_eq)

lemmas tree_defs = window_tree_def options_tree_def main_tree_def card_tree_def toggle_row_def

lemma built_layout [simp]:
  "main_layout (built current_dir dims g) = window_tree"
  "window_title (built current_dir dims g) = ''Modern Password Generator''"
  "minimum_size (built current_dir dims g) = (800, 600)"
  by (simp_all add: construction_defs create_toggle_eq tree_defs)

lemma built_switch:
  "switch_of k (built current_dir dims g)
     = set_checked (k \<noteq> ExcludeSimilarSwitch) (new_switch (fst dims) (snd dims))"
  by (cases k; simp add: construction_defs create_toggle_eq)

lemma built_stdin [simp]: "stdin (console (built current_dir dims g)) = stdin (console g)"
  by (simp add: construction_defs create_toggle_eq load_stylesheet_def print_line_def split: option.splits)

lemma any_class_built [simp]: "any_class (built current_dir dims g)"
  by (simp add: any_class_def)

lemma init_returns:
  "18 \<le> length (source (console g)) \<Longrightarrow> fst (init current_dir dims g) = Inr ()"
  by (simp add: init_built generate_and_display_returns)

lemma init_source:
  assumes "fst (init current_dir dims g) = Inr ()"
  shows "source (console (snd (init current_dir dims g))) = drop 18 (source (console g))"
proof -
  from assms have "generate_and_display (built current_dir dims g)
      = (Inr (), snd (init current_dir dims g))"
    by (metis init_built prod.collapse)
  from generate_and_display_consumes [OF this] show ?thesis
    by simp
qed

lemma built_switches [simp]:
  "switch_ok (switch_of k (built current_dir dims g))"
  "switch_aligned (switch_of k (built current_dir dims g))"
  by (cases k; simp add: construction_defs create_toggle_eq)+

lemma any_class_switches:
  "any_class g \<longleftrightarrow> list_ex (\<lambda>k. checked (switch_of k g))
     [UpperSwitch, LowerSwitch, NumbersSwitch, SymbolsSwitch]"
  by (simp add: any_class_def switch_of_def)

section \<open>Evaluation at sample states\<close>

lemma fresh_run: "generate_and_display fresh = (Inr (), snd (generate_and_display fresh))"
proof -
  have "fst (generate_and_display fresh) = Inr ()"
    by (intro generate_and_display_returns) (simp add: fresh_def unbuilt_def desk_def)
  then show ?thesis
    by (metis prod.collapse)
qed

lemma fresh_fields:
  "files fresh = themes" "light_theme_path fresh = ''/app/light_theme.qss''"
  "dark_theme_path fresh = ''/app/dark_theme.qss''" "style_sheet fresh = ''dark''"
  "is_dark_theme fresh" "theme_button fresh = moon_icon"
  by (simp_all add: fresh_def construction_defs create_toggle_eq load_stylesheet_def unbuilt_def themes_def
      path_join_def)

section \<open>Properties of the handlers\<close>

text \<open>
  C31. When \<open>generate_and_display\<close> returns, the display and the strength meter agree
  with the settings it was called with: if a class is switched on, the display holds a
  password of the length set on the slider, made of characters of the classes switched
  on (without the similar-looking ones when that switch is on), and the bar and the
  label show what \<open>check_strength\<close> says of that password; otherwise the display
  holds the no-class message and the meter shows the rating of the empty string.
\<close>

theorem generate_and_display_shows:
  assumes "generate_and_display g = (Inr (), g')"
  shows "(if any_class g
      then length (password_display g') = nat (len_var g)
        \<and> set (password_display g')
          \<subseteq> pool_spec (set (selected (checked (upper_var g)) (checked (lower_var g))
               (checked (numbers_var g)) (checked (symbols_var g)))) (checked (exclude_similar_var g))
      else password_display g' = ''No character types selected.'')
    \<and> strength_bar g' = snd (check_strength (if any_class g then password_display g' else []))
    \<and> strength_label g'
      = ''Strength: '' @ fst (check_strength (if any_class g then password_display g' else []))"
  using generate_and_display_post [OF assms] generate_and_display_flags(1) [OF assms]
    generate_and_display_frame(1,4-8) [OF assms]
  by (simp add: display_ok_spec meter_ok_def meter_shows_def split: if_splits)

theorem generate_and_display_shows_witness:
  "generate_and_display fresh = (Inr (), snd (generate_and_display fresh))
   \<and> length (password_display (snd (generate_and_display fresh))) = nat 18
   \<and> strength_bar (snd (generate_and_display fresh))
     = snd (check_strength (password_display (snd (generate_and_display fresh))))"
  using generate_and_display_shows [OF fresh_run] fresh_run
  by (simp add: fresh_def)

text \<open>
  With no class switched on, \<open>generate_and_display\<close> returns normally, shows
  \<open>No character types selected.\<close> in place of a password and an empty strength
  indicator (label \<open>EMPTY\<close>, bar at 0), and reads nothing from the random source.
\<close>

theorem generate_and_display_no_class:
  assumes "\<not> any_class g"
  shows "fst (generate_and_display g) = Inr ()
    \<and> password_display (snd (generate_and_display g)) = ''No character types selected.''
    \<and> strength_label (snd (generate_and_display g)) = ''Strength: EMPTY''
    \<and> strength_bar (snd (generate_and_display g)) = 0
    \<and> console (snd (generate_and_display g)) = console g"
  using assms by (simp add: generate_and_display_none)

theorem generate_and_display_no_class_witness:
  "\<not> any_class (unbuilt themes desk)
   \<and> fst (generate_and_display (unbuilt themes desk)) = Inr ()
   \<and> password_display (snd (generate_and_display (unbuilt themes desk)))
     = ''No character types selected.''
   \<and> strength_bar (snd (generate_and_display (unbuilt themes desk))) = 0"
proof -
  have "\<not> any_class (unbuilt themes desk)"
    by (simp add: any_class_def unbuilt_def new_switch_def)
  from generate_and_display_no_class [OF this] this show ?thesis
    by simp
qed

text \<open>
  C38. When both style sheets exist and the window shows the sheet and the icon of its
  current theme, \<open>toggle_theme\<close> twice brings the window back to the state it was in.
\<close>

theorem toggle_theme_twice:
  assumes "map_of (files g) (dark_theme_path g) = Some dark_sheet"
    and "map_of (files g) (light_theme_path g) = Some light_sheet"
    and "style_sheet g = (if is_dark_theme g then dark_sheet else light_sheet)"
    and "theme_button g = (if is_dark_theme g then moon_icon else sun_icon)"
  shows "toggle_theme (toggle_theme g) = g"
  using assms by (cases "is_dark_theme g") (simp_all add: toggle_theme_def load_stylesheet_def)

theorem toggle_theme_twice_witness:
  "map_of (files fresh) (dark_theme_path fresh) = Some ''dark''
   \<and> map_of (files fresh) (light_theme_path fresh) = Some ''light''
   \<and> style_sheet fresh = ''dark'' \<and> theme_button fresh = moon_icon
   \<and> toggle_theme (toggle_theme fresh) = fresh"
proof -
  have 1: "map_of (files fresh) (dark_theme_path fresh) = Some ''dark''"
    and 2: "map_of (files fresh) (light_theme_path fresh) = Some ''light''"
    and 3: "style_sheet fresh = (if is_dark_theme fresh then ''dark'' else ''light'')"
    and 4: "theme_button fresh = (if is_dark_theme fresh then moon_icon else sun_icon)"
    by (simp_all add: fresh_fields themes_def)
  from toggle_theme_twice [OF 1 2 3 4] 1 2 show ?thesis
    by (simp add: fresh_fields)
qed

end
