(* ===== verification/Event_Loop.thy ===== *)
theory Event_Loop
  imports GUI
begin

text \<open>
  The running window: \<open>run_gui\<close> of \<^verbatim>\<open>src/gui_app.py\<close> and the Qt event loop it enters.
  An event is a value of \<open>gui_event\<close>: what the user does to a widget, a frame or the
  end of a switch's animation, a new geometry given to a switch by the layout, the
  firing of a single-shot timer. \<open>enabled\<close> says in which states Qt can deliver an
  event, \<open>dispatch\<close> runs the slots connected to it, \<open>exec\<close> is \<open>QApplication.exec\<close> on
  a list of events, and \<open>run_gui\<close> builds the window, shows it and runs the loop.
  \<open>step\<close> and \<open>reachable\<close> are the same loop as a transition system: the states a
  window can be in after any run in which no handler raised.

  The invariant \<open>consistent\<close> of the reachable states is proved by rule induction from
  one preservation lemma per conjunct; the properties of the window are its
  consequences. \<open>exec\<close> stays within the reachable states as long as the random source
  holds 64 values for each event, the most one generation draws; when the source runs
  dry a handler raises, the loop goes on, and the part \<open>steady\<close> of the invariant still
  holds; the display then shows a password of the previous settings until an event
  regenerates it (\<open>stale_display\<close>, \<open>regenerates_consistent\<close>), as in the sample run
  \<open>recovering\<close>. From every reachable state the animations of the switches can come to rest.
  The knob of a switch rests where \<open>start_transition\<close> sent it for the width the switch
  had at that moment (\<open>switches_aligned\<close>, kept by every event but a resize). A switch
  that is never clicked stays \<open>as_built\<close>: its knob rests where the constructor sent
  it, for the width the switch had before the layout placed it; the sample state
  \<open>settled\<close> shows that for the switches that start checked this is not a position on
  the track.
\<close>

section \<open>Events\<close>

datatype gui_event =
  SliderMoved int
| SwitchClicked switch_id "int \<times> int"
| AnimationFrame switch_id int
| AnimationFinished switch_id
| SwitchResized switch_id "int \<times> int"
| GenerateClicked
| CopyClicked
| ThemeClicked
| PanelClicked
| TimerFired

definition enabled :: "gui_event \<Rightarrow> gui_app \<Rightarrow> bool" where
  "enabled ev g =
     (case ev of
        SliderMoved v \<Rightarrow> options_panel g
      | SwitchClicked k pos \<Rightarrow> options_panel g \<and> hit_button (switch_of k g) pos
      | AnimationFrame k pos \<Rightarrow> frame_allowed pos (switch_of k g)
      | AnimationFinished k \<Rightarrow> running (animation (switch_of k g))
      | TimerFired \<Rightarrow> 0 < timers g
      | _ \<Rightarrow> True)"

definition dispatch :: "gui_event \<Rightarrow> gui_app \<Rightarrow> unit raising \<times> gui_app" where
  "dispatch ev g =
     (case ev of
        SliderMoved v \<Rightarrow> slider_moved v g
      | SwitchClicked k pos \<Rightarrow> switch_clicked k g
      | AnimationFrame k pos \<Rightarrow> (Inr (), put_switch k (animation_frame pos (switch_of k g)) g)
      | AnimationFinished k \<Rightarrow> (Inr (), put_switch k (animation_finished (switch_of k g)) g)
      | SwitchResized k dims \<Rightarrow> (Inr (), put_switch k (resize dims (switch_of k g)) g)
      | GenerateClicked \<Rightarrow> generate_and_display g
      | CopyClicked \<Rightarrow> (Inr (), copy_to_clipboard g)
      | ThemeClicked \<Rightarrow> (Inr (), toggle_theme g)
      | PanelClicked \<Rightarrow> (Inr (), toggle_options_panel g)
      | TimerFired \<Rightarrow> (Inr (), timer_fired g))"

fun exec :: "gui_event list \<Rightarrow> gui_app \<Rightarrow> gui_app" where
  "exec [] g = g"
| "exec (ev # evs) g = exec evs (if enabled ev g then snd (dispatch ev g) else g)"

definition run_gui ::
  "string \<Rightarrow> int \<times> int \<Rightarrow> (string \<times> string) list \<Rightarrow> gui_event list \<Rightarrow> int \<Rightarrow> world
     \<Rightarrow> unit raising \<times> gui_app"
where
  "run_gui current_dir dims fs evs status w =
     (case init current_dir dims (unbuilt fs w) of
        (Inl exn, g) \<Rightarrow> (Inl exn, g)
      | (Inr _, g) \<Rightarrow> (Inl (SystemExit status), exec evs (show_window g)))"

inductive step :: "gui_app \<Rightarrow> gui_event \<Rightarrow> gui_app \<Rightarrow> bool" where
  handled: "enabled ev g \<Longrightarrow> dispatch ev g = (Inr (), g') \<Longrightarrow> step g ev g'"

inductive reachable :: "gui_app \<Rightarrow> bool" where
  shown: "init current_dir dims (unbuilt fs w) = (Inr (), g) \<Longrightarrow> reachable (show_window g)"
| after: "reachable g \<Longrightarrow> step g ev g' \<Longrightarrow> reachable g'"

inductive_cases stepE: "step g ev g'"

section \<open>Vocabulary of the properties\<close>

text \<open>
  The conjuncts of the invariant: the length, the slider and the label agree and the
  length is within the slider's range (\<open>length_ok\<close>); the display and the meter agree
  with the settings (\<open>display_ok\<close> and \<open>meter_ok\<close> of theory \<open>GUI\<close>); a visible notice
  has a timer that will hide it (\<open>notice_ok\<close>); the icon of the theme button is that of
  the theme (\<open>theme_ok\<close>); every switch satisfies \<open>switch_ok\<close> (\<open>switches_ok\<close>).
  \<open>steady\<close> is the part of the invariant that does not depend on a handler returning,
  and \<open>resting\<close> says that no switch is in an animation.
  \<open>switches_aligned\<close> is the stronger statement about the knobs, and \<open>is_resize\<close> names
  the events that can break it. \<open>clicks k\<close> names the clicks on switch \<open>k\<close>, and
  \<open>as_built w b\<close> says of a switch that it has the state \<open>b\<close> it was constructed with
  and that its knob rests, or comes to rest, where the constructor sent it when the
  switch was \<open>w\<close> wide. \<open>regenerates\<close> names the events whose handler calls
  \<open>generate_and_display\<close>: a click on a switch or on the generate button, and a move
  of the slider to another value.
\<close>

definition length_ok :: "gui_app \<Rightarrow> bool" where
  "length_ok g \<longleftrightarrow> 4 \<le> len_var g \<and> len_var g \<le> 64 \<and> len_slider g = len_var g
     \<and> len_label g = ''Password Length: '' @ py_str (len_var g)"

definition notice_ok :: "gui_app \<Rightarrow> bool" where
  "notice_ok g \<longleftrightarrow> (if copied_label g then 0 < timers g else True)"

definition theme_ok :: "gui_app \<Rightarrow> bool" where
  "theme_ok g \<longleftrightarrow> theme_button g = (if is_dark_theme g then moon_icon else sun_icon)"

definition switches_ok :: "gui_app \<Rightarrow> bool" where
  "switches_ok g \<longleftrightarrow> list_all (\<lambda>k. switch_ok (switch_of k g)) enum_class.enum"

definition switches_aligned :: "gui_app \<Rightarrow> bool" where
  "switches_aligned g \<longleftrightarrow> list_all (\<lambda>k. switch_aligned (switch_of k g)) enum_class.enum"

definition is_resize :: "gui_event \<Rightarrow> bool" where
  "is_resize ev = (case ev of SwitchResized k dims \<Rightarrow> True | _ \<Rightarrow> False)"

definition resting :: "gui_app \<Rightarrow> bool" where
  "resting g \<longleftrightarrow> list_all (\<lambda>k. \<not> running (animation (switch_of k g))) enum_class.enum"

definition clicks :: "switch_id \<Rightarrow> gui_event \<Rightarrow> bool" where
  "clicks k ev = (case ev of SwitchClicked k' pos \<Rightarrow> k' = k | _ \<Rightarrow> False)"

definition as_built :: "int \<Rightarrow> bool \<Rightarrow> toggle_switch \<Rightarrow> bool" where
  "as_built w b sw \<longleftrightarrow>
     checked sw = b
     \<and> (if b
        then (if running (animation sw) then end_value (animation sw) = Some (w - 23)
              else circle_position sw = w - 23)
        else \<not> running (animation sw) \<and> circle_position sw = 3)"

definition regenerates :: "gui_event \<Rightarrow> gui_app \<Rightarrow> bool" where
  "regenerates ev g =
     (case ev of
        SliderMoved v \<Rightarrow> max 4 (min 64 v) \<noteq> len_slider g
      | SwitchClicked k pos \<Rightarrow> True
      | GenerateClicked \<Rightarrow> True
      | _ \<Rightarrow> False)"

definition steady :: "gui_app \<Rightarrow> bool" where
  "steady g \<longleftrightarrow> length_ok g \<and> notice_ok g \<and> theme_ok g \<and> switches_ok g"

definition consistent :: "gui_app \<Rightarrow> bool" where
  "consistent g \<longleftrightarrow>
     length_ok g \<and> display_ok g \<and> meter_ok g \<and> notice_ok g \<and> theme_ok g \<and> switches_ok g"

section \<open>Sample states\<close>

definition booted :: gui_app where
  "booted = show_window (snd (init ''/app'' (640, 480) (unbuilt themes desk)))"

definition copied :: gui_app where
  "copied = snd (dispatch CopyClicked booted)"

definition settled :: gui_app where
  "settled = exec [SwitchResized UpperSwitch size_hint, AnimationFinished UpperSwitch] booted"

definition dry :: gui_app where
  "dry = fresh\<lparr>console := \<lparr>stdin = [], stdout = [], source = []\<rparr>\<rparr>"

definition parched :: gui_app where
  "parched = show_window (snd (init ''/app'' (640, 480)
     (unbuilt themes (desk\<lparr>source := [0..<18]\<rparr>))))"

definition recovering :: gui_app where
  "recovering = exec [SliderMoved 30, SwitchClicked UpperSwitch (0, 0),
     SwitchClicked LowerSwitch (0, 0), SwitchClicked NumbersSwitch (0, 0)] parched"

section \<open>One event\<close>

lemmas handler_defs = dispatch_def slider_moved_def length_changed_def switch_clicked_def
  copy_to_clipboard_def toggle_theme_def toggle_options_panel_def timer_fired_def

lemma switches_ok_iff: "switches_ok g \<longleftrightarrow> (\<forall>k. switch_ok (switch_of k g))"
  by (simp add: switches_ok_def list_all_iff enum_UNIV)

lemma switches_aligned_iff: "switches_aligned g \<longleftrightarrow> (\<forall>k. switch_aligned (switch_of k g))"
  by (simp add: switches_aligned_def list_all_iff enum_UNIV)

lemma switch_of_handlers [simp]:
  "switch_of k (snd (generate_and_display g)) = switch_of k g"
  "switch_of k (copy_to_clipboard g) = switch_of k g"
  "switch_of k (toggle_theme g) = switch_of k g"
  "switch_of k (toggle_options_panel g) = switch_of k g"
  "switch_of k (timer_fired g) = switch_of k g"
  "switch_of k (show_window g) = switch_of k g"
  by (rule switch_of_cong; simp add: handler_defs show_window_def Let_def)+

lemma switch_of_slider_moved [simp]: "switch_of k (snd (slider_moved v g)) = switch_of k g"
  by (rule switch_of_cong; simp add: handler_defs Let_def)

lemma switch_of_switch_clicked [simp]:
  "switch_of k' (snd (switch_clicked k g)) =
     (if k' = k then set_checked (\<not> checked (switch_of k g)) (switch_of k g) else switch_of k' g)"
  by (simp add: switch_clicked_def)

lemma dispatch_length_ok: "length_ok g \<Longrightarrow> length_ok (snd (dispatch ev g))"
  by (cases ev) (auto simp: handler_defs length_ok_def Let_def)

lemma dispatch_theme_ok: "theme_ok g \<Longrightarrow> theme_ok (snd (dispatch ev g))"
  by (cases ev) (auto simp: handler_defs theme_ok_def Let_def)

lemma dispatch_notice_ok: "notice_ok g \<Longrightarrow> notice_ok (snd (dispatch ev g))"
  by (cases ev) (auto simp: handler_defs notice_ok_def Let_def)

lemma dispatch_switches_ok:
  assumes "switches_ok g" "enabled ev g"
  shows "switches_ok (snd (dispatch ev g))"
  using assms
  by (cases ev)
    (auto simp: switches_ok_iff dispatch_def enabled_def switch_ok_set_checked switch_ok_frame
      switch_ok_finished switch_ok_resize)

lemma dispatch_switches_aligned:
  assumes "switches_aligned g" "enabled ev g" "\<not> is_resize ev"
  shows "switches_aligned (snd (dispatch ev g))"
  using assms
  by (cases ev)
    (auto simp: switches_aligned_iff dispatch_def enabled_def is_resize_def
      switch_aligned_set_checked switch_aligned_frame switch_aligned_finished)

lemma dispatch_display_ok:
  assumes "display_ok g" "meter_ok g" "fst (dispatch ev g) = Inr ()"
  shows "display_ok (snd (dispatch ev g)) \<and> meter_ok (snd (dispatch ev g))"
proof (cases ev)
  case (SliderMoved v)
  with assms show ?thesis
    by (auto simp: handler_defs Let_def generate_and_display_ok)
next
  case (SwitchClicked k pos)
  with assms show ?thesis
    by (simp add: handler_defs generate_and_display_ok)
next
  case GenerateClicked
  with assms show ?thesis
    by (simp add: handler_defs generate_and_display_ok)
qed (rule view_frame [OF assms(1,2)]; simp add: handler_defs Let_def)+

lemma dispatch_returns:
  assumes "length_ok g" "64 \<le> length (source (console g))"
  shows "fst (dispatch ev g) = Inr ()"
  using assms
  by (cases ev)
    (auto simp: handler_defs length_ok_def Let_def intro!: generate_and_display_returns)

lemma dispatch_budget:
  assumes "length_ok g"
  shows "length (source (console g)) \<le> length (source (console (snd (dispatch ev g)))) + 64"
  using assms
  by (cases ev)
    (auto simp: handler_defs length_ok_def Let_def intro!: generate_and_display_budget)

lemma dispatch_consistent:
  assumes "consistent g" "enabled ev g" "fst (dispatch ev g) = Inr ()"
  shows "consistent (snd (dispatch ev g))"
  using assms dispatch_display_ok [of g ev]
  by (simp add: consistent_def dispatch_length_ok dispatch_theme_ok dispatch_notice_ok
      dispatch_switches_ok)

section \<open>Construction\<close>

lemma init_consistent:
  assumes "fst (init current_dir dims g) = Inr ()"
  shows "consistent (snd (init current_dir dims g))"
  using assms generate_and_display_ok [of "built current_dir dims g"]
  by (simp add: init_built consistent_def length_ok_def notice_ok_def theme_ok_def switches_ok_iff)

lemma init_aligned: "switches_aligned (snd (init current_dir dims g))"
  by (simp add: init_built switches_aligned_iff)

lemma show_window_consistent:
  assumes "consistent g"
  shows "consistent (show_window g)"
proof -
  from assms have "display_ok (show_window g) \<and> meter_ok (show_window g)"
    by (intro view_frame) (simp_all add: consistent_def show_window_def)
  with assms show ?thesis
    by (simp add: consistent_def show_window_def length_ok_def notice_ok_def theme_ok_def
        switches_ok_iff switch_of_def split: switch_id.splits)
qed

section \<open>Reachable states\<close>

lemma step_iff: "step g ev g' \<longleftrightarrow> enabled ev g \<and> dispatch ev g = (Inr (), g')"
  by (auto intro: step.intros elim: stepE)

lemma step_dispatch:
  "enabled ev g \<Longrightarrow> fst (dispatch ev g) = Inr () \<Longrightarrow> step g ev (snd (dispatch ev g))"
  by (metis step_iff prod.collapse)

lemma reachable_consistent: "reachable g \<Longrightarrow> consistent g"
proof (induction rule: reachable.induct)
  case (shown current_dir dims fs w g)
  then have "consistent (snd (init current_dir dims (unbuilt fs w)))"
    using init_consistent [of current_dir dims "unbuilt fs w"] by simp
  with shown show ?case
    by (simp add: show_window_consistent)
next
  case (after g ev g')
  then show ?case
    using dispatch_consistent [of g ev] by (auto simp: step_iff)
qed

lemma reachable_exec:
  assumes "reachable g" "64 * length evs \<le> length (source (console g))"
  shows "reachable (exec evs g)"
  using assms
proof (induction evs arbitrary: g)
  case Nil
  then show ?case by simp
next
  case (Cons ev evs)
  show ?case
  proof (cases "enabled ev g")
    case True
    from Cons.prems have ok: "length_ok g" and enough: "64 \<le> length (source (console g))"
      by (auto dest: reachable_consistent simp: consistent_def)
    from True dispatch_returns [OF ok enough, of ev] have "step g ev (snd (dispatch ev g))"
      by (rule step_dispatch)
    with Cons.prems(1) have "reachable (snd (dispatch ev g))"
      by (rule reachable.after)
    moreover from dispatch_budget [OF ok, of ev] Cons.prems(2)
    have "64 * length evs \<le> length (source (console (snd (dispatch ev g))))"
      by simp
    ultimately show ?thesis
      using True by (simp add: Cons.IH)
  next
    case False
    with Cons show ?thesis by simp
  qed
qed

lemma exec_switches_aligned:
  assumes "switches_aligned g" "list_all (\<lambda>ev. \<not> is_resize ev) evs"
  shows "switches_aligned (exec evs g)"
  using assms by (induction evs arbitrary: g) (simp_all add: dispatch_switches_aligned)

section \<open>The sample states\<close>

lemma reachable_booted: "reachable booted"
  unfolding booted_def
  by (rule reachable.shown [of "''/app''" "(640, 480)" themes desk])
    (metis init_built fresh_run fresh_def prod.collapse)

lemma dry_run:
  "dispatch GenerateClicked dry = (Inl RandomSourceUnavailable, snd (dispatch GenerateClicked dry))"
proof -
  have "any_class dry" "length (source (console dry)) < nat (len_var dry)"
    by (simp_all add: dry_def fresh_def any_class_def)
  from generate_and_display_dry [OF this] show ?thesis
    by (simp add: dispatch_def)
qed

lemma reachable_copied: "reachable copied" "copied_label copied"
proof -
  have "step booted CopyClicked copied"
    by (simp add: step_iff copied_def enabled_def dispatch_def)
  with reachable_booted show "reachable copied"
    by (rule reachable.after)
  show "copied_label copied"
    by (simp add: copied_def dispatch_def copy_to_clipboard_def)
qed

lemma reachable_settled: "reachable settled"
proof -
  have "fst (init ''/app'' (640, 480) (unbuilt themes desk)) = Inr ()"
    by (intro init_returns) (simp add: unbuilt_def desk_def)
  from init_source [OF this] have "source (console booted) = drop 18 (source desk)"
    by (simp add: booted_def show_window_def unbuilt_def)
  then have "64 * length [SwitchResized UpperSwitch size_hint, AnimationFinished UpperSwitch]
      \<le> length (source (console booted))"
    by (simp add: desk_def)
  with reachable_booted show ?thesis
    unfolding settled_def by (rule reachable_exec)
qed

lemma reachable_label_reads_back:
  assumes "reachable g"
  shows "py_int (drop (length ''Password Length: '') (len_label g)) = Some (len_var g)"
  using reachable_consistent [OF assms] by (simp add: consistent_def length_ok_def py_int_py_str)

section \<open>Runs in which handlers raise\<close>

lemma consistent_steady: "consistent g \<Longrightarrow> steady g"
  by (simp add: consistent_def steady_def)

lemma dispatch_steady:
  assumes "steady g" "enabled ev g"
  shows "steady (snd (dispatch ev g))"
  using assms
  by (simp add: steady_def dispatch_length_ok dispatch_notice_ok dispatch_theme_ok
      dispatch_switches_ok)

lemma exec_steady: "steady g \<Longrightarrow> steady (exec evs g)"
  by (induction evs arbitrary: g) (simp_all add: dispatch_steady)

lemma run_gui_steady:
  assumes "fst (init current_dir dims (unbuilt fs w)) = Inr ()"
  shows "steady (snd (run_gui current_dir dims fs evs status w))"
proof -
  let ?i = "init current_dir dims (unbuilt fs w)"
  from assms have "consistent (show_window (snd ?i))"
    by (intro show_window_consistent init_consistent)
  then have "steady (exec evs (show_window (snd ?i)))"
    by (intro exec_steady consistent_steady)
  with assms show ?thesis
    by (auto simp: run_gui_def split: prod.splits sum.splits)
qed

section \<open>Animations come to rest\<close>

lemma resting_iff: "resting g \<longleftrightarrow> (\<forall>k. \<not> running (animation (switch_of k g)))"
  by (simp add: resting_def list_all_iff enum_UNIV)

lemma finish_one:
  "running (animation (switch_of k' (exec [AnimationFinished k] g)))
     \<longleftrightarrow> k' \<noteq> k \<and> running (animation (switch_of k' g))"
  by (simp add: enabled_def dispatch_def)

lemma finish_some:
  "running (animation (switch_of k (exec (map AnimationFinished ks) g)))
     \<longleftrightarrow> k \<notin> set ks \<and> running (animation (switch_of k g))"
proof (induction ks arbitrary: g)
  case (Cons k' ks)
  from Cons [of "exec [AnimationFinished k'] g"] finish_one [of k k' g] show ?case
    by auto
qed simp

lemma finish_all: "resting (exec (map AnimationFinished enum_class.enum) g)"
  by (simp add: resting_iff finish_some enum_UNIV)

lemma reachable_finish:
  assumes "reachable g"
  shows "reachable (exec (map AnimationFinished ks) g)"
  using assms
proof (induction ks arbitrary: g)
  case (Cons k ks)
  have "fst (dispatch (AnimationFinished k) g) = Inr ()"
    by (simp add: dispatch_def)
  with Cons.prems have "reachable (exec [AnimationFinished k] g)"
    by (auto intro: reachable.after step_dispatch)
  from Cons.IH [OF this] show ?case
    by simp
qed simp

lemma animations_finish:
  assumes "reachable g"
  shows "\<exists>evs. reachable (exec evs g) \<and> resting (exec evs g)
    \<and> (\<forall>k. checked (switch_of k (exec evs g)) = checked (switch_of k g))"
proof (intro exI conjI allI)
  let ?evs = "map AnimationFinished (enum_class.enum :: switch_id list)"
  show "reachable (exec ?evs g)"
    using assms by (rule reachable_finish)
  show "resting (exec ?evs g)"
    by (rule finish_all)
  show "checked (switch_of k (exec ?evs g)) = checked (switch_of k g)" for k
    by (cases k) (simp_all add: enum_switch_id_def enabled_def dispatch_def)
qed

section \<open>A whole run\<close>

lemma exec_budget:
  assumes "reachable g" "64 * length evs \<le> length (source (console g))"
  shows "length (source (console g)) \<le> length (source (console (exec evs g))) + 64 * length evs"
  using assms
proof (induction evs arbitrary: g)
  case Nil
  then show ?case by simp
next
  case (Cons ev evs)
  from Cons.prems have ok: "length_ok g"
    by (auto dest: reachable_consistent simp: consistent_def)
  let ?g = "if enabled ev g then snd (dispatch ev g) else g"
  from Cons.prems have "reachable (exec [ev] g)"
    by (intro reachable_exec) simp_all
  then have "reachable ?g" by simp
  moreover from dispatch_budget [OF ok, of ev]
  have step: "length (source (console g)) \<le> length (source (console ?g)) + 64"
    by simp
  with Cons.prems(2) have "64 * length evs \<le> length (source (console ?g))"
    by simp
  ultimately have "length (source (console ?g))
      \<le> length (source (console (exec evs ?g))) + 64 * length evs"
    by (rule Cons.IH)
  with step show ?case by simp
qed

lemma dispatch_stdin: "stdin (console (snd (dispatch ev g))) = stdin (console g)"
  by (cases ev)
    (auto simp: handler_defs Let_def load_stylesheet_def print_line_def split: option.splits)

lemma exec_stdin: "stdin (console (exec evs g)) = stdin (console g)"
  by (induction evs arbitrary: g) (simp_all add: dispatch_stdin)

lemma init_stdin: "stdin (console (snd (init current_dir dims g))) = stdin (console g)"
  by (simp add: init_built)

lemma run_gui_stdin: "stdin (console (snd (run_gui current_dir dims fs evs status w))) = stdin w"
  using init_stdin [of current_dir dims "unbuilt fs w"]
  by (auto simp: run_gui_def exec_stdin show_window_def unbuilt_def split: prod.splits sum.splits)

lemma run_gui_run:
  assumes "18 + 64 * length evs \<le> length (source w)"
  shows "fst (run_gui current_dir dims fs evs status w) = Inl (SystemExit status)"
    and "reachable (snd (run_gui current_dir dims fs evs status w))"
    and "length (source w)
      \<le> length (source (console (snd (run_gui current_dir dims fs evs status w)))) + 18
        + 64 * length evs"
proof -
  let ?i = "init current_dir dims (unbuilt fs w)"
  let ?g = "show_window (snd ?i)"
  from assms have ok: "fst ?i = Inr ()"
    by (intro init_returns) (simp add: unbuilt_def)
  then have run: "?i = (Inr (), snd ?i)"
    by (metis prod.collapse)
  then have shown: "reachable ?g"
    by (rule reachable.shown)
  have "source (console (snd ?i)) = drop 18 (source w)"
    using init_source [OF ok] by (simp add: unbuilt_def)
  then have source: "source (console ?g) = drop 18 (source w)"
    by (simp add: show_window_def)
  with assms have enough: "64 * length evs \<le> length (source (console ?g))"
    by simp
  have result: "run_gui current_dir dims fs evs status w = (Inl (SystemExit status), exec evs ?g)"
    by (subst run_gui_def, subst run) simp
  show "fst (run_gui current_dir dims fs evs status w) = Inl (SystemExit status)"
    by (simp add: result)
  from shown enough show "reachable (snd (run_gui current_dir dims fs evs status w))"
    unfolding result snd_conv by (rule reachable_exec)
  from exec_budget [OF shown enough] source assms
  show "length (source w)
      \<le> length (source (console (snd (run_gui current_dir dims fs evs status w)))) + 18
        + 64 * length evs"
    by (simp add: result)
qed

section \<open>What a switch shows\<close>

lemma reachable_switch_ok: "reachable g \<Longrightarrow> switch_ok (switch_of k g)"
  by (auto dest: reachable_consistent simp: consistent_def switches_ok_iff)

lemma run_gui_aligned:
  assumes "list_all (\<lambda>ev. \<not> is_resize ev) evs"
  shows "switches_aligned (snd (run_gui current_dir dims fs evs status w))"
proof -
  have "switches_aligned (show_window (snd (init current_dir dims (unbuilt fs w))))"
    using init_aligned [of current_dir dims "unbuilt fs w"] by (simp add: switches_aligned_iff)
  with assms have "switches_aligned (exec evs (show_window (snd (init current_dir dims (unbuilt fs w)))))"
    by (intro exec_switches_aligned)
  then show ?thesis
    using init_aligned [of current_dir dims "unbuilt fs w"]
    by (auto simp: run_gui_def split: prod.splits sum.splits)
qed

lemma aligned_knob_on_track:
  assumes "switch_aligned sw" "\<not> running (animation sw)"
  shows "inside (the (extent (DrawEllipse (of_int (circle_position sw)) (h / 2 - 8) 16 16)))
                (the (extent (DrawRoundedRect 0 (h / 2 - 10) 40 20 10 10)))
     \<longleftrightarrow> (checked sw \<longrightarrow> 23 \<le> widget_width sw \<and> widget_width sw \<le> 47)"
  using assms unfolding knob_inside_track by (auto simp: switch_aligned_def rest_position_def)

lemma hinted_switch_fits:
  assumes "switch_aligned sw" "\<not> running (animation sw)"
    and "widget_width sw = fst size_hint" "widget_height sw = snd size_hint"
  shows "list_all (fits 0 45 25) (paint_event sw)"
  using assms
  by (simp add: paint_event_def contents_rect_def fits_def switch_aligned_def rest_position_def
      size_hint_def Let_def)

lemma settled_knob:
  "checked (upper_var settled)" "\<not> running (animation (upper_var settled))"
  "widget_width (upper_var settled) = 45" "circle_position (upper_var settled) = 617"
  using built_switch [of UpperSwitch "''/app''" "(640, 480)" "unbuilt themes desk"]
  by (simp_all add: settled_def booted_def init_built show_window_def enabled_def dispatch_def
      size_hint_def set_checked_def start_transition_def new_switch_def animation_finished_def
      set_circle_position_def resize_def Let_def put_switch_def)

section \<open>A switch nobody clicks\<close>

lemma as_built_new: "as_built w b (set_checked b (new_switch w h))"
  by (simp add: as_built_def set_checked_def new_switch_def start_transition_def Let_def)

lemma dispatch_as_built:
  assumes "as_built w b (switch_of k g)" "enabled ev g" "\<not> clicks k ev"
  shows "as_built w b (switch_of k (snd (dispatch ev g)))"
  using assms
  by (cases ev)
    (auto simp: dispatch_def enabled_def clicks_def as_built_def animation_frame_def
      animation_finished_def resize_def set_circle_position_def frame_allowed_def
      split: option.splits if_splits)

lemma exec_as_built:
  assumes "as_built w b (switch_of k g)" "list_all (\<lambda>ev. \<not> clicks k ev) evs"
  shows "as_built w b (switch_of k (exec evs g))"
  using assms by (induction evs arbitrary: g) (simp_all add: dispatch_as_built)

lemma run_gui_as_built:
  assumes "list_all (\<lambda>ev. \<not> clicks k ev) evs"
  shows "as_built (fst dims) (k \<noteq> ExcludeSimilarSwitch)
    (switch_of k (snd (run_gui current_dir dims fs evs status w)))"
proof -
  let ?g = "snd (init current_dir dims (unbuilt fs w))"
  have built: "as_built (fst dims) (k \<noteq> ExcludeSimilarSwitch) (switch_of k ?g)"
    by (simp add: init_built built_switch as_built_new)
  then have "as_built (fst dims) (k \<noteq> ExcludeSimilarSwitch) (switch_of k (exec evs (show_window ?g)))"
    using assms by (intro exec_as_built) simp
  with built show ?thesis
    by (auto simp: run_gui_def split: prod.splits sum.splits)
qed

lemma run_gui_settled:
  "snd (run_gui ''/app'' (640, 480) themes
      [SwitchResized UpperSwitch size_hint, AnimationFinished UpperSwitch] 0 desk) = settled"
proof -
  have "fst (init ''/app'' (640, 480) (unbuilt themes desk)) = Inr ()"
    by (intro init_returns) (simp add: unbuilt_def desk_def)
  then show ?thesis
    by (auto simp: run_gui_def settled_def booted_def split: prod.splits sum.splits)
qed

section \<open>Runs that go on after a handler raised\<close>

lemma regenerates_consistent:
  assumes "steady g" "enabled ev g" "regenerates ev g" "fst (dispatch ev g) = Inr ()"
  shows "consistent (snd (dispatch ev g))"
proof -
  from assms(3,4) have "display_ok (snd (dispatch ev g)) \<and> meter_ok (snd (dispatch ev g))"
    by (cases ev) (auto simp: handler_defs regenerates_def Let_def generate_and_display_ok)
  with dispatch_steady [OF assms(1,2)] show ?thesis
    by (simp add: consistent_def steady_def)
qed

lemma raise_keeps_view:
  assumes "fst (dispatch ev g) \<noteq> Inr ()"
  shows "password_display (snd (dispatch ev g)) = password_display g
    \<and> strength_label (snd (dispatch ev g)) = strength_label g
    \<and> strength_bar (snd (dispatch ev g)) = strength_bar g
    \<and> source (console (snd (dispatch ev g))) = []"
proof (cases ev)
  case (SliderMoved v)
  with assms show ?thesis
    by (simp add: handler_defs Let_def generate_and_display_raise split: if_splits)
next
  case (SwitchClicked k pos)
  with assms show ?thesis
    by (simp add: handler_defs generate_and_display_raise)
next
  case GenerateClicked
  with assms show ?thesis
    by (simp add: handler_defs generate_and_display_raise)
qed (use assms in \<open>simp_all add: dispatch_def\<close>)

lemma stale_display:
  assumes "consistent g" "any_class g" "options_panel g" "source (console g) = []"
    and "max 4 (min 64 v) \<noteq> len_var g"
  shows "fst (dispatch (SliderMoved v) g) = Inl RandomSourceUnavailable"
    and "steady (snd (dispatch (SliderMoved v) g))"
    and "\<not> display_ok (snd (dispatch (SliderMoved v) g))"
proof -
  let ?v = "max 4 (min 64 v)"
  let ?G = "g\<lparr>len_slider := ?v, len_var := ?v, len_label := ''Password Length: '' @ py_str ?v\<rparr>"
  from assms have run: "dispatch (SliderMoved v) g = generate_and_display ?G"
    by (simp add: handler_defs consistent_def length_ok_def Let_def)
  from assms have dry: "generate_and_display ?G
      = (Inl RandomSourceUnavailable, ?G\<lparr>console := (console ?G)\<lparr>source := []\<rparr>\<rparr>)"
    by (intro generate_and_display_dry) (simp_all add: any_class_def)
  from dry show "fst (dispatch (SliderMoved v) g) = Inl RandomSourceUnavailable"
    by (simp add: run)
  from assms(1,3) show "steady (snd (dispatch (SliderMoved v) g))"
    by (intro dispatch_steady consistent_steady) (simp_all add: enabled_def)
  from assms(1,2) have "length (password_display g) = nat (len_var g)" "4 \<le> len_var g"
    by (simp_all add: consistent_def display_ok_spec length_ok_def)
  with assms(5) have "length (password_display g) \<noteq> nat ?v"
    by auto
  with assms(2) dry show "\<not> display_ok (snd (dispatch (SliderMoved v) g))"
    by (simp add: run display_ok_spec any_class_def)
qed

lemma handlers_options_panel [simp]:
  "options_panel (snd (slider_moved v g)) = options_panel g"
  "options_panel (snd (switch_clicked k g)) = options_panel g"
  by (simp_all add: slider_moved_def length_changed_def switch_clicked_def Let_def)

lemma exec_click:
  assumes "options_panel g" "hit_button (switch_of k g) pos"
  shows "exec (SwitchClicked k pos # evs) g = exec evs (snd (switch_clicked k g))"
  using assms by (simp add: enabled_def dispatch_def)

lemma exec_slide:
  assumes "options_panel g"
  shows "exec (SliderMoved v # evs) g = exec evs (snd (slider_moved v g))"
  using assms by (simp add: enabled_def dispatch_def)

lemma reachable_parched: "reachable parched" "source (console parched) = []"
proof -
  let ?i = "init ''/app'' (640, 480) (unbuilt themes (desk\<lparr>source := [0..<18]\<rparr>))"
  have ok: "fst ?i = Inr ()"
    by (intro init_returns) (simp add: unbuilt_def)
  then have "?i = (Inr (), snd ?i)"
    by (simp add: prod_eq_iff)
  then show "reachable parched"
    unfolding parched_def by (rule reachable.shown)
  have "source (console (unbuilt themes (desk\<lparr>source := [0..<18]\<rparr>))) = [0..<18]"
    by (simp add: unbuilt_def)
  with init_source [OF ok] show "source (console parched) = []"
    by (simp add: parched_def show_window_def)
qed

lemma parched_switch:
  "switch_of k parched = set_checked (k \<noteq> ExcludeSimilarSwitch) (new_switch 640 480)"
  "options_panel parched" "hit_button (switch_of k parched) (0, 0)"
proof -
  show switch: "switch_of k parched = set_checked (k \<noteq> ExcludeSimilarSwitch) (new_switch 640 480)"
    by (simp add: parched_def init_built built_switch)
  show "options_panel parched"
    by (simp add: parched_def show_window_def)
  show "hit_button (switch_of k parched) (0, 0)"
    unfolding switch by (simp add: hit_button_def contents_rect_def contains_def new_switch_def)
qed

lemmas parched_hit = parched_switch(3) [of UpperSwitch, simplified]
  parched_switch(3) [of LowerSwitch, simplified] parched_switch(3) [of NumbersSwitch, simplified]
  parched_switch(3) [of SymbolsSwitch, simplified]
  parched_switch(3) [of ExcludeSimilarSwitch, simplified]

lemma recovering_eq:
  "recovering = snd (switch_clicked NumbersSwitch (snd (switch_clicked LowerSwitch
     (snd (switch_clicked UpperSwitch (snd (slider_moved 30 parched)))))))"
  by (simp add: recovering_def exec_slide exec_click parched_switch(2) parched_hit
      del: exec.simps(2))

lemma recovering_switch:
  "options_panel recovering"
  "checked (switch_of k recovering) \<longleftrightarrow> k = SymbolsSwitch"
  "hit_button (switch_of k recovering) (0, 0)"
proof -
  show "options_panel recovering"
    by (simp add: recovering_eq parched_switch(2))
  show "checked (switch_of k recovering) \<longleftrightarrow> k = SymbolsSwitch"
    by (cases k; simp add: recovering_eq parched_switch(1))
  show "hit_button (switch_of k recovering) (0, 0)"
    by (cases k; simp add: recovering_eq parched_hit)
qed

lemma recovering_click:
  "enabled (SwitchClicked SymbolsSwitch (0, 0)) recovering"
  "regenerates (SwitchClicked SymbolsSwitch (0, 0)) recovering"
  "fst (dispatch (SwitchClicked SymbolsSwitch (0, 0)) recovering) = Inr ()"
proof -
  from recovering_switch(1) recovering_switch(3) [of SymbolsSwitch]
  show "enabled (SwitchClicked SymbolsSwitch (0, 0)) recovering"
    by (simp add: enabled_def)
  show "regenerates (SwitchClicked SymbolsSwitch (0, 0)) recovering"
    by (simp add: regenerates_def)
  have "\<not> any_class (put_switch SymbolsSwitch
      (set_checked (\<not> checked (switch_of SymbolsSwitch recovering)) (switch_of SymbolsSwitch recovering))
      recovering)"
    using recovering_switch(2) [of UpperSwitch] recovering_switch(2) [of LowerSwitch]
      recovering_switch(2) [of NumbersSwitch] recovering_switch(2) [of SymbolsSwitch]
    by (simp add: any_class_switches)
  then show "fst (dispatch (SwitchClicked SymbolsSwitch (0, 0)) recovering) = Inr ()"
    by (simp add: dispatch_def switch_clicked_def generate_and_display_returns)
qed

section \<open>Properties of the window\<close>

text \<open>
  C21. In every state the window can reach, a repaint of a switch draws the grey track
  and, after it, the knob at the position the switch holds, in blue when the switch is
  checked and in light grey when it is not. A switch that is not checked and not in an
  animation has its knob at position 3, the left end of the track.
\<close>

theorem reachable_switch_painted:
  assumes "reachable g"
  shows "painted Transparent (paint_event (switch_of k g)) =
      [(DrawRoundedRect 0 (of_int (widget_height (switch_of k g)) / 2 - 10) 40 20 10 10,
        Hex ''#555''),
       (DrawEllipse (of_int (circle_position (switch_of k g)))
          (of_int (widget_height (switch_of k g)) / 2 - 8) 16 16,
        if checked (switch_of k g) then Hex ''#007acc'' else Hex ''#DDD'')]
    \<and> (checked (switch_of k g) \<or> running (animation (switch_of k g))
        \<or> circle_position (switch_of k g) = 3)"
  using reachable_switch_ok [OF assms, of k]
  by (auto simp: painted_paint_event switch_defs split: if_splits)

theorem reachable_switch_painted_witness:
  "reachable booted
   \<and> painted Transparent (paint_event (switch_of ExcludeSimilarSwitch booted)) =
      [(DrawRoundedRect 0 230 40 20 10 10, Hex ''#555''), (DrawEllipse 3 232 16 16, Hex ''#DDD'')]
   \<and> \<not> checked (switch_of ExcludeSimilarSwitch booted)
   \<and> \<not> running (animation (switch_of ExcludeSimilarSwitch booted))
   \<and> circle_position (switch_of ExcludeSimilarSwitch booted) = 3"
proof -
  have "widget_height (exclude_similar_var booted) = 480" "\<not> checked (exclude_similar_var booted)"
    "\<not> running (animation (exclude_similar_var booted))"
    using built_switch [of ExcludeSimilarSwitch "''/app''" "(640, 480)" "unbuilt themes desk"]
    by (simp_all add: booted_def init_built show_window_def set_checked_def new_switch_def)
  with reachable_switch_painted [OF reachable_booted, of ExcludeSimilarSwitch] reachable_booted
  show ?thesis
    by simp
qed

text \<open>
  C22. A switch that is never clicked during a run of the window keeps the state
  \<open>create_toggle\<close> gave it, and once its animation has ended its knob is where the
  constructor sent it: at position 3 for the switch that starts unchecked, and for the
  four that start checked at the width the switch had when it was constructed less 23,
  whatever geometry the layout has given the switch since.
\<close>

theorem unclicked_switch_knob:
  assumes "list_all (\<lambda>ev. \<not> clicks k ev) evs"
  shows "(let sw = switch_of k (snd (run_gui current_dir dims fs evs status w))
     in checked sw = (k \<noteq> ExcludeSimilarSwitch)
      \<and> (\<not> running (animation sw)
          \<longrightarrow> circle_position sw = (if k = ExcludeSimilarSwitch then 3 else fst dims - 23)))"
  using run_gui_as_built [OF assms, of dims current_dir fs status w]
  by (auto simp: as_built_def Let_def split: if_splits)

theorem unclicked_switch_knob_witness:
  "list_all (\<lambda>ev. \<not> clicks UpperSwitch ev)
     [SwitchResized UpperSwitch size_hint, AnimationFinished UpperSwitch]
   \<and> checked (switch_of UpperSwitch settled)
   \<and> \<not> running (animation (switch_of UpperSwitch settled))
   \<and> widget_width (switch_of UpperSwitch settled) = 45
   \<and> circle_position (switch_of UpperSwitch settled) = 617"
proof -
  have "list_all (\<lambda>ev. \<not> clicks UpperSwitch ev)
      [SwitchResized UpperSwitch size_hint, AnimationFinished UpperSwitch]"
    by (simp add: clicks_def)
  from unclicked_switch_knob [OF this, of "''/app''" "(640, 480)" themes 0 desk] this settled_knob
  show ?thesis
    by (simp add: run_gui_settled switch_of_def)
qed

text \<open>
  C33. In every state the window can reach, the length used for generation is the
  value of the slider, lies between 4 and 64, and is the number the length label shows.
\<close>

theorem reachable_length:
  assumes "reachable g"
  shows "4 \<le> len_var g \<and> len_var g \<le> 64 \<and> len_slider g = len_var g
    \<and> len_label g = ''Password Length: '' @ py_str (len_var g)"
  using reachable_consistent [OF assms] by (simp add: consistent_def length_ok_def)

theorem reachable_length_witness:
  "reachable booted \<and> 4 \<le> len_var booted \<and> len_var booted \<le> 64
   \<and> len_slider booted = len_var booted"
  using reachable_length [OF reachable_booted] reachable_booted by simp

text \<open>
  C34. In every state the window can reach, what is on display matches the current
  settings: a password of the length on the slider over the classes switched on, or
  the no-class message when every class switch is off. A change of a setting
  never leaves a password of the previous settings on display.
\<close>

theorem reachable_display:
  assumes "reachable g"
  shows "if any_class g
    then length (password_display g) = nat (len_var g)
      \<and> set (password_display g)
        \<subseteq> pool_spec (set (selected (checked (upper_var g)) (checked (lower_var g))
             (checked (numbers_var g)) (checked (symbols_var g)))) (checked (exclude_similar_var g))
    else password_display g = ''No character types selected.''"
  using reachable_consistent [OF assms] by (simp add: consistent_def display_ok_spec)

theorem reachable_display_witness:
  "reachable booted \<and> any_class booted \<and> length (password_display booted) = nat (len_var booted)"
proof -
  have "any_class booted"
    by (simp add: booted_def init_built show_window_def any_class_def)
  with reachable_display [OF reachable_booted] reachable_booted show ?thesis
    by simp
qed

text \<open>
  C35. In every state the window can reach, the strength bar and the strength label
  show what \<open>check_strength\<close> says of the password on display (of the empty string
  when the display holds the no-class message), and the bar is within its range 0 to
  8: no score is ever refused by the bar.
\<close>

theorem reachable_meter:
  assumes "reachable g"
  shows "strength_bar g = snd (check_strength (if any_class g then password_display g else []))
    \<and> strength_label g
      = ''Strength: '' @ fst (check_strength (if any_class g then password_display g else []))
    \<and> 0 \<le> strength_bar g \<and> strength_bar g \<le> 8"
  using reachable_consistent [OF assms] score_range
  by (simp add: consistent_def meter_ok_def meter_shows_def)

theorem reachable_meter_witness:
  "reachable booted \<and> 0 \<le> strength_bar booted \<and> strength_bar booted \<le> 8"
  using reachable_meter [OF reachable_booted] reachable_booted by simp

text \<open>
  C36. In every state the window can reach, the notice \<open>Copied to clipboard!\<close> is
  visible only while a timer that will hide it is pending, and the icon of the theme
  button is the moon exactly in the dark theme.
\<close>

theorem reachable_notice:
  assumes "reachable g"
  shows "(copied_label g \<longrightarrow> 0 < timers g)
    \<and> theme_button g = (if is_dark_theme g then moon_icon else sun_icon)"
  using reachable_consistent [OF assms]
  by (simp add: consistent_def notice_ok_def theme_ok_def split: if_splits)

theorem reachable_notice_witness:
  "reachable copied \<and> copied_label copied \<and> 0 < timers copied"
  using reachable_notice [OF reachable_copied(1)] reachable_copied by simp

text \<open>
  C37. The only exception a handler of the window can end with is the failure of the
  random source. In particular \<open>generate_and_display\<close> never passes \<open>None\<close> to the
  display, because \<open>generate_password\<close> never returns a pair without a password and
  without an error.
\<close>

theorem dispatch_exceptions:
  assumes "dispatch ev g = (Inl exn, g')"
  shows "exn = RandomSourceUnavailable"
  using assms
  by (cases ev)
    (auto simp: handler_defs Let_def split: if_splits dest: generate_and_display_raises(1))

theorem dispatch_exceptions_witness:
  "dispatch GenerateClicked dry = (Inl RandomSourceUnavailable, snd (dispatch GenerateClicked dry))
   \<and> RandomSourceUnavailable = RandomSourceUnavailable"
  using dispatch_exceptions [OF dry_run] dry_run by simp

text \<open>
  C39. \<open>run_gui\<close> with a random source that holds 18 values for the first password
  and 64 for each event ends with the exit status of the event loop, and the state the
  window is in at that point is one of the reachable states: construction returns, no
  handler raises, and all the invariants of the reachable states hold at the end.
\<close>

theorem run_gui_completes:
  assumes "18 + 64 * length evs \<le> length (source w)"
  shows "fst (run_gui current_dir dims fs evs status w) = Inl (SystemExit status)
    \<and> reachable (snd (run_gui current_dir dims fs evs status w))"
  using run_gui_run [OF assms] by simp

theorem run_gui_completes_witness:
  "18 + 64 * length [CopyClicked, SliderMoved 99] \<le> length (source desk)
   \<and> fst (run_gui ''/app'' (640, 480) themes [CopyClicked, SliderMoved 99] 0 desk) = Inl (SystemExit 0)
   \<and> reachable (snd (run_gui ''/app'' (640, 480) themes [CopyClicked, SliderMoved 99] 0 desk))"
proof -
  have "18 + 64 * length [CopyClicked, SliderMoved 99] \<le> length (source desk)"
    by (simp add: desk_def)
  from run_gui_completes [OF this] this show ?thesis
    by simp
qed

text \<open>
  C40. A handler that raises does not end the event loop, so a run can go on from a
  state whose display no longer matches the settings. Whatever events follow a
  reachable state and whichever of their handlers raise, the length, the slider and
  its label still agree, a visible notice still has a timer pending, the icon of the
  theme button is that of the theme and every switch is well formed; and the next
  event that regenerates the password and returns makes the display and the meter
  match the settings again.
\<close>

theorem exec_recovers:
  assumes "reachable g"
  shows "steady (exec evs g)
    \<and> (\<forall>ev. enabled ev (exec evs g) \<and> regenerates ev (exec evs g)
            \<and> fst (dispatch ev (exec evs g)) = Inr ()
          \<longrightarrow> consistent (snd (dispatch ev (exec evs g))))"
proof -
  from assms have "steady (exec evs g)"
    by (intro exec_steady consistent_steady reachable_consistent)
  then show ?thesis
    by (blast intro: regenerates_consistent)
qed

theorem exec_recovers_witness:
  "reachable parched
   \<and> fst (dispatch (SliderMoved 30) parched) = Inl RandomSourceUnavailable
   \<and> \<not> display_ok (exec [SliderMoved 30] parched)
   \<and> steady (exec [SliderMoved 30, SwitchClicked UpperSwitch (0, 0),
        SwitchClicked LowerSwitch (0, 0), SwitchClicked NumbersSwitch (0, 0)] parched)
   \<and> consistent (snd (dispatch (SwitchClicked SymbolsSwitch (0, 0))
        (exec [SliderMoved 30, SwitchClicked UpperSwitch (0, 0),
           SwitchClicked LowerSwitch (0, 0), SwitchClicked NumbersSwitch (0, 0)] parched)))"
proof -
  have "consistent parched" "any_class parched" "max 4 (min 64 30) \<noteq> len_var parched"
    using reachable_parched(1)
    by (simp_all add: reachable_consistent any_class_switches parched_switch(1) parched_def
        init_built show_window_def)
  from stale_display [OF this(1,2) parched_switch(2) reachable_parched(2) this(3)]
  have "fst (dispatch (SliderMoved 30) parched) = Inl RandomSourceUnavailable"
    "\<not> display_ok (exec [SliderMoved 30] parched)"
    by (simp_all add: enabled_def parched_switch(2))
  with exec_recovers [OF reachable_parched(1), of "[SliderMoved 30, SwitchClicked UpperSwitch (0, 0),
      SwitchClicked LowerSwitch (0, 0), SwitchClicked NumbersSwitch (0, 0)]"]
    recovering_click reachable_parched(1)
  show ?thesis
    unfolding recovering_def by blast
qed

section \<open>What the model shows about the copy button\<close>

lemma copy_copies_message:
  assumes "reachable g" "\<not> any_class g"
  shows "clipboard (snd (dispatch CopyClicked g)) = ''No character types selected.''"
    "copied_label (snd (dispatch CopyClicked g))"
  using reachable_consistent [OF assms(1)] assms(2)
  by (simp_all add: consistent_def display_ok_def dispatch_def copy_to_clipboard_def)

lemma notice_cut_short:
  "\<not> copied_label (exec [CopyClicked, CopyClicked, TimerFired] g)"
  "timers (exec [CopyClicked, CopyClicked, TimerFired] g) = Suc (timers g)"
  by (simp_all add: enabled_def dispatch_def copy_to_clipboard_def timer_fired_def)

end
