(* ===== verification/Signals.thy ===== *)
theory Signals
  imports Event_Loop
begin

text \<open>
  The event loop read off the widget tree. Theory \<open>Event_Loop\<close> states directly which
  events can be delivered and what each one runs. Here the same is derived from what
  the constructor built: an event of the user has a \<open>sender\<close>, the widget acted on;
  Qt delivers it when that widget is \<open>visible\<close>, that is, when every widget it lies in
  is shown; Qt first changes the widget itself and decides whether its signal is
  emitted (\<open>emit\<close>: a slider clamps the value to its range and signals only a change, a
  check box flips its state), and then runs the slots connected to the widget, in the
  order of connection (\<open>run_slots\<close>). \<open>deliver\<close> puts these together.

  The lemmas show that in every reachable state the tree is the one the constructor
  built, that \<open>enabled\<close> is visibility in that tree, and that \<open>deliver\<close> and \<open>dispatch\<close>
  agree: the guards and the handlers of the event loop are those the connections of
  the code give.
\<close>

section \<open>Senders, visibility and slots\<close>

definition sender :: "gui_event \<Rightarrow> part option" where
  "sender ev =
     (case ev of
        SliderMoved v \<Rightarrow> Some LenSlider
      | SwitchClicked k pos \<Rightarrow> Some (Toggle k)
      | GenerateClicked \<Rightarrow> Some GenerateButton
      | CopyClicked \<Rightarrow> Some CopyButton
      | ThemeClicked \<Rightarrow> Some ThemeButton
      | PanelClicked \<Rightarrow> Some PanelToggleButton
      | _ \<Rightarrow> None)"

definition shown_part :: "part \<Rightarrow> gui_app \<Rightarrow> bool" where
  "shown_part p g =
     (case p of OptionsPanel \<Rightarrow> options_panel g | CopiedLabel \<Rightarrow> copied_label g | _ \<Rightarrow> True)"

definition visible :: "part \<Rightarrow> gui_app \<Rightarrow> bool" where
  "visible p g =
     (case enclosing p (main_layout g) of
        None \<Rightarrow> False
      | Some ps \<Rightarrow> list_all (\<lambda>q. shown_part q g) ps)"

definition in_options :: "part \<Rightarrow> bool" where
  "in_options p =
     (case p of OptionsPanel \<Rightarrow> True | OptionsTitle \<Rightarrow> True | LenLabel \<Rightarrow> True | LenSlider \<Rightarrow> True
      | ToggleLabel k \<Rightarrow> True | Toggle k \<Rightarrow> True | _ \<Rightarrow> False)"

definition aimed :: "gui_event \<Rightarrow> gui_app \<Rightarrow> bool" where
  "aimed ev g = (case ev of SwitchClicked k pos \<Rightarrow> hit_button (switch_of k g) pos | _ \<Rightarrow> True)"

definition slider_range :: "item \<Rightarrow> int \<times> int" where
  "slider_range t =
     (case concat (map (\<lambda>s. case s of Range lo hi \<Rightarrow> [(lo, hi)] | _ \<Rightarrow> []) (settings_of LenSlider t)) of
        [] \<Rightarrow> (0, 99)
      | r # _ \<Rightarrow> r)"

definition splitter_sizes :: "item \<Rightarrow> int list" where
  "splitter_sizes t =
     concat (map (\<lambda>s. case s of Sizes xs \<Rightarrow> xs | _ \<Rightarrow> []) (settings_of Splitter t))"

definition emit :: "gui_event \<Rightarrow> gui_app \<Rightarrow> bool \<times> gui_app" where
  "emit ev g =
     (case ev of
        SliderMoved v \<Rightarrow>
          (case slider_range (main_layout g) of
             (lo, hi) \<Rightarrow> (let v = max lo (min hi v) in (v \<noteq> len_slider g, g\<lparr>len_slider := v\<rparr>)))
      | SwitchClicked k pos \<Rightarrow>
          (True, put_switch k ((switch_of k g)\<lparr>checked := \<not> checked (switch_of k g)\<rparr>) g)
      | _ \<Rightarrow> (True, g))"

definition run_slot :: "slot \<Rightarrow> gui_event \<Rightarrow> gui_app \<Rightarrow> unit raising \<times> gui_app" where
  "run_slot f ev g =
     (case f of
        StartTransition \<Rightarrow>
          (case ev of
             SwitchClicked k pos \<Rightarrow>
               (Inr (), put_switch k
                  (start_transition (if checked (switch_of k g) then 2 else 0) (switch_of k g)) g)
           | _ \<Rightarrow> (Inr (), g))
      | GenerateAndDisplay \<Rightarrow> generate_and_display g
      | LengthChanged \<Rightarrow> length_changed (len_slider g) g
      | ToggleOptionsPanel \<Rightarrow> (Inr (), toggle_options_panel g)
      | ToggleTheme \<Rightarrow> (Inr (), toggle_theme g)
      | CopyToClipboard \<Rightarrow> (Inr (), copy_to_clipboard g))"

fun run_slots :: "slot list \<Rightarrow> gui_event \<Rightarrow> gui_app \<Rightarrow> unit raising \<times> gui_app" where
  "run_slots [] ev g = (Inr (), g)"
| "run_slots (f # fs) ev g =
     (case run_slot f ev g of
        (Inl exn, g') \<Rightarrow> (Inl exn, g')
      | (Inr _, g') \<Rightarrow> run_slots fs ev g')"

definition deliver :: "gui_event \<Rightarrow> gui_app \<Rightarrow> unit raising \<times> gui_app" where
  "deliver ev g =
     (case sender ev of
        None \<Rightarrow> dispatch ev g
      | Some p \<Rightarrow>
          (case emit ev g of
             (emitted, g') \<Rightarrow>
               if emitted then run_slots (slots_of p (main_layout g')) ev g' else (Inr (), g')))"

section \<open>The tree of the window\<close>

lemma parts_window_tree:
  "parts window_tree =
     [CentralWidget, Splitter, OptionsPanel, OptionsTitle, LenLabel, LenSlider,
      ToggleLabel UpperSwitch, Toggle UpperSwitch, ToggleLabel LowerSwitch, Toggle LowerSwitch,
      ToggleLabel NumbersSwitch, Toggle NumbersSwitch, ToggleLabel SymbolsSwitch,
      Toggle SymbolsSwitch, ToggleLabel ExcludeSimilarSwitch, Toggle ExcludeSimilarSwitch,
      MainPanel, PanelToggleButton, ThemeButton, TitleLabel, Card, PasswordDisplay, CopyButton,
      StrengthLabel, StrengthBar, CopiedLabel, GenerateButton]"
  by (simp add: tree_defs)

lemma distinct_parts_window_tree: "distinct (parts window_tree)"
  unfolding parts_window_tree by simp

lemma all_parts_window_tree: "set (parts window_tree) = UNIV"
proof -
  have "p \<in> set (parts window_tree)" for p
    unfolding parts_window_tree by (cases p; (cases rule: switch_id.exhaust)?) auto
  then show ?thesis by auto
qed

lemma paths_window_tree:
  "paths window_tree =
     [(CentralWidget, []), (Splitter, [CentralWidget]), (OptionsPanel, [CentralWidget, Splitter])]
     @ map (\<lambda>p. (p, [CentralWidget, Splitter, OptionsPanel]))
        [OptionsTitle, LenLabel, LenSlider,
         ToggleLabel UpperSwitch, Toggle UpperSwitch, ToggleLabel LowerSwitch, Toggle LowerSwitch,
         ToggleLabel NumbersSwitch, Toggle NumbersSwitch, ToggleLabel SymbolsSwitch,
         Toggle SymbolsSwitch, ToggleLabel ExcludeSimilarSwitch, Toggle ExcludeSimilarSwitch]
     @ [(MainPanel, [CentralWidget, Splitter])]
     @ map (\<lambda>p. (p, [CentralWidget, Splitter, MainPanel]))
        [PanelToggleButton, ThemeButton, TitleLabel, Card]
     @ map (\<lambda>p. (p, [CentralWidget, Splitter, MainPanel, Card]))
        [PasswordDisplay, CopyButton, StrengthLabel, StrengthBar, CopiedLabel]
     @ [(GenerateButton, [CentralWidget, Splitter, MainPanel])]"
  by (simp add: tree_defs)

lemma visible_window_tree:
  assumes "main_layout g = window_tree"
  shows "visible p g \<longleftrightarrow> (in_options p \<longrightarrow> options_panel g) \<and> (p = CopiedLabel \<longrightarrow> copied_label g)"
proof -
  note defs = visible_def enclosing_def assms paths_window_tree shown_part_def in_options_def
  show ?thesis
  proof (cases p)
    case (ToggleLabel k)
    then show ?thesis
      by (cases k) (simp_all add: defs)
  next
    case (Toggle k)
    then show ?thesis
      by (cases k) (simp_all add: defs)
  qed (simp_all add: defs)
qed

lemma slots_window_tree:
  "slots_of LenSlider window_tree = [LengthChanged]"
  "slots_of (Toggle k) window_tree = [StartTransition, GenerateAndDisplay]"
  "slots_of GenerateButton window_tree = [GenerateAndDisplay]"
  "slots_of CopyButton window_tree = [CopyToClipboard]"
  "slots_of ThemeButton window_tree = [ToggleTheme]"
  "slots_of PanelToggleButton window_tree = [ToggleOptionsPanel]"
  by (cases k; simp add: slots_of_def settings_of_def tree_defs)+

lemma slider_range_window_tree: "slider_range window_tree = (4, 64)"
  by (simp add: slider_range_def settings_of_def tree_defs)

section \<open>The tree stays as built\<close>

lemma dispatch_main_layout [simp]: "main_layout (snd (dispatch ev g)) = main_layout g"
  by (cases ev) (simp_all add: handler_defs Let_def)

lemma reachable_layout: "reachable g \<Longrightarrow> main_layout g = window_tree"
proof (induction rule: reachable.induct)
  case (shown current_dir dims fs w g)
  then have "g = snd (generate_and_display (built current_dir dims (unbuilt fs w)))"
    by (simp add: init_built)
  then show ?case
    by (simp add: show_window_def)
next
  case (after g ev g')
  then show ?case
    using dispatch_main_layout [of ev g] by (simp add: step_iff)
qed

section \<open>Guards and handlers from the tree\<close>

lemma enabled_visible:
  assumes "main_layout g = window_tree" "sender ev = Some p"
  shows "enabled ev g \<longleftrightarrow> visible p g \<and> aimed ev g"
  using assms(2) unfolding visible_window_tree [OF assms(1)]
  by (cases ev) (auto simp: sender_def enabled_def aimed_def in_options_def)

lemma put_switch_twice [simp]: "put_switch k sw (put_switch k sw' g) = put_switch k sw g"
  by (cases k) (simp_all add: put_switch_def)

lemma deliver_dispatch:
  assumes "main_layout g = window_tree"
  shows "deliver ev g = dispatch ev g"
proof (cases ev)
  case (SliderMoved v)
  then show ?thesis
    using assms
    by (simp add: deliver_def sender_def emit_def slider_range_window_tree slots_window_tree
        run_slot_def dispatch_def slider_moved_def Let_def split: prod.splits sum.splits)
next
  case (SwitchClicked k pos)
  then show ?thesis
    using assms
    by (simp add: deliver_def sender_def emit_def slots_window_tree run_slot_def dispatch_def
        switch_clicked_def set_checked_def split: prod.splits sum.splits)
qed (use assms in \<open>simp_all add: deliver_def sender_def emit_def slots_window_tree run_slot_def
        dispatch_def split: prod.splits sum.splits\<close>)

section \<open>Sizes\<close>

lemma window_tree_sizes:
  "settings_of PanelToggleButton window_tree
     = [IconOf menu_icon, Text [], ObjectName ''ThemeButton'', Cursor PointingHandCursor,
        Connect ToggleOptionsPanel, FixedSize 40 40, IconSize 28 28]"
  "settings_of CopyButton window_tree
     = [IconOf copy_icon, Text [], ObjectName ''CopyButton'', Cursor PointingHandCursor,
        Connect CopyToClipboard, FixedSize 45 45, IconSize 32 32]"
  "settings_of Splitter window_tree
     = [Oriented Horizontal, Sizes [250, 550], Collapsible 0 True, Collapsible 1 False]"
  "settings_of StrengthBar window_tree = [Maximum 8, TextVisible False]"
  by (simp_all add: settings_of_def tree_defs)

lemma dispatch_minimum_size [simp]: "minimum_size (snd (dispatch ev g)) = minimum_size g"
  by (cases ev)
    (simp_all add: handler_defs Let_def generate_and_display_cases put_switch_def
      load_stylesheet_def split: if_splits switch_id.splits option.splits)

lemma reachable_minimum_size: "reachable g \<Longrightarrow> minimum_size g = (800, 600)"
proof (induction rule: reachable.induct)
  case (shown current_dir dims fs w g)
  then have "g = snd (generate_and_display (built current_dir dims (unbuilt fs w)))"
    by (simp add: init_built)
  then show ?case
    by (simp add: show_window_def generate_and_display_cases Let_def split: if_splits)
next
  case (after g ev g')
  then show ?case
    using dispatch_minimum_size [of ev g] by (simp add: step_iff)
qed

lemma splitter_fills_minimum:
  assumes "reachable g"
  shows "sum_list (splitter_sizes (main_layout g)) = fst (minimum_size g)"
  by (simp add: reachable_layout [OF assms] reachable_minimum_size [OF assms] splitter_sizes_def
      window_tree_sizes)

section \<open>Properties of the connections\<close>

text \<open>
  C19. In every state the window can reach, what the event loop runs for an event is
  what the connections made by the constructor give: the change Qt makes to the sender
  (the slider clamps the value to the range it was given and signals only a change, a
  switch flips), followed by the slots connected to the sender in the widget tree, in
  the order of connection.
\<close>

theorem reachable_deliver:
  assumes "reachable g"
  shows "deliver ev g = dispatch ev g"
  using assms by (intro deliver_dispatch reachable_layout)

theorem reachable_deliver_witness:
  "reachable booted \<and> deliver (SwitchClicked LowerSwitch (1, 1)) booted
     = dispatch (SwitchClicked LowerSwitch (1, 1)) booted"
  using reachable_deliver [OF reachable_booted] reachable_booted by simp

text \<open>
  C32. In every state the window can reach, an event of the user can be delivered
  exactly when its sender is visible, that is, when the sender and every widget it lies
  in are shown, and, for a click on a switch, when the click hits the switch. The
  slider and the switches lie in the options panel, so they take no event while the
  panel is hidden; the buttons always do.
\<close>

theorem reachable_enabled:
  assumes "reachable g" "sender ev = Some p"
  shows "enabled ev g \<longleftrightarrow> visible p g \<and> aimed ev g"
  using assms by (intro enabled_visible reachable_layout)

theorem reachable_enabled_witness:
  "reachable booted \<and> sender (SliderMoved 7) = Some LenSlider
   \<and> (enabled (SliderMoved 7) booted \<longleftrightarrow> visible LenSlider booted \<and> aimed (SliderMoved 7) booted)"
proof -
  have "sender (SliderMoved 7) = Some LenSlider"
    by (simp add: sender_def)
  from reachable_enabled [OF reachable_booted this] reachable_booted this show ?thesis
    by simp
qed

end
