(* ===== verification/View_Spec.thy ===== *)
theory View_Spec
  imports Event_Loop
begin

text \<open>
  What the graphical shell promises, and that the window keeps the promise. The
  specification describes the shell as a thin layer that calls the core and displays
  its results. \<open>view\<close> is the state of such a layer: the request last made of the core,
  the answer on display, the rating shown for it, and the clipboard. \<open>spec_step\<close> is
  what it may do: make a request with a length between 4 and 64 and show an answer the
  facade's contract \<open>generates\<close> allows for it together with the rating \<open>strength_spec\<close>
  gives that answer; copy the text on display; or leave the view as it is.

  \<open>view_of\<close> reads a view off a window and \<open>action_of\<close> names the action an event of the
  window stands for. The lemmas show that \<open>view_of\<close> is a simulation: the window starts
  in an initial view, and every step of \<open>Event_Loop.step\<close> from a reachable state is the
  \<open>spec_step\<close> of its action.
\<close>

section \<open>The specification\<close>

type_synonym answer = "string option \<times> string option"

record view =
  wanted_length :: int
  wanted_classes :: "char_class set"
  wanted_exclude :: bool
  shown :: answer
  rated :: "string \<times> int"
  clip :: string

datatype action = Regenerate int "char_class set" bool | Copy | Idle

definition text_of :: "answer \<Rightarrow> string" where
  "text_of r = (case r of (Some pw, _) \<Rightarrow> pw | (None, Some e) \<Rightarrow> e | (None, None) \<Rightarrow> [])"

definition rating_of :: "answer \<Rightarrow> string \<times> int" where
  "rating_of r =
     (let pw = (case r of (Some pw, _) \<Rightarrow> pw | (None, _) \<Rightarrow> [])
      in (label_name (fst (strength_spec pw)), snd (strength_spec pw)))"

inductive spec_init :: "view \<Rightarrow> bool" where
  first: "generates UNIV False 18 r \<Longrightarrow>
     spec_init \<lparr>wanted_length = 18, wanted_classes = UNIV, wanted_exclude = False, shown = r,
       rated = rating_of r, clip = c\<rparr>"

inductive spec_step :: "view \<Rightarrow> action \<Rightarrow> view \<Rightarrow> bool" where
  regenerate: "4 \<le> n \<Longrightarrow> n \<le> 64 \<Longrightarrow> generates cs ex n r \<Longrightarrow>
     spec_step v (Regenerate n cs ex)
       (v\<lparr>wanted_length := n, wanted_classes := cs, wanted_exclude := ex, shown := r,
          rated := rating_of r\<rparr>)"
| copy: "spec_step v Copy (v\<lparr>clip := text_of (shown v)\<rparr>)"
| idle: "spec_step v Idle v"

inductive spec_reachable :: "view \<Rightarrow> bool" where
  initial: "spec_init v \<Longrightarrow> spec_reachable v"
| later: "spec_reachable v \<Longrightarrow> spec_step v a v' \<Longrightarrow> spec_reachable v'"

inductive_cases spec_stepE: "spec_step v a v'"

section \<open>The window as an implementation\<close>

definition classes_of :: "gui_app \<Rightarrow> char_class set" where
  "classes_of g = set (selected (checked (upper_var g)) (checked (lower_var g))
     (checked (numbers_var g)) (checked (symbols_var g)))"

definition view_of :: "gui_app \<Rightarrow> view" where
  "view_of g =
     \<lparr>wanted_length = len_var g, wanted_classes = classes_of g,
      wanted_exclude = checked (exclude_similar_var g),
      shown = (if any_class g then (Some (password_display g), None)
               else (None, Some (password_display g))),
      rated = (strength_property g, strength_bar g), clip = clipboard g\<rparr>"

definition action_of :: "gui_event \<Rightarrow> gui_app \<Rightarrow> action" where
  "action_of ev g =
     (case ev of
        SliderMoved v \<Rightarrow>
          if max 4 (min 64 v) = len_slider g then Idle
          else Regenerate (max 4 (min 64 v)) (classes_of g) (checked (exclude_similar_var g))
      | SwitchClicked k pos \<Rightarrow>
          (let g' = put_switch k (set_checked (\<not> checked (switch_of k g)) (switch_of k g)) g
           in Regenerate (len_var g) (classes_of g') (checked (exclude_similar_var g')))
      | GenerateClicked \<Rightarrow> Regenerate (len_var g) (classes_of g) (checked (exclude_similar_var g))
      | CopyClicked \<Rightarrow> Copy
      | _ \<Rightarrow> Idle)"

section \<open>The simulation\<close>

lemma classes_of_empty [simp]: "classes_of g = {} \<longleftrightarrow> \<not> any_class g"
  by (simp add: classes_of_def any_class_def)

lemma text_of_shown [simp]: "text_of (shown (view_of g)) = password_display g"
  by (simp add: view_of_def text_of_def)

lemma shown_generated:
  assumes "display_ok g"
  shows "generates (classes_of g) (checked (exclude_similar_var g)) (len_var g) (shown (view_of g))"
  using assms
  by (simp add: display_ok_spec view_of_def classes_of_def [symmetric] generates_password_iff
      generates_error_iff split: if_splits)

lemma rated_shown:
  assumes "meter_ok g"
  shows "rated (view_of g) = rating_of (shown (view_of g))"
  using assms
  by (simp add: meter_ok_def meter_shows_def view_of_def rating_of_def check_strength_unfold
      strength_spec_def Let_def)

lemma view_regenerated:
  assumes "display_ok g'" "meter_ok g'" "4 \<le> len_var g'" "len_var g' \<le> 64"
    and "clipboard g' = clipboard g"
  shows "spec_step (view_of g)
     (Regenerate (len_var g') (classes_of g') (checked (exclude_similar_var g'))) (view_of g')"
proof -
  have "view_of g' = (view_of g)\<lparr>wanted_length := len_var g', wanted_classes := classes_of g',
      wanted_exclude := checked (exclude_similar_var g'), shown := shown (view_of g'),
      rated := rating_of (shown (view_of g'))\<rparr>"
    using rated_shown [OF assms(2)] assms(5) by (simp add: view_of_def)
  with assms(3,4) shown_generated [OF assms(1)] show ?thesis
    by (metis spec_step.regenerate)
qed

lemma view_kept:
  assumes "checked (upper_var g') = checked (upper_var g)"
    and "checked (lower_var g') = checked (lower_var g)"
    and "checked (numbers_var g') = checked (numbers_var g)"
    and "checked (symbols_var g') = checked (symbols_var g)"
    and "checked (exclude_similar_var g') = checked (exclude_similar_var g)"
    and "len_var g' = len_var g" "password_display g' = password_display g"
    and "strength_bar g' = strength_bar g" "strength_property g' = strength_property g"
    and "clipboard g' = clipboard g"
  shows "view_of g' = view_of g"
  using assms by (simp add: view_of_def classes_of_def any_class_def)

lemma init_view:
  assumes "init current_dir dims (unbuilt fs w) = (Inr (), g)"
  shows "spec_init (view_of (show_window g))"
proof -
  from assms have g: "g = snd (generate_and_display (built current_dir dims (unbuilt fs w)))"
    and ok: "fst (generate_and_display (built current_dir dims (unbuilt fs w))) = Inr ()"
    by (simp_all add: init_built)
  have same: "view_of (show_window g) = view_of g"
    by (rule view_kept) (simp_all add: show_window_def)
  have "classes_of g = UNIV"
    by (auto simp: g classes_of_def selected_def intro: char_class.exhaust)
  moreover have "len_var g = 18" "\<not> checked (exclude_similar_var g)"
    by (simp_all add: g)
  moreover note shown_generated [OF generate_and_display_ok(1) [OF ok], folded g]
    rated_shown [OF generate_and_display_ok(2) [OF ok], folded g]
  ultimately have "view_of g = \<lparr>wanted_length = 18, wanted_classes = UNIV, wanted_exclude = False,
      shown = shown (view_of g), rated = rating_of (shown (view_of g)), clip = clipboard g\<rparr>"
    "generates UNIV False 18 (shown (view_of g))"
    by (simp_all add: view_of_def)
  then show ?thesis
    unfolding same by (metis spec_init.first)
qed

lemma step_view:
  assumes "reachable g" "step g ev g'"
  shows "spec_step (view_of g) (action_of ev g) (view_of g')"
proof -
  from assms(2) have en: "enabled ev g" and run: "dispatch ev g = (Inr (), g')"
    by (simp_all add: step_iff)
  then have g': "g' = snd (dispatch ev g)" and ok: "fst (dispatch ev g) = Inr ()"
    by simp_all
  from assms(1) have inv: "consistent g"
    by (rule reachable_consistent)
  then have inv': "consistent g'"
    unfolding g' using en ok by (rule dispatch_consistent)
  then have post: "display_ok g'" "meter_ok g'" "4 \<le> len_var g'" "len_var g' \<le> 64"
    by (simp_all add: consistent_def length_ok_def)
  show ?thesis
  proof (cases ev)
    case (SliderMoved v)
    show ?thesis
    proof (cases "max 4 (min 64 v) = len_slider g")
      case True
      with SliderMoved show ?thesis
        by (simp add: g' action_of_def handler_defs Let_def spec_step.idle)
    next
      case False
      with SliderMoved have "clipboard g' = clipboard g" "len_var g' = max 4 (min 64 v)"
        "classes_of g' = classes_of g"
        "checked (exclude_similar_var g') = checked (exclude_similar_var g)"
        by (simp_all add: g' handler_defs Let_def classes_of_def)
      with view_regenerated [OF post, of g] SliderMoved False show ?thesis
        by (simp add: action_of_def)
    qed
  next
    case (SwitchClicked k pos)
    let ?g = "put_switch k (set_checked (\<not> checked (switch_of k g)) (switch_of k g)) g"
    from SwitchClicked have "clipboard g' = clipboard g" "len_var g' = len_var g"
      "classes_of g' = classes_of ?g"
      "checked (exclude_similar_var g') = checked (exclude_similar_var ?g)"
      by (simp_all add: g' handler_defs classes_of_def)
    with view_regenerated [OF post, of g] SwitchClicked show ?thesis
      by (simp add: action_of_def Let_def)
  next
    case GenerateClicked
    then have "clipboard g' = clipboard g" "len_var g' = len_var g" "classes_of g' = classes_of g"
      "checked (exclude_similar_var g') = checked (exclude_similar_var g)"
      by (simp_all add: g' handler_defs classes_of_def)
    with view_regenerated [OF post, of g] GenerateClicked show ?thesis
      by (simp add: action_of_def)
  next
    case CopyClicked
    then have "view_of g' = (view_of g)\<lparr>clip := text_of (shown (view_of g))\<rparr>"
      by (simp add: g' handler_defs, simp add: view_of_def classes_of_def any_class_def text_of_def)
    with CopyClicked spec_step.copy [of "view_of g"] show ?thesis
      by (simp add: action_of_def)
  qed (simp add: action_of_def, subst view_kept [of g' g]; simp add: g' handler_defs Let_def spec_step.idle)+
qed

lemma reachable_view: "reachable g \<Longrightarrow> spec_reachable (view_of g)"
proof (induction rule: reachable.induct)
  case (shown current_dir dims fs w g)
  then show ?case
    by (intro spec_reachable.initial init_view)
next
  case (after g ev g')
  then show ?case
    by (blast intro: spec_reachable.later step_view)
qed

section \<open>The window refines its specification\<close>

lemma booted_copied: "step booted CopyClicked copied"
  by (simp add: step_iff copied_def enabled_def dispatch_def)

text \<open>
  C13. The window implements the specification of the shell. The view of every state
  the window can reach is a view the specification can reach, and every step of the
  window from such a state is the step the specification allows for the action the
  event stands for: a moved slider, a clicked switch and the generate button show an
  answer of the core for the new request together with its rating, the copy button
  copies the text on display, and every other event leaves the view as it is.
\<close>

theorem window_refines_view:
  assumes "reachable g"
  shows "spec_reachable (view_of g)
    \<and> (\<forall>ev g'. step g ev g' \<longrightarrow> spec_step (view_of g) (action_of ev g) (view_of g'))"
  using assms by (blast intro: reachable_view step_view)

theorem window_refines_view_witness:
  "reachable booted \<and> spec_reachable (view_of booted) \<and> step booted CopyClicked copied
   \<and> spec_step (view_of booted) Copy (view_of copied)"
proof -
  from window_refines_view [OF reachable_booted] booted_copied
  have "spec_reachable (view_of booted)"
    and "spec_step (view_of booted) (action_of CopyClicked booted) (view_of copied)"
    by blast+
  with reachable_booted booted_copied show ?thesis
    by (simp add: action_of_def)
qed

end
