(* ===== verification/Spec2Isabelle.thy ===== *)
theory Spec2Isabelle
  imports Prelude Charsets Strength Random_Source Pool_Builder Generator Python_Builtins CLI Widgets Layout
    GUI Event_Loop Signals View_Spec
begin

text \<open>
  A verification development for the random password generator of this repository.

  \<^bold>\<open>The program.\<close> The core is \<^verbatim>\<open>src/password_logic.py\<close>: six character-set
  constants and two functions. \<open>generate_password\<close> builds a pool of characters from
  four class flags, optionally removes the similar-looking characters, and draws the
  requested number of characters with \<open>secrets.choice\<close>; it returns a pair of a password
  and an error message. \<open>check_strength\<close> rates a string with a label and a score. Two
  shells call the core: \<^verbatim>\<open>src/main.py\<close> installs the dependencies, shows a menu and runs
  a dialogue on the console (\<open>run_cli\<close>); \<^verbatim>\<open>src/gui_app.py\<close> is a window whose handlers
  generate a password on every change of a setting and show it with its rating.

  \<^bold>\<open>The theories\<close>, in import order. Each opens with a description of its own.
  \<^item> \<open>Prelude\<close>: the fact collections, the types that stand for Python values
    (\<open>py_exception\<close>, the \<open>entropy\<close> tape, results that may raise), generic lemmas on lists.
  \<^item> \<open>Charsets\<close>: the constants of \<^verbatim>\<open>password_logic.py\<close> (lines 7 to 13), the type
    \<open>char_class\<close> of the specification's four classes; sizes, codes, distinctness and
    disjointness of the sets, and what exclusion leaves of each.
  \<^item> \<open>Strength\<close>: \<open>check_strength\<close> (lines 49 to 90) statement by statement, the scoring
    rules of the specification (\<open>strength_spec\<close>), and the proof that the code computes
    them; bounds, monotonicity and the characterisation of each label follow from that.
  \<^item> \<open>Random_Source\<close>: \<open>secrets.choice\<close> over the entropy tape.
  \<^item> \<open>Pool_Builder\<close>: lines 19 to 37 of \<open>generate_password\<close> (\<open>class_chars\<close>,
    \<open>without_similar\<close>, \<open>build_pool\<close>) and the pool the specification asks for
    (\<open>pool_spec\<close>); the pool is never empty once a class is selected.
  \<^item> \<open>Generator\<close>: the sampler (\<open>sample\<close>, line 41) and \<open>generate_password\<close> as a whole
    (lines 15 to 46); closed forms of the result for every request and every state of
    the random source, the facade's contract as the relation \<open>generates\<close> and the
    refinement, and the one-to-one correspondence between tapes and passwords.
  \<^item> \<open>Python_Builtins\<close>: the console as a \<open>world\<close> and the built-in functions the
    shells call (\<open>print\<close>, \<open>input\<close>, \<open>int\<close>, \<open>str\<close>, \<open>str.lower\<close>); \<open>int\<close> reads back
    what \<open>str\<close> writes.
  \<^item> \<open>CLI\<close>: \<^verbatim>\<open>main.py\<close>: \<open>install_dependencies\<close>, \<open>run_cli\<close> with its length loop
    \<open>read_length\<close> and its questions \<open>ask\<close>, the menu loop \<open>menu\<close> and the script body
    \<open>main\<close>; closed forms of whole sessions, the exceptions that can leave them. The
    graphical shell enters as the field \<open>gui_module\<close> of the environment: an
    \<open>ImportError\<close>, or a function on the world.
  \<^item> \<open>Widgets\<close>: the widgets \<^verbatim>\<open>gui_app.py\<close> defines itself. \<open>create_icon\<close> (lines 110 to
    131) and \<open>ToggleSwitch\<close> (lines 14 to 69) with every method; painting is the list
    of calls made on the painter, an animation is a record whose frames and end Qt
    delivers. Lemmas: what is painted and where, and which statements about the knob of
    a switch every operation preserves.
  \<^item> \<open>Layout\<close>: the widget tree as data: widgets named by \<open>part\<close>, setter calls and
    signal connections as \<open>setting\<close>s, layouts as \<open>item\<close>s; functions that build and
    read a tree.
  \<^item> \<open>GUI\<close>: the class \<open>GuiApp\<close> (lines 72 to 316): the window as the record
    \<open>gui_app\<close>, the constructor and its three helpers building the state and the widget
    tree call by call, one function per handler. Lemmas: closed forms of
    \<open>generate_and_display\<close>, what each handler leaves unchanged, and the window as
    built (\<open>built\<close>, \<open>window_tree\<close>).
  \<^item> \<open>Event_Loop\<close>: \<open>run_gui\<close> (lines 318 to 323) and the Qt event loop: events,
    \<open>enabled\<close>, \<open>dispatch\<close>, \<open>exec\<close>, the relation \<open>step\<close> and the \<open>reachable\<close> states
    (those a run reaches in which no handler raised); the invariant \<open>consistent\<close> by
    rule induction, whole runs, what still holds of a run in which handlers raise
    and how it recovers, and where the knob of a switch rests that nobody clicks.
  \<^item> \<open>Signals\<close>: the event loop derived from the widget tree: visibility of the sender
    and the slots connected to it; proved equal to \<open>enabled\<close> and \<open>dispatch\<close>.
  \<^item> \<open>View_Spec\<close>: the specification of the graphical shell as a layer over the core
    (\<open>view\<close>, \<open>spec_step\<close>) and the simulation that shows the window implements it.
  \<^item> This theory: \<open>gui_shell\<close>, the window as \<^verbatim>\<open>main.py\<close> launches it, and the
    properties that span components: the generator with the scorer, and the script
    with the window.

  \<^bold>\<open>How the components interact.\<close> The shells call the core through its two functions
  only. \<open>CLI.menu\<close> is stated over any function on the world in the place of the
  graphical shell; this theory puts \<open>run_gui\<close> there. \<open>GUI\<close> uses the switch of
  \<open>Widgets\<close> through \<open>set_checked\<close> and \<open>checked\<close>; \<open>Event_Loop\<close> and \<open>Signals\<close> agree on
  the datatype \<open>gui_event\<close> and on \<open>dispatch\<close>; \<open>View_Spec\<close> relates the window to the
  contracts \<open>generates\<close> and \<open>strength_spec\<close> of the core.

  \<^bold>\<open>How the code is read.\<close> A \<open>str\<close> is a list of characters, an \<open>int\<close> an integer, a
  flag a truth value. A function that can raise returns a sum, \<open>Inl\<close> for the
  exception; the pair \<open>(password, error)\<close> of the facade is a pair of options. A function
  with an effect takes the state it acts on and returns it: the entropy tape for the
  generator, the \<open>world\<close> (input lines, output text, tape) for the command-line shell,
  the record \<open>gui_app\<close> for the window. A widget the code only configures is a node
  of the widget tree with the calls made on it; a widget whose state a handler reads
  or writes has that state as a field of \<open>gui_app\<close>. Loops are recursive functions: the sampler on the
  number of positions left, the two input loops of \<^verbatim>\<open>main.py\<close> on the lines of input
  left, proved terminating because every round reads a line.

  \<^bold>\<open>Bounds and what stands for the outside.\<close>
  \<^item> The random source is a finite tape of natural numbers, one per call of
    \<open>secrets.choice\<close>, reduced modulo the length of the pool; an exhausted tape is a
    source that is not available and raises \<open>RandomSourceUnavailable\<close>. That is the
    name \<^verbatim>\<open>spec.md\<close> gives to this failure and not a class of Python: it stands for
    whatever exception the operating system's source raises, which is not an
    \<open>IndexError\<close> and so passes the \<open>except\<close> clause of \<open>generate_password\<close>. A tape as long as
    the request is enough for \<open>generate_password\<close> to return a password; 18 values
    and 64 per event are enough for a whole run of the window, because the slider
    keeps the length between 4 and 64. Both are proved, in \<open>Generator\<close> and in
    \<open>Event_Loop\<close>.
  \<^item> Standard input is a finite list of lines; reading past its end raises \<open>EOFError\<close>,
    which is why the input loops end in every world.
  \<^item> Characters are the code points below 256. The reference sets are ASCII, so for the
    generator this is no restriction, and the scorer treats a code point above 255
    like any other character outside its reference sets. For the console this is a
    bound: Python's \<open>int\<close> also reads the decimal digits of other scripts,
    \<open>str.strip\<close> also removes white space above 255 and \<open>str.lower\<close> also folds
    letters above 255; a line of input with such characters is outside the model.
  \<^item> \<open>py_int\<close> and \<open>py_str\<close> have no limit on the number of digits. CPython from
    version 3.11 refuses to convert more than 4300 digits unless the limit is
    switched off, so for an input line with more digits than that the model follows
    an interpreter without the limit.
  \<^item> What \<open>pip\<close> does and whether the graphical shell can be imported are parameters
    (\<open>environment\<close>); the files the window reads are a list of paths with their
    contents; the events of a session and the exit status of the event loop are
    parameters of \<open>run_gui\<close>.
  \<^item> The size Qt gives a widget is a parameter: \<open>dims\<close> is the size of a switch when it
    is constructed, and the event \<open>SwitchResized\<close> is the layout giving it another. The
    sample states use 640 by 480, the size of a new widget without a parent, and the
    size hint 45 by 25 of the switch. \<open>contents_rect\<close> is \<open>contentsRect()\<close> of a widget
    without content margins, which is what Qt gives a widget nobody sets margins on;
    nothing under \<^verbatim>\<open>src/\<close> does.
  \<^item> An animation is not followed in time: Qt may deliver any position between its
    start and end values while it runs (\<open>frame_allowed\<close>), and its end at any point.

  \<^bold>\<open>What is not modelled.\<close> What Qt computes from the widget tree: the pixel geometry
  of the layouts, the rendering of the style sheets (their text is loaded, their
  rules are not read), fonts, and the pixels an antialiased shape covers; the tree and
  the painter calls the code makes are modelled, their rendering is Qt's. The easing
  curve and the duration of the animation are recorded and not interpreted.
  \<open>os.chdir\<close> in \<^verbatim>\<open>main.py\<close>: no modelled operation depends on the working
  directory. The statistical quality of the operating system's random source: the
  development shows that the generator adds no bias to it, not that the source is
  uniform. Time: a single-shot timer is an event that may fire at any later point.
\<close>

section \<open>The program\<close>

text \<open>
  \<open>gui_shell\<close> is what \<open>import gui_app\<close> followed by \<open>gui_app.run_gui()\<close> is to the menu of
  \<^verbatim>\<open>src/main.py\<close>: the function \<open>run_gui\<close> of theory \<open>Event_Loop\<close> on the world the menu
  has reached, for the installation directory, the style sheets, the user's events and
  the exit status of one session. \<open>desktop\<close> is an environment in which the import
  succeeds, and \<open>chooser\<close> a world whose user picks the graphical mode at the second
  attempt.
\<close>

definition gui_shell ::
  "string \<Rightarrow> int \<times> int \<Rightarrow> (string \<times> string) list \<Rightarrow> gui_event list \<Rightarrow> int
     \<Rightarrow> world \<Rightarrow> unit raising \<times> world"
where
  "gui_shell current_dir dims fs evs status w =
     (case run_gui current_dir dims fs evs status w of (r, g) \<Rightarrow> (r, console g))"

definition desktop :: environment where
  "desktop = \<lparr>executable = ''python3'', pip = PipInstalled,
     gui_module = Imported (gui_shell ''/app'' (640, 480) themes [GenerateClicked, CopyClicked] 0)\<rparr>"

definition chooser :: world where
  "chooser = \<lparr>stdin = [''x'', ''2'', ''later''], stdout = [], source = [0..<200]\<rparr>"

section \<open>Rating what the generator returns\<close>

lemma classes_present_subset:
  assumes "set pw \<subseteq> pool_spec ks ex"
  shows "classes_present pw \<subseteq> ks"
proof
  fix k assume "k \<in> classes_present pw"
  then obtain c where c: "c \<in> set pw" "c \<in> set (reference_set k)"
    by (auto simp: classes_present_mem)
  with assms obtain k' where "k' \<in> ks" "c \<in> set (reference_set k')"
    by (auto simp: pool_spec_def)
  with c reference_set_unique [of c k k'] show "k \<in> ks" by simp
qed

lemma generated_classes:
  assumes "generate_password len u l n s ex rng = (Inr (Some pw, e), rng')"
  shows "length pw = nat len" "classes_present pw \<subseteq> set (selected u l n s)"
  using generate_password_SomeD(1,2) [OF assms]
  by (simp_all add: set_the_pool classes_present_subset)

lemma run_strong:
  "generate_password 12 True True True True False [0, 26, 52, 62, 1, 27, 53, 64, 2, 28, 54, 65]
     = (Inr (Some ''Aa0!Bb1#Cc2$'', None), [])"
  by (simp add: generate_password_some the_pool_def class_chars_def charset_defs)

text \<open>
  C18. A password returned by \<open>generate_password\<close> holds characters of selected
  classes only, so \<open>check_strength\<close> gives it at most the score of a password of the
  requested length in which every selected class is present.
\<close>

theorem generated_strength_cap:
  assumes "generate_password len u l n s ex rng = (Inr (Some pw, e), rng')"
  shows "classes_present pw \<subseteq> set (selected u l n s)
    \<and> snd (check_strength pw) \<le> score_spec (nat len) (set (selected u l n s))"
proof -
  note gen = generated_classes [OF assms]
  then have "score_spec (length pw) (classes_present pw)
      \<le> score_spec (nat len) (set (selected u l n s))"
    by (intro score_spec_mono) simp_all
  with gen(2) show ?thesis
    by (simp add: snd_check_strength)
qed

theorem generated_strength_cap_witness:
  "generate_password 3 True False False False False [0, 27, 2, 5] = (Inr (Some ''ABC'', None), [5])
   \<and> classes_present ''ABC'' \<subseteq> set (selected True False False False)
   \<and> snd (check_strength ''ABC'') \<le> score_spec (nat 3) (set (selected True False False False))"
  using generated_strength_cap [OF run_ABC] run_ABC by simp

text \<open>
  C23. \<open>check_strength\<close> rates a password returned by \<open>generate_password\<close> as
  \<open>STRONG\<close> only if the request asked for at least 12 characters and selected at least
  three classes.
\<close>

theorem generated_strong_needs:
  assumes "generate_password len u l n s ex rng = (Inr (Some pw, e), rng')"
    and "fst (check_strength pw) = ''STRONG''"
  shows "12 \<le> len \<and> 3 \<le> length (selected u l n s)"
proof -
  note gen = generated_classes [OF assms(1)]
  from gen(2) have "card (classes_present pw) \<le> card (set (selected u l n s))"
    by (intro card_mono) simp_all
  also have "\<dots> = length (selected u l n s)"
    by (simp add: distinct_card)
  finally have "card (classes_present pw) \<le> length (selected u l n s)" .
  moreover from assms(2) have "(card (classes_present pw) = 4 \<and> 12 \<le> length pw)
      \<or> (card (classes_present pw) = 3 \<and> 16 \<le> length pw)"
    unfolding fst_check_strength
    by (cases "pw = []") (simp_all add: label_spec_STRONG_iff score_spec_ge7_iff
        label_name_inj [of _ STRONG, simplified])
  ultimately show ?thesis using gen(1) by auto
qed

theorem generated_strong_needs_witness:
  "generate_password 12 True True True True False [0, 26, 52, 62, 1, 27, 53, 64, 2, 28, 54, 65]
     = (Inr (Some ''Aa0!Bb1#Cc2$'', None), [])
   \<and> fst (check_strength ''Aa0!Bb1#Cc2$'') = ''STRONG''
   \<and> 12 \<le> (12 :: int) \<and> 3 \<le> length (selected True True True True)"
proof -
  have strong: "fst (check_strength ''Aa0!Bb1#Cc2$'') = ''STRONG''"
    by (simp add: check_strength_def charset_defs)
  from generated_strong_needs [OF run_strong strong] run_strong strong show ?thesis
    by simp
qed

section \<open>From the menu to the window\<close>

lemma gui_shell_run:
  assumes "18 + 64 * length evs \<le> length (source w)"
  shows "\<exists>g. reachable g \<and> gui_shell current_dir dims fs evs status w = (Inl (SystemExit status), console g)
    \<and> stdin (console g) = stdin w
    \<and> length (source w) \<le> length (source (console g)) + 18 + 64 * length evs"
  using run_gui_run [OF assms, of current_dir dims fs status]
    run_gui_stdin [of current_dir dims fs evs status w]
  by (auto simp: gui_shell_def split: prod.splits)

text \<open>
  C17. With the dependencies installed and the graphical shell importable, a user who
  picks mode \<open>2\<close> after any number of invalid choices gets the window: when the random
  source holds 18 values for the first password and 64 for each event of the session,
  the script ends with the exit status of the event loop, in the console of a window
  state that is reachable and whose view the specification of the shell allows; the
  window has read nothing from the input and at most that many values from the random
  source.
\<close>

theorem main_runs_gui:
  assumes "pip env = PipInstalled"
    and "gui_module env = Imported (gui_shell current_dir dims fs evs status)"
    and "stdin w = invalid @ ''2'' # rest" and "\<forall>c\<in>set invalid. c \<noteq> ''1'' \<and> c \<noteq> ''2''"
    and "18 + 64 * length evs \<le> length (source w)"
  shows "\<exists>g. reachable g \<and> spec_reachable (view_of g)
    \<and> main env w = (Inl (SystemExit status), console g) \<and> stdin (console g) = rest
    \<and> length (source w) \<le> length (source (console g)) + 18 + 64 * length evs"
proof -
  let ?w = "w\<lparr>stdin := rest, stdout := stdout w @ ''Checking for required packages...'' @ [CHR 0x0A]
    @ ''Dependencies are up to date.'' @ [CHR 0x0A]
    @ concat (replicate (length invalid) menu_round) @ launching\<rparr>"
  from main_gui [OF assms(1,3,4)] assms(2)
  have "main env w = gui_shell current_dir dims fs evs status ?w"
    by (simp add: Let_def)
  moreover from assms(5) have "18 + 64 * length evs \<le> length (source ?w)"
    by simp
  from gui_shell_run [OF this, of current_dir dims fs status]
  obtain g where "reachable g"
    "gui_shell current_dir dims fs evs status ?w = (Inl (SystemExit status), console g)"
    "stdin (console g) = rest"
    "length (source w) \<le> length (source (console g)) + 18 + 64 * length evs"
    by auto
  ultimately show ?thesis
    by (auto intro: reachable_view)
qed

theorem main_runs_gui_witness:
  "pip desktop = PipInstalled
   \<and> gui_module desktop = Imported (gui_shell ''/app'' (640, 480) themes [GenerateClicked, CopyClicked] 0)
   \<and> stdin chooser = [''x''] @ ''2'' # [''later''] \<and> ''x'' \<noteq> ''1'' \<and> ''x'' \<noteq> ''2''
   \<and> 18 + 64 * length [GenerateClicked, CopyClicked] \<le> length (source chooser)
   \<and> (\<exists>g. reachable g \<and> spec_reachable (view_of g)
        \<and> main desktop chooser = (Inl (SystemExit 0), console g) \<and> stdin (console g) = [''later'']
        \<and> length (source chooser)
            \<le> length (source (console g)) + 18 + 64 * length [GenerateClicked, CopyClicked])"
proof -
  have 1: "pip desktop = PipInstalled"
    and 2: "gui_module desktop
      = Imported (gui_shell ''/app'' (640, 480) themes [GenerateClicked, CopyClicked] 0)"
    and 3: "stdin chooser = [''x''] @ ''2'' # [''later'']"
    and 4: "\<forall>c\<in>set [''x'']. c \<noteq> ''1'' \<and> c \<noteq> ''2''"
    and 5: "18 + 64 * length [GenerateClicked, CopyClicked] \<le> length (source chooser)"
    by (simp_all add: desktop_def chooser_def)
  from main_runs_gui [OF 1 2 3 4 5] 1 2 3 5 show ?thesis
    by simp
qed

end
